theory Spec2Isabelle
  imports Complex_Main "HOL-Library.Multiset" "HOL-Library.Product_Lexorder"
begin

section \<open>Hybrid search over the FM Global content store\<close>

text \<open>
  The search functions of the repository are PL/pgSQL functions
  (\<^verbatim>\<open>sql/fix_fm_functions.sql\<close>, the schema file and the unified search file) and one
  TypeScript agent class. Each SQL query is modelled as the list pipeline it denotes:
  a table is the list of its rows in scan order, \<^verbatim>\<open>WHERE\<close> is \<open>filter\<close>,
  \<^verbatim>\<open>ORDER BY\<close> is a stable sort on the sort key, \<^verbatim>\<open>LIMIT\<close> is \<open>take\<close>,
  a nullable column is an \<open>option\<close>. SQL fixes no order among rows with equal sort keys
  and none at all for a query without \<^verbatim>\<open>ORDER BY\<close>; the model resolves both by
  the scan order of the table, so that the scan order stands for every choice the
  executor is free to make. \<^verbatim>\<open>float\<close> values are modelled as reals: rounding is
  not modelled, and neither is the value NaN, which pgvector returns as the cosine distance
  of a vector of norm 0. The arguments of a call are not NULL, and
  \<^verbatim>\<open>ORDER BY ... LIMIT\<close> is evaluated exactly (an approximate index scan is not
  modelled). A PL/pgSQL function that ends in \<^verbatim>\<open>RETURN QUERY\<close> is the statement after
  these words together with the check of the statement's column types against the declared
  result type; the statement and the function are separate definitions.

  Some operators come from PostgreSQL and pgvector, not from the repository, and are
  parameters of the model, collected in the record \<open>postgres\<close>: the cosine distance
  \<^verbatim>\<open><=>\<close> on the type \<^verbatim>\<open>vector(1536)\<close> (the type variable \<open>'e\<close>), the
  \<^verbatim>\<open>'english'\<close> text search configuration that turns a text into its lexemes, and
  the two ranking functions \<^verbatim>\<open>ts_rank\<close> and \<^verbatim>\<open>ts_rank_cd\<close>.
\<close>

subsection \<open>Data model\<close>

type_synonym uuid = nat
type_synonym jsonb = string
type_synonym tsvector = "string list"
type_synonym tsquery = "string list"

record 'e postgres =
  cosine_distance :: "'e \<Rightarrow> 'e \<Rightarrow> real"
  english :: "string \<Rightarrow> string list"
  ts_rank :: "tsvector \<Rightarrow> tsquery \<Rightarrow> real"
  ts_rank_cd :: "tsvector \<Rightarrow> tsquery \<Rightarrow> real"

text \<open>Rows of \<^verbatim>\<open>fm_global_tables\<close>, \<^verbatim>\<open>fm_global_figures\<close> and
  \<^verbatim>\<open>fm_global_vectors\<close>, with the columns the search functions of
  \<^verbatim>\<open>sql/fix_fm_functions.sql\<close> read; a column \<^verbatim>\<open>x.c\<close> of the source is the
  field \<open>x_c\<close>. \<open>f_figure_number\<close> holds \<^verbatim>\<open>f.figure_number::text\<close>. The
  identifiers are primary keys; where a property needs that, it is a hypothesis.\<close>

record fm_global_table =
  t_id :: uuid
  t_table_id :: "string option"
  t_title :: "string option"
  t_asrs_type :: "string option"

record fm_global_figure =
  f_id :: uuid
  f_figure_number :: "string option"
  f_title :: "string option"
  f_asrs_type :: "string option"

record 'e fm_global_vector =
  v_id :: uuid
  v_content_id :: "uuid option"
  v_content_type :: string
  v_content :: string
  v_embedding :: "'e option"
  v_metadata :: "jsonb option"

record 'e database =
  fm_global_vectors :: "'e fm_global_vector list"
  fm_global_tables :: "fm_global_table list"
  fm_global_figures :: "fm_global_figure list"

text \<open>The errors of a search call. PostgreSQL raises \<open>DatatypeMismatch\<close> (SQLSTATE
  42804) when the columns of a \<^verbatim>\<open>RETURN QUERY\<close> do not have the declared result
  types, \<open>IntegerOutOfRange\<close> for \<^verbatim>\<open>match_count * 2\<close> and \<open>NegativeLimit\<close> for a
  negative \<^verbatim>\<open>LIMIT\<close>; \<open>EmptyQuery\<close> and \<open>DimensionMismatch\<close> are the two errors the
  specification names.\<close>

datatype search_error =
  DatatypeMismatch | IntegerOutOfRange | NegativeLimit | EmptyQuery | DimensionMismatch

subsection \<open>SQL operators\<close>

definition coalesce :: "'a option \<Rightarrow> 'a option \<Rightarrow> 'a option" where
  "coalesce a b = (case a of Some x \<Rightarrow> Some x | None \<Rightarrow> b)"

definition coalesce0 :: "real option \<Rightarrow> real" where
  "coalesce0 a = (case a of Some x \<Rightarrow> x | None \<Rightarrow> 0)"

definition left_join :: "'a list \<Rightarrow> 'b list \<Rightarrow> ('a \<Rightarrow> 'b \<Rightarrow> bool) \<Rightarrow> ('a \<times> 'b option) list" where
  "left_join xs ys on =
     concat (map (\<lambda>x. case filter (on x) ys of
                          [] \<Rightarrow> [(x, None)]
                        | y # ms \<Rightarrow> map (\<lambda>m. (x, Some m)) (y # ms)) xs)"

definition full_outer_join ::
  "'a list \<Rightarrow> 'b list \<Rightarrow> ('a \<Rightarrow> 'b \<Rightarrow> bool) \<Rightarrow> ('a option \<times> 'b option) list" where
  "full_outer_join xs ys on =
     map (\<lambda>(x, m). (Some x, m)) (left_join xs ys on)
     @ map (\<lambda>y. (None, Some y)) (filter (\<lambda>y. \<not> list_ex (\<lambda>x. on x y) xs) ys)"

text \<open>\<^verbatim>\<open>ORDER BY k\<close> ascending puts NULL last; \<^verbatim>\<open>ORDER BY k DESC\<close> on a
  key that is never NULL sorts on the negated key.\<close>

definition nulls_last :: "real option \<Rightarrow> bool \<times> real" where
  "nulls_last k = (case k of Some x \<Rightarrow> (False, x) | None \<Rightarrow> (True, 0))"

definition order_by :: "('a \<Rightarrow> real option) \<Rightarrow> 'a list \<Rightarrow> 'a list" where
  "order_by k xs = sort_key (\<lambda>x. nulls_last (k x)) xs"

definition order_by_desc :: "('a \<Rightarrow> real) \<Rightarrow> 'a list \<Rightarrow> 'a list" where
  "order_by_desc k xs = sort_key (\<lambda>x. - k x) xs"

definition limit :: "int \<Rightarrow> 'a list \<Rightarrow> 'a list" where
  "limit n xs = take (nat n) xs"

definition int4 :: "int \<Rightarrow> bool" where
  "int4 n \<longleftrightarrow> - 2147483648 \<le> n \<and> n \<le> 2147483647"

text \<open>\<^verbatim>\<open>RETURN QUERY\<close> in PL/pgSQL does not cast: before it fetches a row it compares
  the types of the query's columns with the types that \<^verbatim>\<open>RETURNS TABLE\<close> declares,
  and raises when they differ. \<^verbatim>\<open>float\<close> is \<open>Float8\<close>; \<^verbatim>\<open>ts_rank\<close> and
  \<^verbatim>\<open>ts_rank_cd\<close> return \<^verbatim>\<open>real\<close>, which is \<open>Float4\<close>.\<close>

datatype sql_type = Uuid | Text | Float4 | Float8 | Jsonb

definition return_query ::
  "sql_type list \<Rightarrow> sql_type list \<Rightarrow> search_error + 'a list \<Rightarrow> search_error + 'a list" where
  "return_query declared columns query =
     (if columns = declared then query else Inl DatatypeMismatch)"

definition to_tsvector :: "'e postgres \<Rightarrow> string \<Rightarrow> tsvector" where
  "to_tsvector pg doc = english pg doc"

definition plainto_tsquery :: "'e postgres \<Rightarrow> string \<Rightarrow> tsquery" where
  "plainto_tsquery pg txt = english pg txt"

text \<open>\<^verbatim>\<open>tsvector @@ tsquery\<close> for the conjunction of lexemes that
  \<^verbatim>\<open>plainto_tsquery\<close> builds: every lexeme of the query occurs in the document; a
  query without lexemes matches nothing.\<close>

definition ts_match :: "tsvector \<Rightarrow> tsquery \<Rightarrow> bool" where
  "ts_match d q \<longleftrightarrow> q \<noteq> [] \<and> list_all (\<lambda>l. l \<in> set d) q"

subsection \<open>The \<^verbatim>\<open>FROM\<close> clause and the \<^verbatim>\<open>CASE\<close> columns shared by the searches\<close>

type_synonym 'e joined = "('e fm_global_vector \<times> fm_global_table option) \<times> fm_global_figure option"

definition from_vectors :: "'e database \<Rightarrow> 'e joined list" where
  "from_vectors db =
     left_join
       (left_join (fm_global_vectors db) (fm_global_tables db)
          (\<lambda>v t. v_content_id v = Some (t_id t) \<and> v_content_type v = ''table''))
       (fm_global_figures db)
       (\<lambda>(v, t) f. v_content_id v = Some (f_id f) \<and> v_content_type v = ''figure'')"

definition asrs_type_val :: "'e joined \<Rightarrow> string option" where
  "asrs_type_val j = (case j of ((v, t), f) \<Rightarrow>
     if v_content_type v = ''table'' then Option.bind t t_asrs_type
     else if v_content_type v = ''figure'' then Option.bind f f_asrs_type
     else None)"

definition reference_number :: "'e joined \<Rightarrow> string option" where
  "reference_number j = (case j of ((v, t), f) \<Rightarrow>
     if v_content_type v = ''table'' then Option.bind t t_table_id
     else if v_content_type v = ''figure''
       then map_option (\<lambda>n. ''Figure '' @ n) (Option.bind f f_figure_number)
     else None)"

definition reference_title :: "'e joined \<Rightarrow> string option" where
  "reference_title j = (case j of ((v, t), f) \<Rightarrow>
     if v_content_type v = ''table'' then Option.bind t t_title
     else if v_content_type v = ''figure'' then Option.bind f f_title
     else None)"

definition asrs_filter :: "string option \<Rightarrow> 'e joined \<Rightarrow> bool" where
  "asrs_filter filter_asrs_type j = (case j of ((v, t), f) \<Rightarrow>
     filter_asrs_type = None
     \<or> (v_content_type v = ''table'' \<and> filter_asrs_type \<noteq> None
          \<and> Option.bind t t_asrs_type = filter_asrs_type)
     \<or> (v_content_type v = ''figure'' \<and> filter_asrs_type \<noteq> None
          \<and> Option.bind f f_asrs_type = filter_asrs_type))"

definition distance :: "'e postgres \<Rightarrow> 'e \<Rightarrow> 'e joined \<Rightarrow> real option" where
  "distance pg query_embedding j =
     map_option (\<lambda>e. cosine_distance pg e query_embedding) (v_embedding (fst (fst j)))"

subsection \<open>\<^verbatim>\<open>hybrid_search_fm_global\<close> of \<^verbatim>\<open>sql/fix_fm_functions.sql\<close>\<close>

record vector_result =
  vr_id :: uuid
  vr_content_id :: "uuid option"
  vr_content_type :: string
  vr_content :: string
  vr_vector_score :: "real option"
  vr_metadata :: "jsonb option"
  vr_asrs_type_val :: "string option"
  vr_reference_number :: "string option"
  vr_reference_title :: "string option"

record text_result =
  tr_id :: uuid
  tr_content_id :: "uuid option"
  tr_content_type :: string
  tr_content :: string
  tr_text_score :: real
  tr_metadata :: "jsonb option"
  tr_asrs_type_val :: "string option"
  tr_reference_number :: "string option"
  tr_reference_title :: "string option"

record combined_row =
  c_vector_id :: "uuid option"
  c_source_id :: "uuid option"
  c_source_type :: "string option"
  c_content :: "string option"
  c_score :: real
  c_vector_similarity :: real
  c_text_similarity :: real
  c_metadata :: "jsonb option"
  c_asrs_topic :: "string option"
  c_reference_number :: "string option"
  c_reference_title :: "string option"
  c_content_type_final :: "string option"

record hybrid_row =
  vector_id :: "uuid option"
  source_id :: "uuid option"
  source_type :: "string option"
  content :: "string option"
  combined_score :: real
  vector_similarity :: real
  text_similarity :: real
  asrs_topic :: "string option"
  regulation_section :: "string option"
  design_parameter :: "string option"
  metadata :: "jsonb option"
  table_number :: "string option"
  figure_number :: "string option"
  reference_title_out :: "string option"

definition select_vector :: "'e postgres \<Rightarrow> 'e \<Rightarrow> 'e joined \<Rightarrow> vector_result" where
  "select_vector pg query_embedding j = (case j of ((v, t), f) \<Rightarrow>
     \<lparr> vr_id = v_id v,
       vr_content_id = v_content_id v,
       vr_content_type = v_content_type v,
       vr_content = v_content v,
       vr_vector_score = map_option (\<lambda>d. 1 - d) (distance pg query_embedding j),
       vr_metadata = v_metadata v,
       vr_asrs_type_val = asrs_type_val j,
       vr_reference_number = reference_number j,
       vr_reference_title = reference_title j \<rparr>)"

definition vector_results ::
  "'e postgres \<Rightarrow> 'e database \<Rightarrow> 'e \<Rightarrow> int \<Rightarrow> string option \<Rightarrow> vector_result list" where
  "vector_results pg db query_embedding match_count filter_asrs_type =
     map (select_vector pg query_embedding)
       (limit (match_count * 2)
          (order_by (distance pg query_embedding)
             (filter (asrs_filter filter_asrs_type) (from_vectors db))))"

definition text_score :: "'e postgres \<Rightarrow> string \<Rightarrow> 'e joined \<Rightarrow> real" where
  "text_score pg query_text j =
     ts_rank pg (to_tsvector pg (v_content (fst (fst j)))) (plainto_tsquery pg query_text)"

definition text_matches :: "'e postgres \<Rightarrow> string \<Rightarrow> 'e joined \<Rightarrow> bool" where
  "text_matches pg query_text j \<longleftrightarrow>
     ts_match (to_tsvector pg (v_content (fst (fst j)))) (plainto_tsquery pg query_text)"

definition select_text :: "'e postgres \<Rightarrow> string \<Rightarrow> 'e joined \<Rightarrow> text_result" where
  "select_text pg query_text j = (case j of ((v, t), f) \<Rightarrow>
     \<lparr> tr_id = v_id v,
       tr_content_id = v_content_id v,
       tr_content_type = v_content_type v,
       tr_content = v_content v,
       tr_text_score = text_score pg query_text j,
       tr_metadata = v_metadata v,
       tr_asrs_type_val = asrs_type_val j,
       tr_reference_number = reference_number j,
       tr_reference_title = reference_title j \<rparr>)"

definition text_results ::
  "'e postgres \<Rightarrow> 'e database \<Rightarrow> string \<Rightarrow> int \<Rightarrow> string option \<Rightarrow> text_result list" where
  "text_results pg db query_text match_count filter_asrs_type =
     map (select_text pg query_text)
       (limit (match_count * 2)
          (filter (\<lambda>j. text_matches pg query_text j \<and> asrs_filter filter_asrs_type j)
             (from_vectors db)))"

definition select_combined :: "real \<Rightarrow> vector_result option \<times> text_result option \<Rightarrow> combined_row" where
  "select_combined text_weight p = (case p of (v, t) \<Rightarrow>
     \<lparr> c_vector_id = coalesce (map_option vr_id v) (map_option tr_id t),
       c_source_id = coalesce (Option.bind v vr_content_id) (Option.bind t tr_content_id),
       c_source_type = coalesce (map_option vr_content_type v) (map_option tr_content_type t),
       c_content = coalesce (map_option vr_content v) (map_option tr_content t),
       c_score = coalesce0 (Option.bind v vr_vector_score) * (1 - text_weight)
                 + coalesce0 (map_option tr_text_score t) * text_weight,
       c_vector_similarity = coalesce0 (Option.bind v vr_vector_score),
       c_text_similarity = coalesce0 (map_option tr_text_score t),
       c_metadata = coalesce (Option.bind v vr_metadata) (Option.bind t tr_metadata),
       c_asrs_topic = coalesce (Option.bind v vr_asrs_type_val) (Option.bind t tr_asrs_type_val),
       c_reference_number =
         coalesce (Option.bind v vr_reference_number) (Option.bind t tr_reference_number),
       c_reference_title =
         coalesce (Option.bind v vr_reference_title) (Option.bind t tr_reference_title),
       c_content_type_final =
         coalesce (map_option vr_content_type v) (map_option tr_content_type t) \<rparr>)"

definition combined ::
  "'e postgres \<Rightarrow> 'e database \<Rightarrow> 'e \<Rightarrow> string \<Rightarrow> int \<Rightarrow> real \<Rightarrow> string option
     \<Rightarrow> combined_row list" where
  "combined pg db query_embedding query_text match_count text_weight filter_asrs_type =
     map (select_combined text_weight)
       (full_outer_join
          (vector_results pg db query_embedding match_count filter_asrs_type)
          (text_results pg db query_text match_count filter_asrs_type)
          (\<lambda>v t. vr_id v = tr_id t))"

definition select_hybrid :: "combined_row \<Rightarrow> hybrid_row" where
  "select_hybrid c =
     \<lparr> vector_id = c_vector_id c,
       source_id = c_source_id c,
       source_type = c_source_type c,
       content = c_content c,
       combined_score = c_score c,
       vector_similarity = c_vector_similarity c,
       text_similarity = c_text_similarity c,
       asrs_topic = c_asrs_topic c,
       regulation_section = None,
       design_parameter = None,
       metadata = c_metadata c,
       table_number =
         (if c_content_type_final c = Some ''table'' then c_reference_number c else None),
       figure_number =
         (if c_content_type_final c = Some ''figure'' then c_reference_number c else None),
       reference_title_out = c_reference_title c \<rparr>"

text \<open>The statement after \<^verbatim>\<open>RETURN QUERY\<close>, as it runs on its own.\<close>

definition hybrid_query ::
  "'e postgres \<Rightarrow> 'e database \<Rightarrow> 'e \<Rightarrow> string \<Rightarrow> int \<Rightarrow> real \<Rightarrow> string option
     \<Rightarrow> search_error + hybrid_row list" where
  "hybrid_query pg db query_embedding query_text match_count text_weight filter_asrs_type =
     (if \<not> int4 (match_count * 2) then Inl IntegerOutOfRange
      else if match_count < 0 then Inl NegativeLimit
      else Inr (map select_hybrid
             (limit match_count
                (order_by_desc c_score
                   (combined pg db query_embedding query_text match_count text_weight
                      filter_asrs_type)))))"

text \<open>The result type that \<^verbatim>\<open>RETURNS TABLE\<close> declares (the same in both files that
  define the function), and the types of the columns of the statement. The seventh column,
  \<^verbatim>\<open>c.text_similarity\<close>, is \<^verbatim>\<open>COALESCE(t.text_score, 0)\<close> of a \<^verbatim>\<open>ts_rank\<close>
  and so \<^verbatim>\<open>real\<close>, where \<^verbatim>\<open>float\<close> is declared; the statement has no cast.
  Every call of the function therefore raises, whatever its arguments. PL/pgSQL plans the
  statement with the arguments of the call as constants, which computes
  \<^verbatim>\<open>match_count * 2\<close>, before it starts the statement and checks the types; a
  negative limit is found only when the first row is fetched, after the check.\<close>

definition hybrid_returns :: "sql_type list" where
  "hybrid_returns =
     [Uuid, Uuid, Text, Text, Float8, Float8, Float8, Text, Text, Text, Jsonb, Text, Text, Text]"

definition hybrid_columns :: "sql_type list" where
  "hybrid_columns =
     [Uuid, Uuid, Text, Text, Float8, Float8, Float4, Text, Text, Text, Jsonb, Text, Text, Text]"

definition hybrid_search_fm_global ::
  "'e postgres \<Rightarrow> 'e database \<Rightarrow> 'e \<Rightarrow> string \<Rightarrow> int \<Rightarrow> real \<Rightarrow> string option
     \<Rightarrow> search_error + hybrid_row list" where
  "hybrid_search_fm_global pg db query_embedding query_text match_count text_weight
       filter_asrs_type =
     (if \<not> int4 (match_count * 2) then Inl IntegerOutOfRange
      else return_query hybrid_returns hybrid_columns
             (hybrid_query pg db query_embedding query_text match_count text_weight
                filter_asrs_type))"

subsection \<open>\<^verbatim>\<open>match_fm_global_vectors\<close> of the schema file\<close>

text \<open>The schema file creates the three tables with the columns below and defines
  \<^verbatim>\<open>match_fm_global_vectors\<close> over them. \<open>source_type\<close> and \<open>content\<close> are
  \<^verbatim>\<open>NOT NULL\<close>, as are the numbers and titles of tables and figures; the embedding
  is nullable.\<close>

record schema_table =
  st_id :: uuid
  st_table_number :: string
  st_title :: string

record schema_figure =
  sf_id :: uuid
  sf_figure_number :: string
  sf_title :: string

record 'e schema_vector =
  sv_id :: uuid
  sv_source_id :: "uuid option"
  sv_source_type :: string
  sv_content :: string
  sv_embedding :: "'e option"
  sv_asrs_topic :: "string option"
  sv_regulation_section :: "string option"
  sv_design_parameter :: "string option"
  sv_metadata :: "jsonb option"

record 'e schema_database =
  schema_vectors :: "'e schema_vector list"
  schema_tables :: "schema_table list"
  schema_figures :: "schema_figure list"

record match_row =
  m_vector_id :: uuid
  m_source_id :: "uuid option"
  m_source_type :: string
  m_content :: string
  m_similarity :: "real option"
  m_asrs_topic :: "string option"
  m_regulation_section :: "string option"
  m_design_parameter :: "string option"
  m_metadata :: "jsonb option"
  m_table_number :: "string option"
  m_figure_number :: "string option"
  m_reference_title :: "string option"

type_synonym 'e schema_joined = "('e schema_vector \<times> schema_table option) \<times> schema_figure option"

definition from_schema_vectors :: "'e schema_database \<Rightarrow> 'e schema_joined list" where
  "from_schema_vectors db =
     left_join
       (left_join (schema_vectors db) (schema_tables db)
          (\<lambda>v t. sv_source_id v = Some (st_id t) \<and> sv_source_type v = ''table''))
       (schema_figures db)
       (\<lambda>(v, t) f. sv_source_id v = Some (sf_id f) \<and> sv_source_type v = ''figure'')"

definition schema_distance :: "'e postgres \<Rightarrow> 'e \<Rightarrow> 'e schema_joined \<Rightarrow> real option" where
  "schema_distance pg query_embedding j =
     map_option (\<lambda>e. cosine_distance pg e query_embedding) (sv_embedding (fst (fst j)))"

definition select_match :: "'e postgres \<Rightarrow> 'e \<Rightarrow> 'e schema_joined \<Rightarrow> match_row" where
  "select_match pg query_embedding j = (case j of ((v, t), f) \<Rightarrow>
     \<lparr> m_vector_id = sv_id v,
       m_source_id = sv_source_id v,
       m_source_type = sv_source_type v,
       m_content = sv_content v,
       m_similarity = map_option (\<lambda>d. 1 - d) (schema_distance pg query_embedding j),
       m_asrs_topic = sv_asrs_topic v,
       m_regulation_section = sv_regulation_section v,
       m_design_parameter = sv_design_parameter v,
       m_metadata = sv_metadata v,
       m_table_number =
         (if sv_source_type v = ''table'' then map_option st_table_number t else None),
       m_figure_number =
         (if sv_source_type v = ''figure'' then map_option sf_figure_number f else None),
       m_reference_title =
         coalesce (map_option st_title t) (coalesce (map_option sf_title f) (Some ''N/A'')) \<rparr>)"

definition match_where :: "string option \<Rightarrow> string option \<Rightarrow> 'e schema_joined \<Rightarrow> bool" where
  "match_where asrs_topic_filter source_type_filter j = (case j of ((v, t), f) \<Rightarrow>
     sv_embedding v \<noteq> None
     \<and> (asrs_topic_filter = None \<or> sv_asrs_topic v = asrs_topic_filter)
     \<and> (source_type_filter = None \<or> Some (sv_source_type v) = source_type_filter))"

definition match_fm_global_vectors ::
  "'e postgres \<Rightarrow> 'e schema_database \<Rightarrow> 'e \<Rightarrow> int \<Rightarrow> string option \<Rightarrow> string option
     \<Rightarrow> search_error + match_row list" where
  "match_fm_global_vectors pg db query_embedding match_count asrs_topic_filter
       source_type_filter =
     (if match_count < 0 then Inl NegativeLimit
      else Inr (map (select_match pg query_embedding)
             (limit match_count
                (order_by (schema_distance pg query_embedding)
                   (filter (match_where asrs_topic_filter source_type_filter)
                      (from_schema_vectors db))))))"

subsection \<open>\<^verbatim>\<open>hybrid_search_fm_global\<close> of the schema file\<close>

text \<open>The schema file defines its own \<^verbatim>\<open>hybrid_search_fm_global\<close> over the tables it
  creates. Its two sub-queries have the columns of \<open>match_row\<close> (the score in
  \<open>m_similarity\<close>), no limit, and the vector sub-query leaves out the rows without an
  embedding; the lexical score is \<^verbatim>\<open>ts_rank_cd\<close>.\<close>

definition schema_vector_results ::
  "'e postgres \<Rightarrow> 'e schema_database \<Rightarrow> 'e \<Rightarrow> string option \<Rightarrow> match_row list" where
  "schema_vector_results pg db query_embedding asrs_topic_filter =
     map (select_match pg query_embedding)
       (filter (\<lambda>j. sv_embedding (fst (fst j)) \<noteq> None
                    \<and> (asrs_topic_filter = None \<or> sv_asrs_topic (fst (fst j)) = asrs_topic_filter))
          (from_schema_vectors db))"

definition schema_text_matches :: "'e postgres \<Rightarrow> string \<Rightarrow> 'e schema_joined \<Rightarrow> bool" where
  "schema_text_matches pg query_text j \<longleftrightarrow>
     ts_match (to_tsvector pg (sv_content (fst (fst j)))) (plainto_tsquery pg query_text)"

definition select_text_match :: "'e postgres \<Rightarrow> string \<Rightarrow> 'e schema_joined \<Rightarrow> match_row" where
  "select_text_match pg query_text j = (case j of ((v, t), f) \<Rightarrow>
     \<lparr> m_vector_id = sv_id v,
       m_source_id = sv_source_id v,
       m_source_type = sv_source_type v,
       m_content = sv_content v,
       m_similarity =
         Some (ts_rank_cd pg (to_tsvector pg (sv_content v)) (plainto_tsquery pg query_text)),
       m_asrs_topic = sv_asrs_topic v,
       m_regulation_section = sv_regulation_section v,
       m_design_parameter = sv_design_parameter v,
       m_metadata = sv_metadata v,
       m_table_number =
         (if sv_source_type v = ''table'' then map_option st_table_number t else None),
       m_figure_number =
         (if sv_source_type v = ''figure'' then map_option sf_figure_number f else None),
       m_reference_title =
         coalesce (map_option st_title t) (coalesce (map_option sf_title f) (Some ''N/A'')) \<rparr>)"

definition schema_text_results ::
  "'e postgres \<Rightarrow> 'e schema_database \<Rightarrow> string \<Rightarrow> string option \<Rightarrow> match_row list" where
  "schema_text_results pg db query_text asrs_topic_filter =
     map (select_text_match pg query_text)
       (filter (\<lambda>j. schema_text_matches pg query_text j
                    \<and> (asrs_topic_filter = None \<or> sv_asrs_topic (fst (fst j)) = asrs_topic_filter))
          (from_schema_vectors db))"

definition select_schema_hybrid :: "real \<Rightarrow> match_row option \<times> match_row option \<Rightarrow> hybrid_row" where
  "select_schema_hybrid text_weight p = (case p of (v, t) \<Rightarrow>
     \<lparr> vector_id = coalesce (map_option m_vector_id v) (map_option m_vector_id t),
       source_id = coalesce (Option.bind v m_source_id) (Option.bind t m_source_id),
       source_type = coalesce (map_option m_source_type v) (map_option m_source_type t),
       content = coalesce (map_option m_content v) (map_option m_content t),
       combined_score = coalesce0 (Option.bind v m_similarity) * (1 - text_weight)
                        + coalesce0 (Option.bind t m_similarity) * text_weight,
       vector_similarity = coalesce0 (Option.bind v m_similarity),
       text_similarity = coalesce0 (Option.bind t m_similarity),
       asrs_topic = coalesce (Option.bind v m_asrs_topic) (Option.bind t m_asrs_topic),
       regulation_section =
         coalesce (Option.bind v m_regulation_section) (Option.bind t m_regulation_section),
       design_parameter =
         coalesce (Option.bind v m_design_parameter) (Option.bind t m_design_parameter),
       metadata = coalesce (Option.bind v m_metadata) (Option.bind t m_metadata),
       table_number = coalesce (Option.bind v m_table_number) (Option.bind t m_table_number),
       figure_number = coalesce (Option.bind v m_figure_number) (Option.bind t m_figure_number),
       reference_title_out =
         coalesce (Option.bind v m_reference_title) (Option.bind t m_reference_title) \<rparr>)"

definition schema_fused ::
  "'e postgres \<Rightarrow> 'e schema_database \<Rightarrow> 'e \<Rightarrow> string \<Rightarrow> real \<Rightarrow> string option
     \<Rightarrow> hybrid_row list" where
  "schema_fused pg db query_embedding query_text text_weight asrs_topic_filter =
     map (select_schema_hybrid text_weight)
       (full_outer_join
          (schema_vector_results pg db query_embedding asrs_topic_filter)
          (schema_text_results pg db query_text asrs_topic_filter)
          (\<lambda>v t. m_vector_id v = m_vector_id t))"

text \<open>The statement of the schema file casts its three scores to \<^verbatim>\<open>float8\<close>, so its
  columns have the declared types.\<close>

definition schema_hybrid_columns :: "sql_type list" where
  "schema_hybrid_columns =
     [Uuid, Uuid, Text, Text, Float8, Float8, Float8, Text, Text, Text, Jsonb, Text, Text, Text]"

definition hybrid_search_fm_global_schema ::
  "'e postgres \<Rightarrow> 'e schema_database \<Rightarrow> 'e \<Rightarrow> string \<Rightarrow> int \<Rightarrow> real \<Rightarrow> string option
     \<Rightarrow> search_error + hybrid_row list" where
  "hybrid_search_fm_global_schema pg db query_embedding query_text match_count text_weight
       asrs_topic_filter =
     return_query hybrid_returns schema_hybrid_columns
       (if match_count < 0 then Inl NegativeLimit
        else Inr (limit match_count
               (order_by_desc combined_score
                  (schema_fused pg db query_embedding query_text text_weight
                     asrs_topic_filter))))"

subsection \<open>\<^verbatim>\<open>search_fm_global_all\<close>\<close>

text \<open>The unified search reads \<^verbatim>\<open>fm_text_chunks\<close>, \<^verbatim>\<open>fm_table_vectors\<close> and
  \<^verbatim>\<open>fm_global_vectors\<close>. Array columns are lists of texts. The \<open>metadata\<close> it builds
  for a chunk with \<^verbatim>\<open>jsonb_build_object\<close> is kept as the list of its key-value pairs;
  \<open>a_source_id\<close> holds the identifier that the function casts to text. The parameter
  \<^verbatim>\<open>query_text\<close> occurs nowhere in the body.\<close>

record 'e fm_text_chunk =
  ch_id :: uuid
  ch_content_type :: "string option"
  ch_raw_text :: "string option"
  ch_embedding :: "'e option"
  ch_chunk_summary :: "string option"
  ch_doc_id :: "string option"
  ch_page_number :: "int option"
  ch_section_path :: "string list option"
  ch_related_tables :: "string list option"
  ch_related_figures :: "string list option"
  ch_topics :: "string list option"

record 'e fm_table_vector =
  tv_id :: uuid
  tv_content_type :: "string option"
  tv_content_text :: "string option"
  tv_embedding :: "'e option"
  tv_table_id :: "string option"
  tv_metadata :: "jsonb option"

record 'e all_database =
  fm_text_chunks :: "'e fm_text_chunk list"
  fm_table_vectors :: "'e fm_table_vector list"
  all_fm_global_vectors :: "'e fm_global_vector list"

datatype json_value = JNull | JText string | JInt int | JArray "string list"

datatype all_metadata = Built "(string \<times> json_value) list" | Stored "jsonb option"

record all_row =
  a_source_id :: uuid
  a_source_type :: "string option"
  a_source_table :: string
  a_content :: "string option"
  a_similarity :: "real option"
  a_title :: "string option"
  a_metadata :: all_metadata

definition similarity_of :: "'e postgres \<Rightarrow> 'e \<Rightarrow> 'e option \<Rightarrow> real option" where
  "similarity_of pg query_embedding embedding =
     map_option (\<lambda>e. 1 - cosine_distance pg e query_embedding) embedding"

definition json_text :: "string option \<Rightarrow> json_value" where
  "json_text x = (case x of None \<Rightarrow> JNull | Some s \<Rightarrow> JText s)"

definition json_array :: "string list option \<Rightarrow> json_value" where
  "json_array x = (case x of None \<Rightarrow> JNull | Some xs \<Rightarrow> JArray xs)"

definition concat_text :: "string \<Rightarrow> string option \<Rightarrow> string" where
  "concat_text a b = a @ (case b of None \<Rightarrow> [] | Some s \<Rightarrow> s)"

definition chunk_results :: "'e postgres \<Rightarrow> 'e all_database \<Rightarrow> 'e \<Rightarrow> all_row list" where
  "chunk_results pg db query_embedding =
     map (\<lambda>c. \<lparr> a_source_id = ch_id c,
                a_source_type = ch_content_type c,
                a_source_table = ''fm_text_chunks'',
                a_content = ch_raw_text c,
                a_similarity = similarity_of pg query_embedding (ch_embedding c),
                a_title = coalesce (ch_chunk_summary c)
                            (Some (concat_text ''Chunk from '' (ch_doc_id c))),
                a_metadata = Built
                  [(''doc_id'', json_text (ch_doc_id c)),
                   (''page_number'', (case ch_page_number c of None \<Rightarrow> JNull | Some n \<Rightarrow> JInt n)),
                   (''section_path'', json_array (ch_section_path c)),
                   (''related_tables'', json_array (ch_related_tables c)),
                   (''related_figures'', json_array (ch_related_figures c)),
                   (''topics'', json_array (ch_topics c))] \<rparr>)
       (filter (\<lambda>c. ch_embedding c \<noteq> None) (fm_text_chunks db))"

definition table_results :: "'e postgres \<Rightarrow> 'e all_database \<Rightarrow> 'e \<Rightarrow> all_row list" where
  "table_results pg db query_embedding =
     map (\<lambda>tv. \<lparr> a_source_id = tv_id tv,
                 a_source_type = tv_content_type tv,
                 a_source_table = ''fm_table_vectors'',
                 a_content = tv_content_text tv,
                 a_similarity = similarity_of pg query_embedding (tv_embedding tv),
                 a_title = Some (concat_text ''Table '' (tv_table_id tv)),
                 a_metadata = Stored (tv_metadata tv) \<rparr>)
       (filter (\<lambda>tv. tv_embedding tv \<noteq> None) (fm_table_vectors db))"

definition all_vector_results :: "'e postgres \<Rightarrow> 'e all_database \<Rightarrow> 'e \<Rightarrow> all_row list" where
  "all_vector_results pg db query_embedding =
     map (\<lambda>v. \<lparr> a_source_id = v_id v,
                a_source_type = Some (v_content_type v),
                a_source_table = ''fm_global_vectors'',
                a_content = Some (v_content v),
                a_similarity = similarity_of pg query_embedding (v_embedding v),
                a_title = Some ''FM Global Vector'',
                a_metadata = Stored (v_metadata v) \<rparr>)
       (filter (\<lambda>v. v_embedding v \<noteq> None) (all_fm_global_vectors db))"

definition all_results :: "'e postgres \<Rightarrow> 'e all_database \<Rightarrow> 'e \<Rightarrow> all_row list" where
  "all_results pg db query_embedding =
     chunk_results pg db query_embedding
     @ table_results pg db query_embedding
     @ all_vector_results pg db query_embedding"

text \<open>\<^verbatim>\<open>ORDER BY similarity DESC\<close> on a nullable key puts NULL first.\<close>

definition desc_nulls_first :: "real option \<Rightarrow> bool \<times> real" where
  "desc_nulls_first k = (case k of None \<Rightarrow> (False, 0) | Some x \<Rightarrow> (True, - x))"

definition search_fm_global_all ::
  "'e postgres \<Rightarrow> 'e all_database \<Rightarrow> 'e \<Rightarrow> string \<Rightarrow> int \<Rightarrow> search_error + all_row list" where
  "search_fm_global_all pg db query_embedding query_text match_count =
     (if match_count < 0 then Inl NegativeLimit
      else Inr (limit match_count
             (sort_key (\<lambda>r. desc_nulls_first (a_similarity r))
                (all_results pg db query_embedding))))"

definition returned :: "search_error + 'a list \<Rightarrow> 'a list" where
  "returned res = (case res of Inl e \<Rightarrow> [] | Inr rows \<Rightarrow> rows)"

subsection \<open>\<^verbatim>\<open>match_fm_global_vectors\<close> as \<^verbatim>\<open>sql/fix_fm_functions.sql\<close> redefines it\<close>

definition match_fm_global_vectors_fix ::
  "'e postgres \<Rightarrow> 'e database \<Rightarrow> 'e \<Rightarrow> int \<Rightarrow> string option \<Rightarrow> string option
     \<Rightarrow> search_error + match_row list" where
  "match_fm_global_vectors_fix pg db query_embedding match_count filter_asrs_type
       filter_source_type =
     (if match_count < 0 then Inl NegativeLimit
      else Inr (map (\<lambda>j. case j of ((v, t), f) \<Rightarrow>
                  \<lparr> m_vector_id = v_id v,
                    m_source_id = v_content_id v,
                    m_source_type = v_content_type v,
                    m_content = v_content v,
                    m_similarity = map_option (\<lambda>d. 1 - d) (distance pg query_embedding j),
                    m_asrs_topic = asrs_type_val j,
                    m_regulation_section = None,
                    m_design_parameter = None,
                    m_metadata = v_metadata v,
                    m_table_number =
                      (if v_content_type v = ''table'' then reference_number j else None),
                    m_figure_number =
                      (if v_content_type v = ''figure'' then reference_number j else None),
                    m_reference_title = reference_title j \<rparr>)
             (limit match_count
                (order_by (distance pg query_embedding)
                   (filter (\<lambda>j. (filter_source_type = None
                                    \<or> Some (v_content_type (fst (fst j))) = filter_source_type)
                                \<and> asrs_filter filter_asrs_type j)
                      (from_vectors db))))))"

subsection \<open>The TypeScript agent: \<^verbatim>\<open>searchMultiVector\<close>\<close>

text \<open>An \<^verbatim>\<open>async\<close> method is modelled by the value its promise settles to:
  \<open>Inl e\<close> when it rejects with \<open>e\<close> (a \<^verbatim>\<open>throw\<close>, or an awaited promise that
  rejects), \<open>Inr x\<close> when it fulfils with \<open>x\<close>. A row that Supabase returns is an object,
  modelled as a map from column names to texts. What the agent awaits from outside is a
  parameter, collected in \<open>services\<close>: the embedding request to OpenAI, the four Supabase
  queries (as functions of what the agent puts into them) and \<^verbatim>\<open>JSON.parse\<close>. A
  response carries the time it takes to arrive, \<open>resp_latency\<close>, counted from the moment
  the request is sent. The methods that the class calls and the file does not define are
  parameters too, collected in \<open>methods\<close>.\<close>

datatype js_error = PostgrestError string | ApiError string | SyntaxError string

type_synonym 'a promise = "js_error + 'a"

type_synonym db_row = "string \<Rightarrow> string option"

record response =
  resp_data :: "db_row list"
  resp_error :: "js_error option"
  resp_latency :: nat

record ASRSConfiguration =
  asrs_type :: string
  container_type :: string
  rack_depth_ft :: real
  rack_spacing_ft :: real
  ceiling_height_ft :: real
  aisle_width_ft :: real
  commodity_type :: "string list"
  storage_height_ft :: real
  system_type :: string

datatype query_filter = Eq string string | Gte string real

record services =
  embeddings_create :: "string \<Rightarrow> real list promise"
  select_figures :: "real list \<Rightarrow> query_filter list \<Rightarrow> response"
  select_table_vectors :: "real list \<Rightarrow> response"
  select_tables_in :: "string option list \<Rightarrow> response"
  select_text_chunks :: "real list \<Rightarrow> response"
  json_parse :: "string \<Rightarrow> string promise"

record FigureResult =
  fr_figure_number :: "string option"
  fr_title :: "string option"
  fr_summary :: "string option"
  fr_machine_claims :: string
  fr_page_number :: "string option"
  fr_similarity :: "string option"
  fr_applicable_conditions :: "string list"

record TableResult =
  tb_table_number :: "string option"
  tb_title :: "string option"
  tb_content :: "string option"
  tb_design_parameters :: string
  tb_protection_scheme :: "string option"
  tb_similarity :: "string option"
  tb_applicable_conditions :: "string list"

record RegulationResult =
  rg_section_path :: "string option"
  rg_content :: "string option"
  rg_requirements :: "string option"
  rg_compliance_type :: "string option"
  rg_page_number :: "string option"
  rg_similarity :: "string option"

datatype FusedResult =
    FusedFigure FigureResult real
  | FusedTable TableResult real
  | FusedRegulation RegulationResult real

record methods =
  extractApplicableConditions :: "db_row \<Rightarrow> ASRSConfiguration option \<Rightarrow> string list"
  extractTableConditions :: "db_row option \<Rightarrow> ASRSConfiguration option \<Rightarrow> string list"
  calculateFigureRelevance :: "FigureResult \<Rightarrow> string \<Rightarrow> ASRSConfiguration option \<Rightarrow> real"
  calculateTableRelevance :: "TableResult \<Rightarrow> string \<Rightarrow> ASRSConfiguration option \<Rightarrow> real"
  calculateTextRelevance :: "RegulationResult \<Rightarrow> string \<Rightarrow> real"
  generateContextualResponse ::
    "FusedResult list \<Rightarrow> string \<Rightarrow> ASRSConfiguration option \<Rightarrow> string promise"
  calculateConfidence :: "FusedResult list \<Rightarrow> real"
  estimateCostImpact :: "FusedResult list \<Rightarrow> ASRSConfiguration option \<Rightarrow> real promise"

record SearchResult =
  answer :: string
  sources :: "FusedResult list"
  confidence :: real
  related_figures :: "string option list"
  related_tables :: "string option list"
  cost_impact :: real

text \<open>\<open>map_promise f xs\<close> is \<^verbatim>\<open>xs.map(f)\<close> for a callback that may throw: the first
  throw ends the loop.\<close>

fun map_promise :: "('a \<Rightarrow> 'b promise) \<Rightarrow> 'a list \<Rightarrow> 'b list promise" where
  "map_promise f [] = Inr []"
| "map_promise f (x # xs) =
     (case f x of
        Inl e \<Rightarrow> Inl e
      | Inr y \<Rightarrow> (case map_promise f xs of Inl e \<Rightarrow> Inl e | Inr ys \<Rightarrow> Inr (y # ys)))"

text \<open>\<^verbatim>\<open>JSON.parse(s || '{}')\<close>: an undefined, null or empty text is replaced by
  \<^verbatim>\<open>'{}'\<close>.\<close>

definition parse_or_empty :: "services \<Rightarrow> string option \<Rightarrow> string promise" where
  "parse_or_empty svc s =
     json_parse svc (case s of None \<Rightarrow> ''{}'' | Some t \<Rightarrow> if t = [] then ''{}'' else t)"

text \<open>The filters \<^verbatim>\<open>searchFigureVectors\<close> adds to its query: one for each field of
  the configuration that is truthy (a non-empty text, a number other than 0).\<close>

definition figure_filters :: "ASRSConfiguration option \<Rightarrow> query_filter list" where
  "figure_filters config = (case config of
       None \<Rightarrow> []
     | Some c \<Rightarrow>
         (if asrs_type c \<noteq> [] then [Eq ''asrs_type'' (asrs_type c)] else [])
         @ (if container_type c \<noteq> [] then [Eq ''container_type'' (container_type c)] else [])
         @ (if rack_depth_ft c \<noteq> 0 then [Gte ''max_depth_ft'' (rack_depth_ft c)] else [])
         @ (if rack_spacing_ft c \<noteq> 0 then [Gte ''max_spacing_ft'' (rack_spacing_ft c)] else []))"

definition searchFigureVectors ::
  "services \<Rightarrow> methods \<Rightarrow> real list \<Rightarrow> ASRSConfiguration option \<Rightarrow> FigureResult list promise" where
  "searchFigureVectors svc m embedding config =
     (let r = select_figures svc embedding (figure_filters config) in
      case resp_error r of
        Some e \<Rightarrow> Inl e
      | None \<Rightarrow>
          map_promise (\<lambda>row.
              case parse_or_empty svc (row ''machine_readable_claims'') of
                Inl e \<Rightarrow> Inl e
              | Inr claims \<Rightarrow> Inr
                  \<lparr> fr_figure_number = row ''figure_number'',
                    fr_title = row ''title'',
                    fr_summary = row ''normalized_summary'',
                    fr_machine_claims = claims,
                    fr_page_number = row ''page_number'',
                    fr_similarity = row ''similarity'',
                    fr_applicable_conditions = extractApplicableConditions m row config \<rparr>)
            (resp_data r))"

definition searchTableVectors ::
  "services \<Rightarrow> methods \<Rightarrow> real list \<Rightarrow> ASRSConfiguration option \<Rightarrow> TableResult list promise" where
  "searchTableVectors svc m embedding config =
     (let r = select_table_vectors svc embedding in
      case resp_error r of
        Some e \<Rightarrow> Inl e
      | None \<Rightarrow>
          (let tableIds = map (\<lambda>row. row ''table_id'') (resp_data r);
               tableData = resp_data (select_tables_in svc tableIds)
           in map_promise (\<lambda>vectorRow.
                let tableRow = find (\<lambda>t. t ''table_id'' = vectorRow ''table_id'') tableData in
                case parse_or_empty svc (Option.bind tableRow (\<lambda>t. t ''design_parameters'')) of
                  Inl e \<Rightarrow> Inl e
                | Inr params \<Rightarrow> Inr
                    \<lparr> tb_table_number = Option.bind tableRow (\<lambda>t. t ''table_number''),
                      tb_title = Option.bind tableRow (\<lambda>t. t ''title''),
                      tb_content = vectorRow ''content_text'',
                      tb_design_parameters = params,
                      tb_protection_scheme = Option.bind tableRow (\<lambda>t. t ''protection_scheme''),
                      tb_similarity = vectorRow ''similarity'',
                      tb_applicable_conditions = extractTableConditions m tableRow config \<rparr>)
              (resp_data r)))"

definition searchTextVectors :: "services \<Rightarrow> real list \<Rightarrow> RegulationResult list promise" where
  "searchTextVectors svc embedding =
     (let r = select_text_chunks svc embedding in
      case resp_error r of
        Some e \<Rightarrow> Inl e
      | None \<Rightarrow> Inr (map (\<lambda>row.
              \<lparr> rg_section_path = row ''section_path'',
                rg_content = row ''raw_text'',
                rg_requirements = row ''extracted_requirements'',
                rg_compliance_type = row ''compliance_type'',
                rg_page_number = row ''page_number'',
                rg_similarity = row ''similarity'' \<rparr>)
            (resp_data r)))"

fun relevance_score :: "FusedResult \<Rightarrow> real" where
  "relevance_score (FusedFigure f s) = s"
| "relevance_score (FusedTable t s) = s"
| "relevance_score (FusedRegulation r s) = s"

definition fuseAndRankResults ::
  "methods \<Rightarrow> FigureResult list \<Rightarrow> TableResult list \<Rightarrow> RegulationResult list \<Rightarrow> string
     \<Rightarrow> ASRSConfiguration option \<Rightarrow> FusedResult list" where
  "fuseAndRankResults m figures tables texts query config =
     (let allResults =
            map (\<lambda>f. FusedFigure f (calculateFigureRelevance m f query config)) figures
            @ map (\<lambda>t. FusedTable t (calculateTableRelevance m t query config)) tables
            @ map (\<lambda>r. FusedRegulation r (calculateTextRelevance m r query)) texts
      in take 15 (sort_key (\<lambda>a. - relevance_score a) allResults))"

text \<open>The time at which the promise of each search settles, counted from the start of the
  three searches (they start together, and each runs up to its first \<^verbatim>\<open>await\<close> at
  once). The figure search and the text search await one response and finish in the same
  turn. The table search throws when its first response carries an error; otherwise it
  sends its second request when the first response has arrived.\<close>

definition figures_settle_at :: "services \<Rightarrow> real list \<Rightarrow> ASRSConfiguration option \<Rightarrow> nat" where
  "figures_settle_at svc embedding config =
     resp_latency (select_figures svc embedding (figure_filters config))"

definition tables_settle_at :: "services \<Rightarrow> real list \<Rightarrow> nat" where
  "tables_settle_at svc embedding =
     (let r = select_table_vectors svc embedding in
      case resp_error r of
        Some e \<Rightarrow> resp_latency r
      | None \<Rightarrow>
          (let tableIds = map (\<lambda>row. row ''table_id'') (resp_data r)
           in resp_latency r + resp_latency (select_tables_in svc tableIds)))"

definition texts_settle_at :: "services \<Rightarrow> real list \<Rightarrow> nat" where
  "texts_settle_at svc embedding = resp_latency (select_text_chunks svc embedding)"

text \<open>\<^verbatim>\<open>Promise.all\<close> fulfils with the three values when the three promises fulfil,
  and rejects as soon as one of them rejects, with the error of that promise: the first
  to reject in time. Each argument is a promise with the time at which it settles. Two
  promises cannot reject at the same moment in one event loop; for equal times the model
  takes the first in the order of the array.\<close>

definition rejection :: "nat \<times> 'a promise \<Rightarrow> (nat \<times> js_error) list" where
  "rejection p = (case snd p of Inl e \<Rightarrow> [(fst p, e)] | Inr x \<Rightarrow> [])"

definition first_rejection :: "(nat \<times> js_error) list \<Rightarrow> js_error" where
  "first_rejection rs = snd (arg_min_list fst rs)"

definition promise_all3 ::
  "nat \<times> 'a promise \<Rightarrow> nat \<times> 'b promise \<Rightarrow> nat \<times> 'c promise \<Rightarrow> ('a \<times> 'b \<times> 'c) promise" where
  "promise_all3 a b c =
     (case (snd a, snd b, snd c) of
        (Inr x, Inr y, Inr z) \<Rightarrow> Inr (x, y, z)
      | _ \<Rightarrow> Inl (first_rejection (rejection a @ rejection b @ rejection c)))"

definition searchMultiVector ::
  "services \<Rightarrow> methods \<Rightarrow> string \<Rightarrow> ASRSConfiguration option \<Rightarrow> SearchResult promise" where
  "searchMultiVector svc m query config =
     (case embeddings_create svc query of
        Inl e \<Rightarrow> Inl e
      | Inr embedding \<Rightarrow>
          (case promise_all3
                  (figures_settle_at svc embedding config,
                   searchFigureVectors svc m embedding config)
                  (tables_settle_at svc embedding, searchTableVectors svc m embedding config)
                  (texts_settle_at svc embedding, searchTextVectors svc embedding) of
             Inl e \<Rightarrow> Inl e
           | Inr (figureResults, tableResults, textResults) \<Rightarrow>
               (let fusedResults =
                      fuseAndRankResults m figureResults tableResults textResults query config
                in case generateContextualResponse m fusedResults query config of
                     Inl e \<Rightarrow> Inl e
                   | Inr response \<Rightarrow>
                       (case estimateCostImpact m fusedResults config of
                          Inl e \<Rightarrow> Inl e
                        | Inr cost \<Rightarrow> Inr
                            \<lparr> answer = response,
                              sources = fusedResults,
                              confidence = calculateConfidence m fusedResults,
                              related_figures = map fr_figure_number figureResults,
                              related_tables = map tb_table_number tableResults,
                              cost_impact = cost \<rparr>))))"

text \<open>The sub-searches of a call that reject, each with the time at which it does, in the
  order of the array that \<^verbatim>\<open>Promise.all\<close> receives.\<close>

definition sub_search_rejections ::
  "services \<Rightarrow> methods \<Rightarrow> real list \<Rightarrow> ASRSConfiguration option \<Rightarrow> (nat \<times> js_error) list" where
  "sub_search_rejections svc m embedding config =
     rejection (figures_settle_at svc embedding config, searchFigureVectors svc m embedding config)
     @ rejection (tables_settle_at svc embedding, searchTableVectors svc m embedding config)
     @ rejection (texts_settle_at svc embedding, searchTextVectors svc embedding)"

text \<open>The specification's reading of a failed sub-search: the collection contributes the
  empty list.\<close>

definition spec_degraded :: "'a list promise \<Rightarrow> 'a list" where
  "spec_degraded p = (case p of Inl e \<Rightarrow> [] | Inr xs \<Rightarrow> xs)"

subsection \<open>A concrete instance of the PostgreSQL operators and a small store\<close>

text \<open>The cosine distance of pgvector on real vectors, a text search configuration that
  splits a text at blanks, and the rank that \<^verbatim>\<open>ts_rank\<close> computes for a query of one
  lexeme with the default weights: the occurrence at the \<open>i\<close>-th place among the \<open>k\<close>
  occurrences adds \<open>0.1 / i\<^sup>2\<close>, and the sum is divided by \<open>1.64493406685\<close>, which gives
  \<open>0.0607927\<close> for one occurrence and \<open>0.075990875\<close> for two. The cover density rank
  of such a query is \<open>0.1\<close> for each occurrence.
  \<open>axis x\<close> is the vector of dimension 1536 with \<open>x\<close> in its first component.\<close>

definition dot :: "real list \<Rightarrow> real list \<Rightarrow> real" where
  "dot a b = sum_list (map2 (*) a b)"

definition pgvector_cosine_distance :: "real list \<Rightarrow> real list \<Rightarrow> real" where
  "pgvector_cosine_distance a b = 1 - dot a b / (sqrt (dot a a) * sqrt (dot b b))"

definition axis :: "real \<Rightarrow> real list" where
  "axis x = x # replicate 1535 0"

fun words_from :: "string \<Rightarrow> string \<Rightarrow> string list" where
  "words_from w [] = (if w = [] then [] else [w])"
| "words_from w (c # cs) =
     (if c = CHR '' '' then (if w = [] then [] else [w]) @ words_from [] cs
      else words_from (w @ [c]) cs)"

definition single_lexeme_rank :: "tsvector \<Rightarrow> tsquery \<Rightarrow> real" where
  "single_lexeme_rank d q =
     (\<Sum>i < length (filter (\<lambda>l. l \<in> set q) d). 1 / (real (Suc i))\<^sup>2) * (607927 / 10000000)"

definition single_lexeme_rank_cd :: "tsvector \<Rightarrow> tsquery \<Rightarrow> real" where
  "single_lexeme_rank_cd d q = real (length (filter (\<lambda>l. l \<in> set q) d)) / 10"

definition pg0 :: "real list postgres" where
  "pg0 = \<lparr> cosine_distance = pgvector_cosine_distance,
           english = words_from [],
           ts_rank = single_lexeme_rank,
           ts_rank_cd = single_lexeme_rank_cd \<rparr>"

definition row1 :: "real list fm_global_vector" where
  "row1 = \<lparr> v_id = 1, v_content_id = Some 10, v_content_type = ''table'',
            v_content = ''rack depth'', v_embedding = Some (axis 1), v_metadata = None \<rparr>"

definition row2 :: "real list fm_global_vector" where
  "row2 = \<lparr> v_id = 2, v_content_id = Some 20, v_content_type = ''figure'',
            v_content = ''aisle width'', v_embedding = Some (axis (- 1)), v_metadata = None \<rparr>"

definition row3 :: "real list fm_global_vector" where
  "row3 = \<lparr> v_id = 3, v_content_id = None, v_content_type = ''text'',
            v_content = ''rack rack'', v_embedding = None, v_metadata = None \<rparr>"

definition table10 :: fm_global_table where
  "table10 = \<lparr> t_id = 10, t_table_id = Some ''Table 1'', t_title = Some ''Rack depths'',
               t_asrs_type = Some ''Shuttle'' \<rparr>"

definition figure20 :: fm_global_figure where
  "figure20 = \<lparr> f_id = 20, f_figure_number = Some ''4'', f_title = Some ''Aisles'',
                f_asrs_type = Some ''Mini-Load'' \<rparr>"

definition db0 :: "real list database" where
  "db0 = \<lparr> fm_global_vectors = [row1, row2, row3],
           fm_global_tables = [table10],
           fm_global_figures = [figure20] \<rparr>"

text \<open>The three rows \<^verbatim>\<open>hybrid_search_fm_global\<close> returns on \<open>db0\<close> for the query
  embedding \<open>axis 1\<close>, the query text \<open>rack\<close>, \<open>match_count = 5\<close> and
  \<open>text_weight = 0.3\<close>.\<close>

definition out1 :: hybrid_row where
  "out1 = \<lparr> vector_id = Some 1, source_id = Some 10, source_type = Some ''table'',
            content = Some ''rack depth'', combined_score = 71823781 / 100000000,
            vector_similarity = 1, text_similarity = 607927 / 10000000,
            asrs_topic = Some ''Shuttle'', regulation_section = None, design_parameter = None,
            metadata = None, table_number = Some ''Table 1'', figure_number = None,
            reference_title_out = Some ''Rack depths'' \<rparr>"

definition out2 :: hybrid_row where
  "out2 = \<lparr> vector_id = Some 2, source_id = Some 20, source_type = Some ''figure'',
            content = Some ''aisle width'', combined_score = - 7 / 10,
            vector_similarity = - 1, text_similarity = 0,
            asrs_topic = Some ''Mini-Load'', regulation_section = None, design_parameter = None,
            metadata = None, table_number = None, figure_number = Some ''Figure 4'',
            reference_title_out = Some ''Aisles'' \<rparr>"

definition out3 :: hybrid_row where
  "out3 = \<lparr> vector_id = Some 3, source_id = None, source_type = Some ''text'',
            content = Some ''rack rack'', combined_score = 1823781 / 80000000,
            vector_similarity = 0, text_similarity = 607927 / 8000000,
            asrs_topic = None, regulation_section = None, design_parameter = None,
            metadata = None, table_number = None, figure_number = None,
            reference_title_out = None \<rparr>"

subsection \<open>The specification's reading of the fusion step\<close>

text \<open>These definitions follow the words of the specification, for comparison with the
  code: the lexical relevance divided by the maximum relevance of the lexical candidate
  set (0 when that set is empty), the blend of the two normalized components, the bounds on
  the scores of a result, and the order of the result list (descending score, ties by
  ascending record identifier).\<close>

definition spec_normalized_lexical :: "real list \<Rightarrow> real \<Rightarrow> real" where
  "spec_normalized_lexical candidates r = (if candidates = [] then 0 else r / Max (set candidates))"

definition spec_combined_score :: "real \<Rightarrow> real \<Rightarrow> real \<Rightarrow> real" where
  "spec_combined_score vector_sim lexical_rel w = vector_sim * (1 - w) + lexical_rel * w"

definition spec_score_bounds :: "hybrid_row \<Rightarrow> bool" where
  "spec_score_bounds r \<longleftrightarrow>
     0 \<le> vector_similarity r \<and> vector_similarity r \<le> 1
     \<and> 0 \<le> combined_score r \<and> combined_score r \<le> 1"

definition spec_id_le :: "uuid option \<Rightarrow> uuid option \<Rightarrow> bool" where
  "spec_id_le a b = (case a of None \<Rightarrow> False
                | Some x \<Rightarrow> (case b of None \<Rightarrow> False | Some y \<Rightarrow> x \<le> y))"

definition spec_score_then_id :: "hybrid_row \<Rightarrow> hybrid_row \<Rightarrow> bool" where
  "spec_score_then_id a b \<longleftrightarrow>
     combined_score b < combined_score a
     \<or> (combined_score a = combined_score b \<and> spec_id_le (vector_id a) (vector_id b))"

definition spec_ranked_by_score_then_id :: "hybrid_row list \<Rightarrow> bool" where
  "spec_ranked_by_score_then_id rs = sorted_wrt spec_score_then_id rs"

text \<open>A store whose two rows tie on both scores for the query \<open>rack\<close>, listed with the
  larger identifier first, and the same rows listed the other way round.\<close>

definition tie2 :: "real list fm_global_vector" where
  "tie2 = \<lparr> v_id = 2, v_content_id = None, v_content_type = ''text'',
            v_content = ''rack'', v_embedding = Some (axis 1), v_metadata = None \<rparr>"

definition tie1 :: "real list fm_global_vector" where
  "tie1 = \<lparr> v_id = 1, v_content_id = None, v_content_type = ''text'',
            v_content = ''rack'', v_embedding = Some (axis 1), v_metadata = None \<rparr>"

definition db_tie :: "real list database" where
  "db_tie = \<lparr> fm_global_vectors = [tie2, tie1], fm_global_tables = [],
              fm_global_figures = [] \<rparr>"

definition db_tie' :: "real list database" where
  "db_tie' = \<lparr> fm_global_vectors = [tie1, tie2], fm_global_tables = [],
               fm_global_figures = [] \<rparr>"

text \<open>The rows returned on \<open>db_tie\<close> for the same call.\<close>

definition tie_out2 :: hybrid_row where
  "tie_out2 = \<lparr> vector_id = Some 2, source_id = None, source_type = Some ''text'',
            content = Some ''rack'', combined_score = 71823781 / 100000000,
            vector_similarity = 1, text_similarity = 607927 / 10000000,
            asrs_topic = None, regulation_section = None, design_parameter = None,
            metadata = None, table_number = None, figure_number = None,
            reference_title_out = None \<rparr>"

definition tie_out1 :: hybrid_row where
  "tie_out1 = tie_out2 \<lparr> vector_id := Some 1 \<rparr>"

text \<open>The rows of \<open>db0\<close> in another scan order.\<close>

definition db0' :: "real list database" where
  "db0' = \<lparr> fm_global_vectors = [row3, row1, row2],
            fm_global_tables = [table10],
            fm_global_figures = [figure20] \<rparr>"

text \<open>A store in the layout of the schema file and a store for the unified search, each
  with one record that has an embedding and one that has none.\<close>

definition sv1 :: "real list schema_vector" where
  "sv1 = \<lparr> sv_id = 1, sv_source_id = None, sv_source_type = ''text'',
           sv_content = ''rack depth'', sv_embedding = Some (axis 1), sv_asrs_topic = None,
           sv_regulation_section = None, sv_design_parameter = None, sv_metadata = None \<rparr>"

definition sv2 :: "real list schema_vector" where
  "sv2 = sv1 \<lparr> sv_id := 2, sv_embedding := None \<rparr>"

definition sdb0 :: "real list schema_database" where
  "sdb0 = \<lparr> schema_vectors = [sv2, sv1], schema_tables = [], schema_figures = [] \<rparr>"

definition chunk1 :: "real list fm_text_chunk" where
  "chunk1 = \<lparr> ch_id = 5, ch_content_type = Some ''text'', ch_raw_text = Some ''aisle width'',
              ch_embedding = Some (axis 1), ch_chunk_summary = None, ch_doc_id = Some ''8-34'',
              ch_page_number = Some 12, ch_section_path = None, ch_related_tables = None,
              ch_related_figures = None, ch_topics = None \<rparr>"

definition chunk2 :: "real list fm_text_chunk" where
  "chunk2 = chunk1 \<lparr> ch_id := 6, ch_embedding := None \<rparr>"

definition adb0 :: "real list all_database" where
  "adb0 = \<lparr> fm_text_chunks = [chunk2, chunk1], fm_table_vectors = [],
            all_fm_global_vectors = [row3, row2] \<rparr>"

text \<open>Services in which the query on \<^verbatim>\<open>fm_global_figures\<close> fails while the other two
  collections answer with one row each, and methods that rate every result 1.\<close>

definition table_vector_row :: db_row where
  "table_vector_row = (\<lambda>c. None)(''table_id'' \<mapsto> ''T14'', ''content_text'' \<mapsto> ''rack depth'',
                                  ''similarity'' \<mapsto> ''0.1'')"

definition text_chunk_row :: db_row where
  "text_chunk_row = (\<lambda>c. None)(''raw_text'' \<mapsto> ''aisle width'', ''similarity'' \<mapsto> ''0.2'')"

definition svc_fail :: services where
  "svc_fail = \<lparr> embeddings_create = (\<lambda>q. Inr (axis 1)),
                select_figures = (\<lambda>e fs. \<lparr> resp_data = [],
                    resp_error = Some (PostgrestError ''no embedding index''),
                    resp_latency = 3 \<rparr>),
                select_table_vectors =
                  (\<lambda>e. \<lparr> resp_data = [table_vector_row], resp_error = None, resp_latency = 1 \<rparr>),
                select_tables_in = (\<lambda>ids. \<lparr> resp_data = [], resp_error = None, resp_latency = 1 \<rparr>),
                select_text_chunks =
                  (\<lambda>e. \<lparr> resp_data = [text_chunk_row], resp_error = None, resp_latency = 1 \<rparr>),
                json_parse = (\<lambda>s. Inr s) \<rparr>"

text \<open>Services in which the queries on \<^verbatim>\<open>fm_global_figures\<close> and on
  \<^verbatim>\<open>fm_table_vectors\<close> both fail, and the error of the second arrives first.\<close>

definition svc_fail2 :: services where
  "svc_fail2 = svc_fail \<lparr>
     select_figures := (\<lambda>e fs. \<lparr> resp_data = [],
         resp_error = Some (PostgrestError ''figures failed''), resp_latency = 2 \<rparr>),
     select_table_vectors := (\<lambda>e. \<lparr> resp_data = [],
         resp_error = Some (PostgrestError ''tables failed''), resp_latency = 1 \<rparr>) \<rparr>"

definition m0 :: methods where
  "m0 = \<lparr> extractApplicableConditions = (\<lambda>row config. []),
          extractTableConditions = (\<lambda>row config. []),
          calculateFigureRelevance = (\<lambda>f q config. 1),
          calculateTableRelevance = (\<lambda>t q config. 1),
          calculateTextRelevance = (\<lambda>r q. 1),
          generateContextualResponse = (\<lambda>fused q config. Inr ''answer''),
          calculateConfidence = (\<lambda>fused. 1),
          estimateCostImpact = (\<lambda>fused config. Inr 0) \<rparr>"

text \<open>A store in the layout of the schema file whose only record points away from the
  query embedding \<open>axis 1\<close>.\<close>

definition sdb1 :: "real list schema_database" where
  "sdb1 = \<lparr> schema_vectors = [sv1 \<lparr> sv_id := 3, sv_embedding := Some (axis (- 1)) \<rparr>],
            schema_tables = [], schema_figures = [] \<rparr>"

subsection \<open>Further stores of the concrete instance\<close>

text \<open>A store in the layout of the schema file with a record near the query embedding
  \<open>axis 1\<close>, a record that points away from it, and a record without an embedding whose
  text holds the word \<open>rack\<close> twice.\<close>

definition sdb2 :: "real list schema_database" where
  "sdb2 = \<lparr> schema_vectors =
              [sv1,
               sv1 \<lparr> sv_id := 2, sv_content := ''aisle width'', sv_embedding := Some (axis (- 1)) \<rparr>,
               sv1 \<lparr> sv_id := 3, sv_content := ''rack rack'', sv_embedding := None \<rparr>],
            schema_tables = [], schema_figures = [] \<rparr>"

text \<open>A store in the layout of \<^verbatim>\<open>sql/fix_fm_functions.sql\<close> whose two records both
  have an embedding and both hold the word \<open>rack\<close>.\<close>

definition db_both :: "real list database" where
  "db_both = \<lparr> fm_global_vectors =
                 [tie1, tie1 \<lparr> v_id := 2, v_content := ''rack rack'',
                               v_embedding := Some (axis (- 1)) \<rparr>],
               fm_global_tables = [], fm_global_figures = [] \<rparr>"

subsection \<open>The content store as a state\<close>

text \<open>The state of the content store is the rows its tables hold: a multiset for each
  table. PostgreSQL keeps the rows of a table in no fixed order (an \<^verbatim>\<open>UPDATE\<close> writes
  the new version of a row to another place of the heap, and a scan may start anywhere),
  so a statement may meet the rows of one state in any order. \<open>scan_of S db\<close> says that
  the lists of \<open>db\<close> enumerate the rows of \<open>S\<close>, and \<open>hybrid_query_on\<close> relates a state
  and the arguments of the hybrid statement to every result the statement has on some scan
  of the state.\<close>

record 'e content_store =
  stored_vectors :: "'e fm_global_vector multiset"
  stored_tables :: "fm_global_table multiset"
  stored_figures :: "fm_global_figure multiset"

definition scan_of :: "'e content_store \<Rightarrow> 'e database \<Rightarrow> bool" where
  "scan_of S db \<longleftrightarrow>
     mset (fm_global_vectors db) = stored_vectors S
     \<and> mset (fm_global_tables db) = stored_tables S
     \<and> mset (fm_global_figures db) = stored_figures S"

inductive hybrid_query_on ::
  "'e postgres \<Rightarrow> 'e content_store \<Rightarrow> 'e \<Rightarrow> string \<Rightarrow> int \<Rightarrow> real \<Rightarrow> string option
     \<Rightarrow> search_error + hybrid_row list \<Rightarrow> bool" where
  "scan_of S db \<Longrightarrow> hybrid_query_on pg S qe qt n w f (hybrid_query pg db qe qt n w f)"

text \<open>The state that \<open>db_tie\<close> and \<open>db_tie'\<close> enumerate, and the state that \<open>db0\<close> and
  \<open>db0'\<close> enumerate.\<close>

definition store_tie :: "real list content_store" where
  "store_tie = \<lparr> stored_vectors = {#tie1, tie2#}, stored_tables = {#}, stored_figures = {#} \<rparr>"

definition store0 :: "real list content_store" where
  "store0 = \<lparr> stored_vectors = {#row1, row2, row3#}, stored_tables = {#table10#},
               stored_figures = {#figure20#} \<rparr>"

section \<open>Properties\<close>

subsection \<open>Evaluation of the concrete instance\<close>

lemma dot_axis: "dot (axis x) (axis y) = x * y"
  by (simp add: dot_def axis_def sum_list_replicate)

lemma cosine_axis: "pgvector_cosine_distance (axis x) (axis y) = 1 - x * y / (\<bar>x\<bar> * \<bar>y\<bar>)"
  by (simp add: pgvector_cosine_distance_def dot_axis)

lemmas sql_defs =
  left_join_def full_outer_join_def limit_def order_by_def order_by_desc_def nulls_last_def
  coalesce_def coalesce0_def int4_def ts_match_def to_tsvector_def plainto_tsquery_def
  less_eq_prod_def

lemmas search_defs =
  from_vectors_def asrs_filter_def asrs_type_val_def reference_number_def reference_title_def
  distance_def select_vector_def vector_results_def text_score_def text_matches_def
  select_text_def text_results_def select_combined_def combined_def select_hybrid_def
  hybrid_query_def hybrid_search_fm_global_def return_query_def hybrid_returns_def
  hybrid_columns_def schema_hybrid_columns_def schema_fused_def
  from_schema_vectors_def schema_distance_def select_match_def match_where_def
  schema_vector_results_def schema_text_matches_def select_text_match_def
  schema_text_results_def select_schema_hybrid_def hybrid_search_fm_global_schema_def
  match_fm_global_vectors_def similarity_of_def json_text_def json_array_def concat_text_def
  chunk_results_def table_results_def all_vector_results_def all_results_def
  desc_nulls_first_def search_fm_global_all_def returned_def

lemmas fixture_defs =
  pg0_def db0_def row1_def row2_def row3_def table10_def figure20_def single_lexeme_rank_def single_lexeme_rank_cd_def
  db_tie_def db_tie'_def tie1_def tie2_def out1_def out2_def out3_def tie_out1_def tie_out2_def db0'_def
  sv1_def sv2_def sdb0_def sdb1_def chunk1_def chunk2_def adb0_def
  sdb2_def db_both_def
  cosine_axis

subsection \<open>Basic facts about the SQL operators\<close>

lemma set_limit: "x \<in> set (limit n xs) \<Longrightarrow> x \<in> set xs"
  unfolding limit_def by (rule in_set_takeD)

lemma length_limit: "0 \<le> n \<Longrightarrow> int (length (limit n xs)) \<le> n"
  unfolding limit_def by simp

lemma left_join_set:
  "p \<in> set (left_join xs ys on) \<longleftrightarrow>
     (\<exists>x \<in> set xs. (\<exists>y \<in> set ys. on x y \<and> p = (x, Some y))
                    \<or> ((\<forall>y \<in> set ys. \<not> on x y) \<and> p = (x, None)))"
proof -
  have one: "p \<in> set (case filter (on x) ys of [] \<Rightarrow> [(x, None)]
                        | y # ms \<Rightarrow> map (\<lambda>m. (x, Some m)) (y # ms)) \<longleftrightarrow>
      (\<exists>y \<in> set ys. on x y \<and> p = (x, Some y)) \<or> ((\<forall>y \<in> set ys. \<not> on x y) \<and> p = (x, None))"
    for x
  proof (cases "filter (on x) ys")
    case Nil
    then have "\<forall>y \<in> set ys. \<not> on x y" by (simp add: filter_empty_conv)
    with Nil show ?thesis by auto
  next
    case (Cons y ms)
    then have s: "set (y # ms) = {y \<in> set ys. on x y}" by (metis set_filter)
    then have "\<not> (\<forall>y \<in> set ys. \<not> on x y)" by auto
    moreover have "p \<in> (\<lambda>m. (x, Some m)) ` set (y # ms) \<longleftrightarrow> (\<exists>y \<in> set ys. on x y \<and> p = (x, Some y))"
      unfolding s by auto
    ultimately show ?thesis using Cons by auto
  qed
  show ?thesis unfolding left_join_def by (simp add: one)
qed

lemma full_outer_join_set:
  "p \<in> set (full_outer_join xs ys on) \<longleftrightarrow>
     (\<exists>x \<in> set xs. \<exists>y \<in> set ys. on x y \<and> p = (Some x, Some y))
     \<or> (\<exists>x \<in> set xs. (\<forall>y \<in> set ys. \<not> on x y) \<and> p = (Some x, None))
     \<or> (\<exists>y \<in> set ys. (\<forall>x \<in> set xs. \<not> on x y) \<and> p = (None, Some y))"
proof -
  have l: "p \<in> (\<lambda>(x, m). (Some x, m)) ` set (left_join xs ys on) \<longleftrightarrow>
     (\<exists>x \<in> set xs. \<exists>y \<in> set ys. on x y \<and> p = (Some x, Some y))
     \<or> (\<exists>x \<in> set xs. (\<forall>y \<in> set ys. \<not> on x y) \<and> p = (Some x, None))"
  proof
    assume "p \<in> (\<lambda>(x, m). (Some x, m)) ` set (left_join xs ys on)"
    then obtain x m where "(x, m) \<in> set (left_join xs ys on)" and "p = (Some x, m)"
      by auto
    then show "(\<exists>x \<in> set xs. \<exists>y \<in> set ys. on x y \<and> p = (Some x, Some y))
     \<or> (\<exists>x \<in> set xs. (\<forall>y \<in> set ys. \<not> on x y) \<and> p = (Some x, None))"
      unfolding left_join_set by auto
  next
    assume "(\<exists>x \<in> set xs. \<exists>y \<in> set ys. on x y \<and> p = (Some x, Some y))
     \<or> (\<exists>x \<in> set xs. (\<forall>y \<in> set ys. \<not> on x y) \<and> p = (Some x, None))"
    then obtain x m where "(x, m) \<in> set (left_join xs ys on)" and "p = (Some x, m)"
      unfolding left_join_set by blast
    then show "p \<in> (\<lambda>(x, m). (Some x, m)) ` set (left_join xs ys on)"
      by force
  qed
  have r: "p \<in> (\<lambda>y. (None, Some y)) ` {y \<in> set ys. \<not> list_ex (\<lambda>x. on x y) xs} \<longleftrightarrow>
     (\<exists>y \<in> set ys. (\<forall>x \<in> set xs. \<not> on x y) \<and> p = (None, Some y))"
    by (auto simp: list_ex_iff)
  show ?thesis unfolding full_outer_join_def using l r by (simp add: disj_assoc)
qed

lemma full_outer_join_cases:
  assumes "(v, t) \<in> set (full_outer_join xs ys on)"
  obtains (both) x y where "x \<in> set xs" "y \<in> set ys" "on x y" "v = Some x" "t = Some y"
    | (left) x where "x \<in> set xs" "\<forall>y \<in> set ys. \<not> on x y" "v = Some x" "t = None"
    | (right) y where "y \<in> set ys" "\<forall>x \<in> set xs. \<not> on x y" "v = None" "t = Some y"
  using assms unfolding full_outer_join_set by auto

lemma left_join_fst: "p \<in> set (left_join xs ys on) \<Longrightarrow> fst p \<in> set xs"
  by (auto simp: left_join_set)

lemma left_join_Nil: "left_join xs [] on = map (\<lambda>x. (x, None)) xs"
  by (simp add: left_join_def)

lemma full_outer_join_Nil: "full_outer_join xs [] on = map (\<lambda>x. (Some x, None)) xs"
  by (simp add: full_outer_join_def left_join_Nil)

lemma order_by_desc_sorted:
  "sorted_wrt (\<lambda>a b. k b \<le> k a) (order_by_desc k xs)"
proof -
  have "sorted (map (\<lambda>x. - k x) (order_by_desc k xs))"
    unfolding order_by_desc_def by (rule sorted_sort_key)
  then show ?thesis by (simp add: sorted_map)
qed

lemma sorted_wrt_take_drop:
  assumes "sorted_wrt P xs" and "a \<in> set (take k xs)" and "b \<in> set (drop k xs)"
  shows "P a b"
proof -
  from assms(1) have "sorted_wrt P (take k xs @ drop k xs)" by simp
  with assms(2,3) show ?thesis unfolding sorted_wrt_append by blast
qed

lemma mset_order_by_desc: "mset (order_by_desc k xs) = mset xs"
  by (simp add: order_by_desc_def)

lemma insort_key_map:
  "insort_key k (f x) (map f xs) = map f (insort_key (\<lambda>x. k (f x)) x xs)"
  by (induction xs) simp_all

lemma sort_key_map: "sort_key k (map f xs) = map f (sort_key (\<lambda>x. k (f x)) xs)"
  by (induction xs) (simp_all add: insort_key_map)

lemma order_by_desc_map:
  "order_by_desc k (map f xs) = map f (order_by_desc (\<lambda>x. k (f x)) xs)"
  unfolding order_by_desc_def by (rule sort_key_map)

lemma limit_map: "limit n (map f xs) = map f (limit n xs)"
  by (simp add: limit_def take_map)

lemma top_segment:
  assumes "0 \<le> n"
  shows "sorted_wrt (\<lambda>a b. k b \<le> k a) (limit n (order_by_desc k xs))
    \<and> int (length (limit n (order_by_desc k xs))) \<le> n
    \<and> length (limit n (order_by_desc k xs)) = min (nat n) (length xs)
    \<and> (\<exists>rest. mset (limit n (order_by_desc k xs) @ rest) = mset xs
          \<and> (\<forall>r \<in> set (limit n (order_by_desc k xs)). \<forall>c \<in> set rest. k c \<le> k r))"
proof -
  let ?ys = "order_by_desc k xs"
  have srt: "sorted_wrt (\<lambda>a b. k b \<le> k a) ?ys" by (rule order_by_desc_sorted)
  then have s1: "sorted_wrt (\<lambda>a b. k b \<le> k a) (limit n ?ys)"
    unfolding limit_def by (rule sorted_wrt_take)
  have s2: "int (length (limit n ?ys)) \<le> n" using assms by (rule length_limit)
  have s3: "length (limit n ?ys) = min (nat n) (length xs)"
    by (simp add: limit_def order_by_desc_def min.commute)
  have m: "mset (limit n ?ys @ drop (nat n) ?ys) = mset xs"
    by (simp add: limit_def mset_order_by_desc)
  have b: "\<forall>r \<in> set (limit n ?ys). \<forall>c \<in> set (drop (nat n) ?ys). k c \<le> k r"
    unfolding limit_def using sorted_wrt_take_drop [OF srt] by blast
  from m b have s4: "\<exists>rest. mset (limit n ?ys @ rest) = mset xs
          \<and> (\<forall>r \<in> set (limit n ?ys). \<forall>c \<in> set rest. k c \<le> k r)"
    by blast
  from s1 s2 s3 s4 show ?thesis by (intro conjI) assumption+
qed







subsection \<open>The lexical candidates\<close>

lemma text_results_origin:
  assumes "t \<in> set (text_results pg db query_text match_count filter_asrs_type)"
  obtains j where "j \<in> set (from_vectors db)" and "text_matches pg query_text j"
    and "asrs_filter filter_asrs_type j" and "t = select_text pg query_text j"
proof -
  from assms obtain j
    where j: "j \<in> set (limit (match_count * 2)
                 (filter (\<lambda>j. text_matches pg query_text j \<and> asrs_filter filter_asrs_type j)
                    (from_vectors db)))"
      and t: "t = select_text pg query_text j"
    unfolding text_results_def by auto
  from set_limit [OF j] have "j \<in> set (from_vectors db)" "text_matches pg query_text j"
    "asrs_filter filter_asrs_type j" by simp_all
  with t show thesis by (rule that [rotated 3])
qed

lemma tr_content_select_text: "tr_content (select_text pg q j) = v_content (fst (fst j))"
  by (simp add: select_text_def split: prod.splits)

text \<open>C8. Every record of the lexical candidate set satisfies the text search match
  predicate against the query, and therefore holds at least one lexeme of the query: a
  record with no matching token is never a lexical candidate.\<close>

theorem lexical_candidates_match:
  "\<forall>t \<in> set (text_results pg db query_text match_count filter_asrs_type).
      ts_match (to_tsvector pg (tr_content t)) (plainto_tsquery pg query_text)
      \<and> (\<exists>l \<in> set (plainto_tsquery pg query_text). l \<in> set (to_tsvector pg (tr_content t)))"
proof
  fix t
  assume "t \<in> set (text_results pg db query_text match_count filter_asrs_type)"
  then obtain j where "text_matches pg query_text j" and "t = select_text pg query_text j"
    by (rule text_results_origin)
  then have m: "ts_match (to_tsvector pg (tr_content t)) (plainto_tsquery pg query_text)"
    by (simp add: text_matches_def tr_content_select_text)
  then obtain l ls where "plainto_tsquery pg query_text = l # ls"
    by (cases "plainto_tsquery pg query_text") (auto simp: ts_match_def)
  with m have "l \<in> set (plainto_tsquery pg query_text)" "l \<in> set (to_tsvector pg (tr_content t))"
    by (simp_all add: ts_match_def)
  with m show "ts_match (to_tsvector pg (tr_content t)) (plainto_tsquery pg query_text)
      \<and> (\<exists>l \<in> set (plainto_tsquery pg query_text). l \<in> set (to_tsvector pg (tr_content t)))"
    by blast
qed

theorem lexical_candidates_match_witness:
  "map tr_content (text_results pg0 db0 ''rack'' 5 None) = [''rack depth'', ''rack rack'']
   \<and> ts_match (to_tsvector pg0 ''rack rack'') (plainto_tsquery pg0 ''rack'')
   \<and> (\<exists>l \<in> set (plainto_tsquery pg0 ''rack''). l \<in> set (to_tsvector pg0 ''rack rack''))"
proof -
  have e: "map tr_content (text_results pg0 db0 ''rack'' 5 None) = [''rack depth'', ''rack rack'']"
    by (simp add: search_defs sql_defs fixture_defs)
  then have "''rack rack'' \<in> tr_content ` set (text_results pg0 db0 ''rack'' 5 None)"
    by (simp flip: set_map)
  then obtain t where "t \<in> set (text_results pg0 db0 ''rack'' 5 None)"
    and "tr_content t = ''rack rack''"
    by auto
  with lexical_candidates_match [of pg0 db0 "''rack''" 5 None] e show ?thesis
    by auto
qed

subsection \<open>The function, its statement and the function of the schema file\<close>

text \<open>The statement of \<^verbatim>\<open>hybrid_search_fm_global\<close> in
  \<^verbatim>\<open>sql/fix_fm_functions.sql\<close> has a column of type \<^verbatim>\<open>real\<close> where the function
  declares \<^verbatim>\<open>float\<close>, so every call of the function raises an error (that of the
  type check, unless \<^verbatim>\<open>match_count * 2\<close> is out of range) and returns no row,
  whatever the store and the arguments are. The function of the schema file casts its
  scores and returns the rows of its statement. What follows is
  therefore stated of the statement \<open>hybrid_query\<close> and of its common table expressions,
  and of the function of the schema file.\<close>

lemma hybrid_search_raises:
  "hybrid_search_fm_global pg db qe qt n w f
     = Inl (if int4 (n * 2) then DatatypeMismatch else IntegerOutOfRange)"
  by (simp add: hybrid_search_fm_global_def return_query_def hybrid_returns_def
      hybrid_columns_def)

lemma schema_hybrid_eq:
  "hybrid_search_fm_global_schema pg db qe qt n w f =
     (if n < 0 then Inl NegativeLimit
      else Inr (limit n (order_by_desc combined_score (schema_fused pg db qe qt w f))))"
  by (simp add: hybrid_search_fm_global_schema_def return_query_def hybrid_returns_def
      schema_hybrid_columns_def)

lemma hybrid_query_eq:
  "hybrid_query pg db qe qt n w f =
     (if \<not> int4 (n * 2) then Inl IntegerOutOfRange
      else if n < 0 then Inl NegativeLimit
      else Inr (limit n (order_by_desc combined_score
             (map select_hybrid (combined pg db qe qt n w f)))))"
proof -
  have "(\<lambda>c. combined_score (select_hybrid c)) = c_score"
    by (simp add: select_hybrid_def fun_eq_iff)
  then show ?thesis
    by (simp add: hybrid_query_def order_by_desc_map limit_map)
qed

lemma hybrid_Inr:
  assumes "hybrid_query pg db qe qt n w f = Inr rs"
  shows "int4 (n * 2)" and "0 \<le> n"
    and "rs = map select_hybrid (limit n (order_by_desc c_score (combined pg db qe qt n w f)))"
  using assms by (auto simp: hybrid_query_def split: if_splits)

lemma hybrid_row_origin:
  assumes "hybrid_query pg db qe qt n w f = Inr rs" and "r \<in> set rs"
  obtains c where "c \<in> set (combined pg db qe qt n w f)" and "r = select_hybrid c"
proof -
  from assms hybrid_Inr(3) [OF assms(1)]
  obtain c where c: "c \<in> set (limit n (order_by_desc c_score (combined pg db qe qt n w f)))"
    and r: "r = select_hybrid c" by auto
  from set_limit [OF c] have "c \<in> set (combined pg db qe qt n w f)"
    by (simp add: order_by_desc_def)
  then show thesis using r by (rule that)
qed

lemma query_returned_origin:
  assumes "r \<in> set (returned (hybrid_query pg db qe qt n w f))"
  obtains c where "c \<in> set (combined pg db qe qt n w f)" and "r = select_hybrid c"
proof (cases "hybrid_query pg db qe qt n w f")
  case (Inl e)
  with assms show thesis by (simp add: returned_def)
next
  case (Inr rs)
  with assms have "r \<in> set rs" by (simp add: returned_def)
  with Inr show thesis by (rule hybrid_row_origin) (rule that)
qed

lemma schema_returned_origin:
  assumes "r \<in> set (returned (hybrid_search_fm_global_schema pg db qe qt n w f))"
  obtains v t where "r = select_schema_hybrid w (v, t)"
    and "(v, t) \<in> set (full_outer_join (schema_vector_results pg db qe f)
                          (schema_text_results pg db qt f)
                          (\<lambda>v t. m_vector_id v = m_vector_id t))"
proof -
  from assms have "r \<in> set (limit n (order_by_desc combined_score
                     (schema_fused pg db qe qt w f)))"
    by (auto simp: schema_hybrid_eq returned_def split: if_splits)
  from set_limit [OF this] have "r \<in> set (schema_fused pg db qe qt w f)"
    by (simp add: order_by_desc_def)
  then show thesis unfolding schema_fused_def by (auto intro: that)
qed

lemma combined_origin:
  assumes "c \<in> set (combined pg db qe qt n w f)"
  obtains v t where "c = select_combined w (v, t)"
    and "(v, t) \<in> set (full_outer_join (vector_results pg db qe n f) (text_results pg db qt n f)
                          (\<lambda>v t. vr_id v = tr_id t))"
  using assms unfolding combined_def by auto


lemma text_results_score:
  assumes "t \<in> set (text_results pg db qt n f)"
  shows "tr_text_score t = ts_rank pg (to_tsvector pg (tr_content t)) (plainto_tsquery pg qt)"
proof -
  from assms obtain j where "t = select_text pg qt j" by (rule text_results_origin)
  then show ?thesis by (simp add: select_text_def text_score_def split: prod.splits)
qed

lemma from_vectors_row:
  assumes "j \<in> set (from_vectors db)"
  shows "fst (fst j) \<in> set (fm_global_vectors db)"
  using assms unfolding from_vectors_def by (intro left_join_fst)

lemma from_schema_vectors_row:
  assumes "j \<in> set (from_schema_vectors db)"
  shows "fst (fst j) \<in> set (schema_vectors db)"
  using assms unfolding from_schema_vectors_def by (intro left_join_fst)

lemma select_text_sel:
  "tr_id (select_text pg q j) = v_id (fst (fst j))"
  "tr_text_score (select_text pg q j) = text_score pg q j"
  by (simp_all add: select_text_def case_prod_beta)

lemma select_vector_sel:
  "vr_id (select_vector pg qe j) = v_id (fst (fst j))"
  "vr_vector_score (select_vector pg qe j) = map_option (\<lambda>d. 1 - d) (distance pg qe j)"
  by (simp_all add: select_vector_def case_prod_beta)

lemma vector_results_origin:
  assumes "x \<in> set (vector_results pg db qe n f)"
  obtains j where "j \<in> set (from_vectors db)" and "asrs_filter f j"
    and "x = select_vector pg qe j"
proof -
  from assms obtain j
    where j: "j \<in> set (limit (n * 2) (order_by (distance pg qe)
                 (filter (asrs_filter f) (from_vectors db))))"
      and x: "x = select_vector pg qe j"
    unfolding vector_results_def by auto
  from set_limit [OF j] have "j \<in> set (from_vectors db)" "asrs_filter f j"
    by (simp_all add: order_by_def)
  then show thesis using x by (rule that)
qed

lemma vector_results_row:
  assumes "x \<in> set (vector_results pg db qe n f)"
  shows "\<exists>v \<in> set (fm_global_vectors db). vr_id x = v_id v
           \<and> coalesce0 (vr_vector_score x)
               = (case v_embedding v of Some e \<Rightarrow> 1 - cosine_distance pg e qe | None \<Rightarrow> 0)"
proof -
  from assms obtain j where j: "j \<in> set (from_vectors db)" and x: "x = select_vector pg qe j"
    by (rule vector_results_origin)
  have "vr_id x = v_id (fst (fst j))"
    and "coalesce0 (vr_vector_score x)
        = (case v_embedding (fst (fst j)) of Some e \<Rightarrow> 1 - cosine_distance pg e qe | None \<Rightarrow> 0)"
    by (simp_all add: x select_vector_sel distance_def coalesce0_def split: option.splits)
  with from_vectors_row [OF j] show ?thesis by blast
qed

lemma text_results_row:
  assumes "y \<in> set (text_results pg db qt n f)"
  shows "\<exists>v \<in> set (fm_global_vectors db). tr_id y = v_id v
           \<and> ts_match (to_tsvector pg (v_content v)) (plainto_tsquery pg qt)
           \<and> tr_text_score y = ts_rank pg (to_tsvector pg (v_content v)) (plainto_tsquery pg qt)"
proof -
  from assms obtain j where j: "j \<in> set (from_vectors db)" and m: "text_matches pg qt j"
    and y: "y = select_text pg qt j"
    by (rule text_results_origin)
  have "tr_id y = v_id (fst (fst j))"
    and "tr_text_score y
        = ts_rank pg (to_tsvector pg (v_content (fst (fst j)))) (plainto_tsquery pg qt)"
    by (simp_all add: y select_text_sel text_score_def)
  with from_vectors_row [OF j] m show ?thesis unfolding text_matches_def by blast
qed

lemma schema_vector_results_row:
  assumes "x \<in> set (schema_vector_results pg db qe f)"
  shows "\<exists>v \<in> set (schema_vectors db). \<exists>e. sv_embedding v = Some e \<and> m_vector_id x = sv_id v
           \<and> m_similarity x = Some (1 - cosine_distance pg e qe)"
proof -
  from assms obtain j where j: "j \<in> set (from_schema_vectors db)"
    and e: "sv_embedding (fst (fst j)) \<noteq> None" and x: "x = select_match pg qe j"
    unfolding schema_vector_results_def by auto
  from e obtain e' where e': "sv_embedding (fst (fst j)) = Some e'" by auto
  have "m_vector_id x = sv_id (fst (fst j))"
    "m_similarity x = Some (1 - cosine_distance pg e' qe)"
    by (simp_all add: x select_match_def case_prod_beta schema_distance_def e')
  with from_schema_vectors_row [OF j] e' show ?thesis by blast
qed

lemma schema_text_results_row:
  assumes "y \<in> set (schema_text_results pg db qt f)"
  shows "\<exists>v \<in> set (schema_vectors db). m_vector_id y = sv_id v
           \<and> ts_match (to_tsvector pg (sv_content v)) (plainto_tsquery pg qt)
           \<and> m_similarity y
               = Some (ts_rank_cd pg (to_tsvector pg (sv_content v)) (plainto_tsquery pg qt))"
proof -
  from assms obtain j where j: "j \<in> set (from_schema_vectors db)"
    and m: "schema_text_matches pg qt j" and y: "y = select_text_match pg qt j"
    unfolding schema_text_results_def by auto
  have "m_vector_id y = sv_id (fst (fst j))"
    "m_similarity y
       = Some (ts_rank_cd pg (to_tsvector pg (sv_content (fst (fst j)))) (plainto_tsquery pg qt))"
    by (simp_all add: y select_text_match_def case_prod_beta)
  with from_schema_vectors_row [OF j] m show ?thesis unfolding schema_text_matches_def by blast
qed

lemma query_blend:
  assumes "r \<in> set (returned (hybrid_query pg db qe qt n w f))"
  shows "combined_score r = vector_similarity r * (1 - w) + text_similarity r * w"
    and "(\<exists>v \<in> set (fm_global_vectors db). Some (v_id v) = vector_id r
             \<and> ts_match (to_tsvector pg (v_content v)) (plainto_tsquery pg qt)
             \<and> text_similarity r
                 = ts_rank pg (to_tsvector pg (v_content v)) (plainto_tsquery pg qt))
          \<or> ((\<forall>t \<in> set (text_results pg db qt n f). Some (tr_id t) \<noteq> vector_id r)
             \<and> text_similarity r = 0)"
    and "(\<exists>v \<in> set (fm_global_vectors db). Some (v_id v) = vector_id r
             \<and> vector_similarity r
                 = (case v_embedding v of Some e \<Rightarrow> 1 - cosine_distance pg e qe | None \<Rightarrow> 0))
          \<or> ((\<forall>x \<in> set (vector_results pg db qe n f). Some (vr_id x) \<noteq> vector_id r)
             \<and> vector_similarity r = 0)"
proof -
  from assms obtain c where c: "c \<in> set (combined pg db qe qt n w f)" and r: "r = select_hybrid c"
    by (rule query_returned_origin)
  from c obtain v t where sc: "c = select_combined w (v, t)"
    and vt: "(v, t) \<in> set (full_outer_join (vector_results pg db qe n f)
                             (text_results pg db qt n f) (\<lambda>v t. vr_id v = tr_id t))"
    by (rule combined_origin)
  show "combined_score r = vector_similarity r * (1 - w) + text_similarity r * w"
    by (simp add: r sc select_hybrid_def select_combined_def)
  have sel: "vector_id r = coalesce (map_option vr_id v) (map_option tr_id t)"
    "vector_similarity r = coalesce0 (Option.bind v vr_vector_score)"
    "text_similarity r = coalesce0 (map_option tr_text_score t)"
    by (simp_all add: r sc select_hybrid_def select_combined_def)
  from vt show "(\<exists>v \<in> set (fm_global_vectors db). Some (v_id v) = vector_id r
             \<and> ts_match (to_tsvector pg (v_content v)) (plainto_tsquery pg qt)
             \<and> text_similarity r
                 = ts_rank pg (to_tsvector pg (v_content v)) (plainto_tsquery pg qt))
          \<or> ((\<forall>t \<in> set (text_results pg db qt n f). Some (tr_id t) \<noteq> vector_id r)
             \<and> text_similarity r = 0)"
  proof (cases rule: full_outer_join_cases)
    case (both x y)
    from text_results_row [OF both(2)] both show ?thesis
      by (auto simp: sel coalesce_def coalesce0_def)
  next
    case (left x)
    then show ?thesis by (auto simp: sel coalesce_def coalesce0_def)
  next
    case (right y)
    from text_results_row [OF right(1)] right show ?thesis
      by (auto simp: sel coalesce_def coalesce0_def)
  qed
  from vt show "(\<exists>v \<in> set (fm_global_vectors db). Some (v_id v) = vector_id r
             \<and> vector_similarity r
                 = (case v_embedding v of Some e \<Rightarrow> 1 - cosine_distance pg e qe | None \<Rightarrow> 0))
          \<or> ((\<forall>x \<in> set (vector_results pg db qe n f). Some (vr_id x) \<noteq> vector_id r)
             \<and> vector_similarity r = 0)"
  proof (cases rule: full_outer_join_cases)
    case (both x y)
    from vector_results_row [OF both(1)] both show ?thesis
      by (auto simp: sel coalesce_def)
  next
    case (left x)
    from vector_results_row [OF left(1)] left show ?thesis
      by (auto simp: sel coalesce_def)
  next
    case (right y)
    then show ?thesis by (auto simp: sel coalesce_def coalesce0_def)
  qed
qed

lemma schema_blend:
  assumes "r \<in> set (returned (hybrid_search_fm_global_schema pg db qe qt n w f))"
  shows "combined_score r = vector_similarity r * (1 - w) + text_similarity r * w"
    and "(\<exists>v \<in> set (schema_vectors db). Some (sv_id v) = vector_id r
             \<and> ts_match (to_tsvector pg (sv_content v)) (plainto_tsquery pg qt)
             \<and> text_similarity r
                 = ts_rank_cd pg (to_tsvector pg (sv_content v)) (plainto_tsquery pg qt))
          \<or> ((\<forall>t \<in> set (schema_text_results pg db qt f). Some (m_vector_id t) \<noteq> vector_id r)
             \<and> text_similarity r = 0)"
    and "(\<exists>v \<in> set (schema_vectors db). \<exists>e. sv_embedding v = Some e
             \<and> Some (sv_id v) = vector_id r
             \<and> vector_similarity r = 1 - cosine_distance pg e qe)
          \<or> ((\<forall>x \<in> set (schema_vector_results pg db qe f). Some (m_vector_id x) \<noteq> vector_id r)
             \<and> vector_similarity r = 0)"
proof -
  from assms obtain v t where r: "r = select_schema_hybrid w (v, t)"
    and vt: "(v, t) \<in> set (full_outer_join (schema_vector_results pg db qe f)
                          (schema_text_results pg db qt f)
                          (\<lambda>v t. m_vector_id v = m_vector_id t))"
    by (rule schema_returned_origin)
  show "combined_score r = vector_similarity r * (1 - w) + text_similarity r * w"
    by (simp add: r select_schema_hybrid_def)
  have sel: "vector_id r = coalesce (map_option m_vector_id v) (map_option m_vector_id t)"
    "vector_similarity r = coalesce0 (Option.bind v m_similarity)"
    "text_similarity r = coalesce0 (Option.bind t m_similarity)"
    by (simp_all add: r select_schema_hybrid_def)
  from vt show "(\<exists>v \<in> set (schema_vectors db). Some (sv_id v) = vector_id r
             \<and> ts_match (to_tsvector pg (sv_content v)) (plainto_tsquery pg qt)
             \<and> text_similarity r
                 = ts_rank_cd pg (to_tsvector pg (sv_content v)) (plainto_tsquery pg qt))
          \<or> ((\<forall>t \<in> set (schema_text_results pg db qt f). Some (m_vector_id t) \<noteq> vector_id r)
             \<and> text_similarity r = 0)"
  proof (cases rule: full_outer_join_cases)
    case (both x y)
    from schema_text_results_row [OF both(2)] both show ?thesis
      by (auto simp: sel coalesce_def coalesce0_def)
  next
    case (left x)
    then show ?thesis by (auto simp: sel coalesce_def coalesce0_def)
  next
    case (right y)
    from schema_text_results_row [OF right(1)] right show ?thesis
      by (auto simp: sel coalesce_def coalesce0_def)
  qed
  from vt show "(\<exists>v \<in> set (schema_vectors db). \<exists>e. sv_embedding v = Some e
             \<and> Some (sv_id v) = vector_id r
             \<and> vector_similarity r = 1 - cosine_distance pg e qe)
          \<or> ((\<forall>x \<in> set (schema_vector_results pg db qe f). Some (m_vector_id x) \<noteq> vector_id r)
             \<and> vector_similarity r = 0)"
  proof (cases rule: full_outer_join_cases)
    case (both x y)
    from schema_vector_results_row [OF both(1)] obtain u e
      where u: "u \<in> set (schema_vectors db)" "sv_embedding u = Some e"
        and ux: "m_vector_id x = sv_id u" "m_similarity x = Some (1 - cosine_distance pg e qe)"
      by blast
    from both ux have "Some (sv_id u) = vector_id r"
      "vector_similarity r = 1 - cosine_distance pg e qe"
      by (simp_all add: sel coalesce_def coalesce0_def)
    with u show ?thesis by blast
  next
    case (left x)
    from schema_vector_results_row [OF left(1)] obtain u e
      where u: "u \<in> set (schema_vectors db)" "sv_embedding u = Some e"
        and ux: "m_vector_id x = sv_id u" "m_similarity x = Some (1 - cosine_distance pg e qe)"
      by blast
    from left ux have "Some (sv_id u) = vector_id r"
      "vector_similarity r = 1 - cosine_distance pg e qe"
      by (simp_all add: sel coalesce_def coalesce0_def)
    with u show ?thesis by blast
  next
    case (right y)
    then show ?thesis by (auto simp: sel coalesce_def coalesce0_def)
  qed
qed

text \<open>The results on the stores of the concrete instance.\<close>

lemma hybrid_db0:
  "hybrid_query pg0 db0 (axis 1) ''rack'' 5 (3 / 10) None = Inr [out1, out3, out2]"
  by (simp add: search_defs sql_defs fixture_defs)

lemma returned_db0: "returned (hybrid_query pg0 db0 (axis 1) ''rack'' 5 (3 / 10) None) = [out1, out3, out2]"
  by (simp add: hybrid_db0 returned_def)

lemma text_scores_db0:
  "map tr_text_score (text_results pg0 db0 ''rack'' 5 None)
     = [607927 / 10000000, 607927 / 8000000]"
  by (simp add: search_defs sql_defs fixture_defs)

lemma hybrid_db0_top2:
  "hybrid_query pg0 db0 (axis 1) ''rack'' 2 (3 / 10) None = Inr [out1, out3]"
  by (simp add: search_defs sql_defs fixture_defs)

lemma length_combined_db0:
  "length (combined pg0 db0 (axis 1) ''rack'' 2 (3 / 10) None) = 3"
  by (simp add: search_defs sql_defs fixture_defs)

lemma hybrid_tie:
  "hybrid_query pg0 db_tie (axis 1) ''rack'' 5 (3 / 10) None = Inr [tie_out2, tie_out1]"
  by (simp add: search_defs sql_defs fixture_defs)

lemma hybrid_tie': "hybrid_query pg0 db_tie' (axis 1) ''rack'' 5 (3 / 10) None = Inr [tie_out1, tie_out2]"
  by (simp add: search_defs sql_defs fixture_defs)

lemma query_db_tie:
  "map_sum id (map combined_score) (hybrid_query pg0 db_tie (axis 1) ''rack'' 5 (3 / 10) None)
     = Inr [71823781 / 100000000, 71823781 / 100000000]"
  "map_sum id (map vector_similarity) (hybrid_query pg0 db_tie (axis 1) ''rack'' 5 (3 / 10) None)
     = Inr [1, 1]"
  by (simp_all add: hybrid_tie tie_out1_def tie_out2_def)

lemma candidates_db0:
  "length (filter (asrs_filter None) (from_vectors db0)) = 3"
  "map vr_id (vector_results pg0 db0 (axis 1) 1 None) = [1, 2]"
  "map vr_vector_score (vector_results pg0 db0 (axis 1) 1 None) = [Some 1, Some (- 1)]"
  "map tr_id (text_results pg0 db0 ''rack'' 1 None) = [1, 3]"
  "map tr_text_score (text_results pg0 db0 ''rack'' 1 None)
     = [607927 / 10000000, 607927 / 8000000]"
  "map c_vector_id (combined pg0 db0 (axis 1) ''rack'' 1 (3 / 10) None)
     = [Some 1, Some 2, Some 3]"
  "map c_vector_similarity (combined pg0 db0 (axis 1) ''rack'' 1 (3 / 10) None) = [1, - 1, 0]"
  "map c_text_similarity (combined pg0 db0 (axis 1) ''rack'' 1 (3 / 10) None)
     = [607927 / 10000000, 0, 607927 / 8000000]"
  "map_sum id (map vector_id) (hybrid_query pg0 db0 (axis 1) ''rack'' 1 (3 / 10) None)
     = Inr [Some 1]"
  by (simp_all add: search_defs sql_defs fixture_defs)


lemma schema_hybrid_sdb1:
  "map_sum id (map vector_similarity)
     (hybrid_search_fm_global_schema pg0 sdb1 (axis 1) ''rack'' 5 (3 / 10) None) = Inr [- 1]"
  "map_sum id (map text_similarity)
     (hybrid_search_fm_global_schema pg0 sdb1 (axis 1) ''rack'' 5 (3 / 10) None) = Inr [1 / 10]"
  "map_sum id (map combined_score)
     (hybrid_search_fm_global_schema pg0 sdb1 (axis 1) ''rack'' 5 (3 / 10) None)
     = Inr [- 67 / 100]"
  "map_sum id (map vector_id)
     (hybrid_search_fm_global_schema pg0 sdb1 (axis 1) ''  '' 5 (3 / 10) None) = Inr [Some 3]"
  by (simp_all add: search_defs sql_defs fixture_defs)

lemma schema_sdb0:
  "map_sum id (map vector_id)
     (hybrid_search_fm_global_schema pg0 sdb0 (axis 1) ''rack'' 5 (3 / 10) None)
     = Inr [Some 1, Some 2]"
  "map_sum id (map vector_similarity)
     (hybrid_search_fm_global_schema pg0 sdb0 (axis 1) ''rack'' 5 (3 / 10) None) = Inr [1, 0]"
  "map_sum id (map combined_score)
     (hybrid_search_fm_global_schema pg0 sdb0 (axis 1) ''rack'' 5 (3 / 10) None)
     = Inr [73 / 100, 3 / 100]"
  "map_sum id (map spec_score_bounds)
     (hybrid_search_fm_global_schema pg0 sdb0 (axis 1) ''rack'' 5 (3 / 10) None)
     = Inr [True, True]"
  by (simp_all add: search_defs sql_defs fixture_defs spec_score_bounds_def)

lemma schema_sdb2:
  "map_sum id (map vector_id)
     (hybrid_search_fm_global_schema pg0 sdb2 (axis 1) ''rack'' 5 (3 / 10) None)
     = Inr [Some 1, Some 3, Some 2]"
  "map_sum id (map vector_similarity)
     (hybrid_search_fm_global_schema pg0 sdb2 (axis 1) ''rack'' 5 (3 / 10) None)
     = Inr [1, 0, - 1]"
  "map_sum id (map text_similarity)
     (hybrid_search_fm_global_schema pg0 sdb2 (axis 1) ''rack'' 5 (3 / 10) None)
     = Inr [1 / 10, 1 / 5, 0]"
  "map_sum id (map combined_score)
     (hybrid_search_fm_global_schema pg0 sdb2 (axis 1) ''rack'' 5 (3 / 10) None)
     = Inr [73 / 100, 3 / 50, - 7 / 10]"
  by (simp_all add: search_defs sql_defs fixture_defs sdb2_def)

lemma schema_sdb2_top2:
  "map_sum id (map vector_id)
     (hybrid_search_fm_global_schema pg0 sdb2 (axis 1) ''rack'' 2 (3 / 10) None)
     = Inr [Some 1, Some 3]"
  "map_sum id (map combined_score)
     (hybrid_search_fm_global_schema pg0 sdb2 (axis 1) ''rack'' 2 (3 / 10) None)
     = Inr [73 / 100, 3 / 50]"
  "length (schema_fused pg0 sdb2 (axis 1) ''rack'' (3 / 10) None) = 3"
  by (simp_all add: search_defs sql_defs fixture_defs sdb2_def)

subsection \<open>C1: the combined score\<close>

text \<open>C1, as the specification states it, fails: no variant of the hybrid search divides
  the lexical relevance by the maximum of the candidate set. The function of the schema
  file, called on \<open>sdb1\<close> with the query embedding \<open>axis 1\<close>, the query text \<open>rack\<close> and
  \<open>text_weight = 0.3\<close>, returns one row with the vector similarity \<open>-1\<close>, the lexical
  relevance \<open>0.1\<close> and the combined score \<open>-0.67\<close>; \<open>0.1\<close> is the maximum of its candidate
  set, so the normalized relevance is 1 and the specification's score is \<open>-0.4\<close>. The
  statement of \<^verbatim>\<open>sql/fix_fm_functions.sql\<close> gives the first row of \<open>db0\<close> the score
  \<open>0.71823781\<close>, from the relevance \<open>0.0607927\<close>, where the maximum over the lexical
  candidates is \<open>0.075990875\<close> and the specification's score is \<open>0.94\<close>.\<close>

theorem normalized_blend_counterexample:
  "map_sum id (map vector_similarity)
     (hybrid_search_fm_global_schema pg0 sdb1 (axis 1) ''rack'' 5 (3 / 10) None) = Inr [- 1]
   \<and> map_sum id (map text_similarity)
     (hybrid_search_fm_global_schema pg0 sdb1 (axis 1) ''rack'' 5 (3 / 10) None) = Inr [1 / 10]
   \<and> map_sum id (map combined_score)
     (hybrid_search_fm_global_schema pg0 sdb1 (axis 1) ''rack'' 5 (3 / 10) None)
       = Inr [- 67 / 100]
   \<and> map (coalesce0 \<circ> m_similarity) (schema_text_results pg0 sdb1 ''rack'' None) = [1 / 10]
   \<and> spec_combined_score (- 1) (spec_normalized_lexical [1 / 10] (1 / 10)) (3 / 10) = - 2 / 5
   \<and> hybrid_query pg0 db0 (axis 1) ''rack'' 5 (3 / 10) None = Inr [out1, out3, out2]
   \<and> combined_score out1 = 71823781 / 100000000
   \<and> spec_combined_score (vector_similarity out1)
        (spec_normalized_lexical (map tr_text_score (text_results pg0 db0 ''rack'' 5 None))
           (text_similarity out1)) (3 / 10) = 47 / 50"
proof -
  have e: "map (coalesce0 \<circ> m_similarity) (schema_text_results pg0 sdb1 ''rack'' None) = [1 / 10]"
    by (simp add: search_defs sql_defs fixture_defs)
  have s: "spec_combined_score (- 1) (spec_normalized_lexical [1 / 10] (1 / 10)) (3 / 10) = - 2 / 5"
    by (simp add: spec_normalized_lexical_def spec_combined_score_def)
  have c: "combined_score out1 = 71823781 / 100000000" by (simp add: out1_def)
  have t: "spec_combined_score (vector_similarity out1)
        (spec_normalized_lexical (map tr_text_score (text_results pg0 db0 ''rack'' 5 None))
           (text_similarity out1)) (3 / 10) = 47 / 50"
    by (simp add: text_scores_db0 spec_normalized_lexical_def spec_combined_score_def out1_def)
  from schema_hybrid_sdb1(1,2,3) e s hybrid_db0 c t show ?thesis
    by (intro conjI) assumption+
qed

text \<open>C1, amended. Every row that the statement of \<^verbatim>\<open>sql/fix_fm_functions.sql\<close>
  yields, and every row that the function of the schema file returns, has
  \<open>combined_score = vector_similarity * (1 - w) + text_similarity * w\<close>. Its
  \<open>text_similarity\<close> is the rank (\<^verbatim>\<open>ts_rank\<close> in the first, \<^verbatim>\<open>ts_rank_cd\<close> in the
  second), as the ranking function returns it, of a stored record that has the row's
  identifier and whose text matches the query, or 0 when no lexical candidate has the row's
  identifier. Its \<open>vector_similarity\<close> is 1 minus the cosine distance between the query
  embedding and the embedding of a stored record that has the row's identifier (0 in the
  statement of \<^verbatim>\<open>sql/fix_fm_functions.sql\<close> when that record has no embedding), or 0
  when no vector candidate has the row's identifier.\<close>

theorem combined_score_blend:
  "(\<forall>r \<in> set (returned (hybrid_query pg db qe qt n w f)).
      combined_score r = vector_similarity r * (1 - w) + text_similarity r * w
      \<and> ((\<exists>v \<in> set (fm_global_vectors db). Some (v_id v) = vector_id r
             \<and> ts_match (to_tsvector pg (v_content v)) (plainto_tsquery pg qt)
             \<and> text_similarity r
                 = ts_rank pg (to_tsvector pg (v_content v)) (plainto_tsquery pg qt))
          \<or> ((\<forall>t \<in> set (text_results pg db qt n f). Some (tr_id t) \<noteq> vector_id r)
             \<and> text_similarity r = 0))
      \<and> ((\<exists>v \<in> set (fm_global_vectors db). Some (v_id v) = vector_id r
             \<and> vector_similarity r
                 = (case v_embedding v of Some e \<Rightarrow> 1 - cosine_distance pg e qe | None \<Rightarrow> 0))
          \<or> ((\<forall>x \<in> set (vector_results pg db qe n f). Some (vr_id x) \<noteq> vector_id r)
             \<and> vector_similarity r = 0)))
   \<and> (\<forall>r \<in> set (returned (hybrid_search_fm_global_schema pg sdb qe qt n w tf)).
      combined_score r = vector_similarity r * (1 - w) + text_similarity r * w
      \<and> ((\<exists>v \<in> set (schema_vectors sdb). Some (sv_id v) = vector_id r
             \<and> ts_match (to_tsvector pg (sv_content v)) (plainto_tsquery pg qt)
             \<and> text_similarity r
                 = ts_rank_cd pg (to_tsvector pg (sv_content v)) (plainto_tsquery pg qt))
          \<or> ((\<forall>t \<in> set (schema_text_results pg sdb qt tf). Some (m_vector_id t) \<noteq> vector_id r)
             \<and> text_similarity r = 0))
      \<and> ((\<exists>v \<in> set (schema_vectors sdb). \<exists>e. sv_embedding v = Some e
             \<and> Some (sv_id v) = vector_id r
             \<and> vector_similarity r = 1 - cosine_distance pg e qe)
          \<or> ((\<forall>x \<in> set (schema_vector_results pg sdb qe tf). Some (m_vector_id x) \<noteq> vector_id r)
             \<and> vector_similarity r = 0)))"
proof (intro conjI ballI)
  fix r assume r: "r \<in> set (returned (hybrid_query pg db qe qt n w f))"
  show "combined_score r = vector_similarity r * (1 - w) + text_similarity r * w"
    using r by (rule query_blend(1))
  show "(\<exists>v \<in> set (fm_global_vectors db). Some (v_id v) = vector_id r
             \<and> ts_match (to_tsvector pg (v_content v)) (plainto_tsquery pg qt)
             \<and> text_similarity r
                 = ts_rank pg (to_tsvector pg (v_content v)) (plainto_tsquery pg qt))
          \<or> ((\<forall>t \<in> set (text_results pg db qt n f). Some (tr_id t) \<noteq> vector_id r)
             \<and> text_similarity r = 0)"
    using r by (rule query_blend(2))
  show "(\<exists>v \<in> set (fm_global_vectors db). Some (v_id v) = vector_id r
             \<and> vector_similarity r
                 = (case v_embedding v of Some e \<Rightarrow> 1 - cosine_distance pg e qe | None \<Rightarrow> 0))
          \<or> ((\<forall>x \<in> set (vector_results pg db qe n f). Some (vr_id x) \<noteq> vector_id r)
             \<and> vector_similarity r = 0)"
    using r by (rule query_blend(3))
next
  fix r assume r: "r \<in> set (returned (hybrid_search_fm_global_schema pg sdb qe qt n w tf))"
  show "combined_score r = vector_similarity r * (1 - w) + text_similarity r * w"
    using r by (rule schema_blend(1))
  show "(\<exists>v \<in> set (schema_vectors sdb). Some (sv_id v) = vector_id r
             \<and> ts_match (to_tsvector pg (sv_content v)) (plainto_tsquery pg qt)
             \<and> text_similarity r
                 = ts_rank_cd pg (to_tsvector pg (sv_content v)) (plainto_tsquery pg qt))
          \<or> ((\<forall>t \<in> set (schema_text_results pg sdb qt tf). Some (m_vector_id t) \<noteq> vector_id r)
             \<and> text_similarity r = 0)"
    using r by (rule schema_blend(2))
  show "(\<exists>v \<in> set (schema_vectors sdb). \<exists>e. sv_embedding v = Some e
             \<and> Some (sv_id v) = vector_id r
             \<and> vector_similarity r = 1 - cosine_distance pg e qe)
          \<or> ((\<forall>x \<in> set (schema_vector_results pg sdb qe tf). Some (m_vector_id x) \<noteq> vector_id r)
             \<and> vector_similarity r = 0)"
    using r by (rule schema_blend(3))
qed

theorem combined_score_blend_witness:
  "hybrid_query pg0 db0 (axis 1) ''rack'' 5 (3 / 10) None = Inr [out1, out3, out2]
   \<and> combined_score out1 = vector_similarity out1 * (1 - 3 / 10) + text_similarity out1 * (3 / 10)
   \<and> text_similarity out1
       = ts_rank pg0 (to_tsvector pg0 ''rack depth'') (plainto_tsquery pg0 ''rack'')
   \<and> vector_similarity out1 = 1 - cosine_distance pg0 (axis 1) (axis 1)
   \<and> map_sum id (map vector_id)
       (hybrid_search_fm_global_schema pg0 sdb2 (axis 1) ''rack'' 5 (3 / 10) None)
       = Inr [Some 1, Some 3, Some 2]
   \<and> map_sum id (map vector_similarity)
       (hybrid_search_fm_global_schema pg0 sdb2 (axis 1) ''rack'' 5 (3 / 10) None)
       = Inr [1, 0, - 1]
   \<and> map_sum id (map text_similarity)
       (hybrid_search_fm_global_schema pg0 sdb2 (axis 1) ''rack'' 5 (3 / 10) None)
       = Inr [1 / 10, 1 / 5, 0]
   \<and> map_sum id (map combined_score)
       (hybrid_search_fm_global_schema pg0 sdb2 (axis 1) ''rack'' 5 (3 / 10) None)
       = Inr [73 / 100, 3 / 50, - 7 / 10]
   \<and> 1 - cosine_distance pg0 (axis (- 1)) (axis 1) = - 1
   \<and> ts_rank_cd pg0 (to_tsvector pg0 ''rack rack'') (plainto_tsquery pg0 ''rack'') = 1 / 5
   \<and> 0 * (1 - 3 / 10) + 1 / 5 * (3 / 10) = (3 / 50 :: real)"
proof -
  have m: "out1 \<in> set (returned (hybrid_query pg0 db0 (axis 1) ''rack'' 5 (3 / 10) None))"
    by (simp add: returned_db0)
  note t = combined_score_blend [of pg0 db0 "axis 1" "''rack''" 5 "3 / 10" None sdb2 None,
      THEN conjunct1, rule_format, OF m]
  have a: "combined_score out1
      = vector_similarity out1 * (1 - 3 / 10) + text_similarity out1 * (3 / 10)"
    by (rule t [THEN conjunct1])
  have b: "text_similarity out1
       = ts_rank pg0 (to_tsvector pg0 ''rack depth'') (plainto_tsquery pg0 ''rack'')"
    "vector_similarity out1 = 1 - cosine_distance pg0 (axis 1) (axis 1)"
    by (simp_all add: out1_def sql_defs fixture_defs)
  have c: "1 - cosine_distance pg0 (axis (- 1)) (axis 1) = - 1"
    "ts_rank_cd pg0 (to_tsvector pg0 ''rack rack'') (plainto_tsquery pg0 ''rack'') = 1 / 5"
    "0 * (1 - 3 / 10) + 1 / 5 * (3 / 10) = (3 / 50 :: real)"
    by (simp_all add: sql_defs fixture_defs)
  from hybrid_db0 a b schema_sdb2 c show ?thesis by (intro conjI) assumption+
qed

subsection \<open>C2: candidates, join and identifiers\<close>

lemma filter_key_le1:
  assumes "distinct (map g ys)"
  shows "length (filter (\<lambda>y. a = g y \<and> P y) ys) \<le> 1"
  using assms
proof (induction ys)
  case Nil
  show ?case by simp
next
  case (Cons y ys)
  show ?case
  proof (cases "a = g y")
    case True
    with Cons.prems have "\<forall>z \<in> set ys. a \<noteq> g z" by auto
    then have "filter (\<lambda>y. a = g y \<and> P y) ys = []" by (simp add: filter_empty_conv)
    then have "length (filter (\<lambda>y. a = g y \<and> P y) (y # ys)) \<le> length [y]"
      by (simp only: filter.simps list.size split: if_splits) simp
    then show ?thesis by simp
  next
    case False
    with Cons show ?thesis by simp
  qed
qed

lemma left_join_unique:
  assumes "\<forall>x \<in> set xs. length (filter (on x) ys) \<le> 1"
  shows "map fst (left_join xs ys on) = xs"
  using assms
proof (induction xs)
  case Nil
  show ?case by (simp add: left_join_def)
next
  case (Cons x xs)
  then have ih: "map fst (left_join xs ys on) = xs" by simp
  have step: "left_join (x # xs) ys on =
      (case filter (on x) ys of [] \<Rightarrow> [(x, None)] | y # ms \<Rightarrow> map (\<lambda>m. (x, Some m)) (y # ms))
      @ left_join xs ys on"
    by (simp add: left_join_def)
  from Cons.prems have "length (filter (on x) ys) \<le> 1" by simp
  then have "map fst (case filter (on x) ys of [] \<Rightarrow> [(x, None)]
                       | y # ms \<Rightarrow> map (\<lambda>m. (x, Some m)) (y # ms)) = [x]"
    by (cases "filter (on x) ys") simp_all
  with ih show ?case unfolding step by simp
qed

lemma distinct_map_sort_key:
  "distinct (map g (sort_key k xs)) \<longleftrightarrow> distinct (map g xs)"
proof -
  have "mset (map g (sort_key k xs)) = mset (map g xs)" by simp
  then show ?thesis by (rule mset_eq_imp_distinct_iff)
qed

lemma distinct_map_take: "distinct (map g xs) \<Longrightarrow> distinct (map g (take k xs))"
  by (simp add: take_map [symmetric] distinct_take del: take_map)

lemma distinct_map_limit: "distinct (map g xs) \<Longrightarrow> distinct (map g (limit k xs))"
  unfolding limit_def by (rule distinct_map_take)

lemma from_vectors_rows:
  fixes db :: "'e database"
  assumes "distinct (map t_id (fm_global_tables db))"
    and "distinct (map f_id (fm_global_figures db))"
  shows "map (\<lambda>j. fst (fst j)) (from_vectors db) = fm_global_vectors db"
proof -
  let ?inner = "left_join (fm_global_vectors db) (fm_global_tables db)
          (\<lambda>v t. v_content_id v = Some (t_id t) \<and> v_content_type v = ''table'')"
  have "length (filter (\<lambda>t. v_content_id v = Some (t_id t) \<and> v_content_type v = ''table'')
          (fm_global_tables db)) \<le> 1" for v :: "'e fm_global_vector"
    using filter_key_le1 [of "\<lambda>t. Some (t_id t)" "fm_global_tables db" "v_content_id v"
        "\<lambda>t. v_content_type v = ''table''"] assms(1)
    by (simp add: distinct_map comp_def inj_on_def)
  then have inner: "map fst ?inner = fm_global_vectors db"
    by (intro left_join_unique) simp
  have "length (filter ((\<lambda>(v, t) f. v_content_id v = Some (f_id f) \<and> v_content_type v = ''figure'') p)
          (fm_global_figures db)) \<le> 1" for p :: "'e fm_global_vector \<times> fm_global_table option"
    using filter_key_le1 [of "\<lambda>f. Some (f_id f)" "fm_global_figures db" "v_content_id (fst p)"
        "\<lambda>f. v_content_type (fst p) = ''figure''"] assms(2)
    by (simp add: distinct_map comp_def inj_on_def case_prod_beta)
  then have "map fst (from_vectors db) = ?inner"
    unfolding from_vectors_def by (intro left_join_unique) simp
  then have "map fst (map fst (from_vectors db)) = fm_global_vectors db"
    using inner by simp
  then show ?thesis by (simp add: comp_def)
qed

lemma from_vectors_distinct:
  assumes "distinct (map v_id (fm_global_vectors db))"
    and "distinct (map t_id (fm_global_tables db))"
    and "distinct (map f_id (fm_global_figures db))"
  shows "distinct (map (\<lambda>j. v_id (fst (fst j))) (from_vectors db))"
proof -
  have "map (\<lambda>j. v_id (fst (fst j))) (from_vectors db)
          = map v_id (map (\<lambda>j. fst (fst j)) (from_vectors db))"
    by (simp add: comp_def)
  with from_vectors_rows [OF assms(2,3)] assms(1) show ?thesis by simp
qed

lemma vector_results_distinct:
  assumes "distinct (map v_id (fm_global_vectors db))"
    and "distinct (map t_id (fm_global_tables db))"
    and "distinct (map f_id (fm_global_figures db))"
  shows "distinct (map vr_id (vector_results pg db qe n f))"
proof -
  have "distinct (map (\<lambda>j. v_id (fst (fst j)))
          (limit (n * 2) (order_by (distance pg qe) (filter (asrs_filter f) (from_vectors db)))))"
    unfolding order_by_def
    by (intro distinct_map_limit distinct_map_sort_key [THEN iffD2] distinct_map_filter
        from_vectors_distinct assms)
  then show ?thesis
    by (simp add: vector_results_def comp_def select_vector_sel)
qed

lemma text_results_distinct:
  assumes "distinct (map v_id (fm_global_vectors db))"
    and "distinct (map t_id (fm_global_tables db))"
    and "distinct (map f_id (fm_global_figures db))"
  shows "distinct (map tr_id (text_results pg db qt n f))"
proof -
  have "distinct (map (\<lambda>j. v_id (fst (fst j)))
          (limit (n * 2) (filter (\<lambda>j. text_matches pg qt j \<and> asrs_filter f j) (from_vectors db))))"
    by (intro distinct_map_limit distinct_map_filter from_vectors_distinct assms)
  then show ?thesis
    by (simp add: text_results_def comp_def select_text_sel)
qed

lemma full_outer_join_distinct:
  assumes "distinct (map kx xs)" and "distinct (map ky ys)"
  shows "distinct (map (\<lambda>p. coalesce (map_option kx (fst p)) (map_option ky (snd p)))
                    (full_outer_join xs ys (\<lambda>x y. kx x = ky y)))"
proof -
  let ?on = "\<lambda>x y. kx x = ky y"
  let ?k = "\<lambda>p. coalesce (map_option kx (fst p)) (map_option ky (snd p))"
  have "length (filter (?on x) ys) \<le> 1" for x
    using filter_key_le1 [OF assms(2), of "kx x" "\<lambda>_. True"] by simp
  then have l: "map fst (left_join xs ys ?on) = xs"
    by (intro left_join_unique) simp
  have "map ?k (map (\<lambda>(x, m). (Some x, m)) (left_join xs ys ?on))
          = map (\<lambda>x. Some (kx x)) (map fst (left_join xs ys ?on))"
    by (simp add: comp_def case_prod_beta coalesce_def)
  then have left: "map ?k (map (\<lambda>(x, m). (Some x, m)) (left_join xs ys ?on))
          = map (\<lambda>x. Some (kx x)) xs"
    unfolding l .
  have right: "map ?k (map (\<lambda>y. (None, Some y)) (filter (\<lambda>y. \<not> list_ex (\<lambda>x. ?on x y) xs) ys))
          = map (\<lambda>y. Some (ky y)) (filter (\<lambda>y. \<not> list_ex (\<lambda>x. ?on x y) xs) ys)"
    by (simp add: comp_def coalesce_def)
  have d1: "distinct (map (\<lambda>x. Some (kx x)) xs)"
    using assms(1) by (simp add: distinct_map inj_on_def)
  have "distinct (map ky (filter (\<lambda>y. \<not> list_ex (\<lambda>x. ?on x y) xs) ys))"
    using assms(2) by (rule distinct_map_filter)
  then have d2: "distinct (map (\<lambda>y. Some (ky y)) (filter (\<lambda>y. \<not> list_ex (\<lambda>x. ?on x y) xs) ys))"
    by (simp add: distinct_map inj_on_def)
  have d3: "set (map (\<lambda>x. Some (kx x)) xs)
      \<inter> set (map (\<lambda>y. Some (ky y)) (filter (\<lambda>y. \<not> list_ex (\<lambda>x. ?on x y) xs) ys)) = {}"
    by (auto simp: list_ex_iff)
  show ?thesis
    unfolding full_outer_join_def map_append left right
    using d1 d2 d3 by (simp only: distinct_append simp_thms)
qed

lemma c_vector_id_select_combined:
  "c_vector_id (select_combined w p) = coalesce (map_option vr_id (fst p)) (map_option tr_id (snd p))"
  by (simp add: select_combined_def case_prod_beta)

lemma combined_distinct:
  assumes "distinct (map v_id (fm_global_vectors db))"
    and "distinct (map t_id (fm_global_tables db))"
    and "distinct (map f_id (fm_global_figures db))"
  shows "distinct (map c_vector_id (combined pg db qe qt n w f))"
proof -
  have "map c_vector_id (combined pg db qe qt n w f)
     = map (\<lambda>p. coalesce (map_option vr_id (fst p)) (map_option tr_id (snd p)))
         (full_outer_join (vector_results pg db qe n f) (text_results pg db qt n f)
            (\<lambda>v t. vr_id v = tr_id t))"
    by (simp add: combined_def comp_def c_vector_id_select_combined)
  with full_outer_join_distinct [OF vector_results_distinct [OF assms]
      text_results_distinct [OF assms], of pg qe n f pg qt]
  show ?thesis by simp
qed

lemma combined_ids:
  "c_vector_id ` set (combined pg db qe qt n w f)
     = Some ` (vr_id ` set (vector_results pg db qe n f) \<union> tr_id ` set (text_results pg db qt n f))"
proof (intro set_eqI iffI)
  fix i
  assume "i \<in> c_vector_id ` set (combined pg db qe qt n w f)"
  then obtain c where c: "c \<in> set (combined pg db qe qt n w f)" and i: "i = c_vector_id c"
    by auto
  from c obtain v t where sc: "c = select_combined w (v, t)"
    and vt: "(v, t) \<in> set (full_outer_join (vector_results pg db qe n f)
                             (text_results pg db qt n f) (\<lambda>v t. vr_id v = tr_id t))"
    by (rule combined_origin)
  from vt show "i \<in> Some ` (vr_id ` set (vector_results pg db qe n f)
                      \<union> tr_id ` set (text_results pg db qt n f))"
    unfolding full_outer_join_set i sc c_vector_id_select_combined
    by (auto simp: coalesce_def)
next
  fix i
  assume "i \<in> Some ` (vr_id ` set (vector_results pg db qe n f)
                      \<union> tr_id ` set (text_results pg db qt n f))"
  then consider (v) x where "x \<in> set (vector_results pg db qe n f)" "i = Some (vr_id x)"
    | (t) y where "y \<in> set (text_results pg db qt n f)" "i = Some (tr_id y)"
    by auto
  then obtain p where "p \<in> set (full_outer_join (vector_results pg db qe n f)
                             (text_results pg db qt n f) (\<lambda>v t. vr_id v = tr_id t))"
    and "i = coalesce (map_option vr_id (fst p)) (map_option tr_id (snd p))"
  proof cases
    case v
    show ?thesis
    proof (cases "\<exists>y \<in> set (text_results pg db qt n f). vr_id x = tr_id y")
      case True
      then obtain y where "y \<in> set (text_results pg db qt n f)" "vr_id x = tr_id y" by blast
      with v have "(Some x, Some y) \<in> set (full_outer_join (vector_results pg db qe n f)
                             (text_results pg db qt n f) (\<lambda>v t. vr_id v = tr_id t))"
        unfolding full_outer_join_set by blast
      with v show ?thesis by (intro that [of "(Some x, Some y)"]) (simp_all add: coalesce_def)
    next
      case False
      with v have "(Some x, None) \<in> set (full_outer_join (vector_results pg db qe n f)
                             (text_results pg db qt n f) (\<lambda>v t. vr_id v = tr_id t))"
        unfolding full_outer_join_set by blast
      with v show ?thesis by (intro that [of "(Some x, None)"]) (simp_all add: coalesce_def)
    qed
  next
    case t
    show ?thesis
    proof (cases "\<exists>x \<in> set (vector_results pg db qe n f). vr_id x = tr_id y")
      case True
      then obtain x where "x \<in> set (vector_results pg db qe n f)" "vr_id x = tr_id y" by blast
      with t have "(Some x, Some y) \<in> set (full_outer_join (vector_results pg db qe n f)
                             (text_results pg db qt n f) (\<lambda>v t. vr_id v = tr_id t))"
        unfolding full_outer_join_set by blast
      with t \<open>vr_id x = tr_id y\<close> show ?thesis
        by (intro that [of "(Some x, Some y)"]) (simp_all add: coalesce_def)
    next
      case False
      with t have "(None, Some y) \<in> set (full_outer_join (vector_results pg db qe n f)
                             (text_results pg db qt n f) (\<lambda>v t. vr_id v = tr_id t))"
        unfolding full_outer_join_set by blast
      with t show ?thesis by (intro that [of "(None, Some y)"]) (simp_all add: coalesce_def)
    qed
  qed
  then have "select_combined w p \<in> set (combined pg db qe qt n w f)"
    and "i = c_vector_id (select_combined w p)"
    by (simp_all add: combined_def c_vector_id_select_combined)
  then show "i \<in> c_vector_id ` set (combined pg db qe qt n w f)" by blast
qed

lemma combined_missing_component:
  assumes "c \<in> set (combined pg db qe qt n w f)"
  shows "(c_vector_id c \<notin> Some ` vr_id ` set (vector_results pg db qe n f)
            \<longrightarrow> c_vector_similarity c = 0)
       \<and> (c_vector_id c \<notin> Some ` tr_id ` set (text_results pg db qt n f)
            \<longrightarrow> c_text_similarity c = 0)"
proof -
  from assms obtain v t where sc: "c = select_combined w (v, t)"
    and vt: "(v, t) \<in> set (full_outer_join (vector_results pg db qe n f)
                             (text_results pg db qt n f) (\<lambda>v t. vr_id v = tr_id t))"
    by (rule combined_origin)
  have a: "c_vector_similarity c = 0"
    if "c_vector_id c \<notin> Some ` vr_id ` set (vector_results pg db qe n f)"
  proof (cases v)
    case None
    then show ?thesis by (simp add: sc select_combined_def coalesce0_def)
  next
    case (Some x)
    with vt have "x \<in> set (vector_results pg db qe n f)"
      unfolding full_outer_join_set by auto
    moreover from Some have "c_vector_id c = Some (vr_id x)"
      by (simp add: sc select_combined_def coalesce_def)
    ultimately have "c_vector_id c \<in> Some ` vr_id ` set (vector_results pg db qe n f)"
      by simp
    with that show ?thesis by simp
  qed
  have b: "c_text_similarity c = 0"
    if "c_vector_id c \<notin> Some ` tr_id ` set (text_results pg db qt n f)"
  proof (cases t)
    case None
    then show ?thesis by (simp add: sc select_combined_def coalesce0_def)
  next
    case (Some y)
    with vt have y: "y \<in> set (text_results pg db qt n f)"
      and "v = None \<or> (\<exists>x. v = Some x \<and> vr_id x = tr_id y)"
      unfolding full_outer_join_set by auto
    with Some have "c_vector_id c = Some (tr_id y)"
      by (auto simp: sc select_combined_def coalesce_def)
    with y have "c_vector_id c \<in> Some ` tr_id ` set (text_results pg db qt n f)"
      by simp
    with that show ?thesis by simp
  qed
  from a b show ?thesis by (intro conjI impI)
qed

lemma combined_present_component:
  assumes dv: "distinct (map vr_id (vector_results pg db qe n f))"
    and dt: "distinct (map tr_id (text_results pg db qt n f))"
    and c: "c \<in> set (combined pg db qe qt n w f)"
  shows "(\<forall>x \<in> set (vector_results pg db qe n f). Some (vr_id x) = c_vector_id c
            \<longrightarrow> c_vector_similarity c = coalesce0 (vr_vector_score x))
       \<and> (\<forall>y \<in> set (text_results pg db qt n f). Some (tr_id y) = c_vector_id c
            \<longrightarrow> c_text_similarity c = tr_text_score y)"
proof -
  from dv have iv: "inj_on vr_id (set (vector_results pg db qe n f))"
    by (simp add: distinct_map)
  from dt have it: "inj_on tr_id (set (text_results pg db qt n f))"
    by (simp add: distinct_map)
  from c obtain v t where sc: "c = select_combined w (v, t)"
    and vt: "(v, t) \<in> set (full_outer_join (vector_results pg db qe n f)
                             (text_results pg db qt n f) (\<lambda>v t. vr_id v = tr_id t))"
    by (rule combined_origin)
  have sel: "c_vector_id c = coalesce (map_option vr_id v) (map_option tr_id t)"
    "c_vector_similarity c = coalesce0 (Option.bind v vr_vector_score)"
    "c_text_similarity c = coalesce0 (map_option tr_text_score t)"
    by (simp_all add: sc select_combined_def)
  from vt show ?thesis
  proof (cases rule: full_outer_join_cases)
    case (both x' y')
    have a: "c_vector_similarity c = coalesce0 (vr_vector_score x)"
      if "x \<in> set (vector_results pg db qe n f)" "Some (vr_id x) = c_vector_id c" for x
    proof -
      from that both have "vr_id x = vr_id x'" by (simp add: sel coalesce_def)
      with iv that(1) both(1) have "x = x'" by (simp add: inj_on_def)
      with both show ?thesis by (simp add: sel)
    qed
    have b: "c_text_similarity c = tr_text_score y"
      if "y \<in> set (text_results pg db qt n f)" "Some (tr_id y) = c_vector_id c" for y
    proof -
      from that both have "tr_id y = tr_id y'" by (simp add: sel coalesce_def)
      with it that(1) both(2) have "y = y'" by (simp add: inj_on_def)
      with both show ?thesis by (simp add: sel coalesce0_def)
    qed
    from a b show ?thesis by blast
  next
    case (left x')
    have a: "c_vector_similarity c = coalesce0 (vr_vector_score x)"
      if "x \<in> set (vector_results pg db qe n f)" "Some (vr_id x) = c_vector_id c" for x
    proof -
      from that left have "vr_id x = vr_id x'" by (simp add: sel coalesce_def)
      with iv that(1) left(1) have "x = x'" by (simp add: inj_on_def)
      with left show ?thesis by (simp add: sel)
    qed
    have b: "c_text_similarity c = tr_text_score y"
      if "y \<in> set (text_results pg db qt n f)" "Some (tr_id y) = c_vector_id c" for y
    proof -
      from that left have "vr_id x' = tr_id y" by (simp add: sel coalesce_def)
      with left(2) that(1) show ?thesis by blast
    qed
    from a b show ?thesis by blast
  next
    case (right y')
    have a: "c_vector_similarity c = coalesce0 (vr_vector_score x)"
      if "x \<in> set (vector_results pg db qe n f)" "Some (vr_id x) = c_vector_id c" for x
    proof -
      from that right have "vr_id x = tr_id y'" by (simp add: sel coalesce_def)
      with right(2) that(1) show ?thesis by blast
    qed
    have b: "c_text_similarity c = tr_text_score y"
      if "y \<in> set (text_results pg db qt n f)" "Some (tr_id y) = c_vector_id c" for y
    proof -
      from that right have "tr_id y = tr_id y'" by (simp add: sel coalesce_def)
      with it that(1) right(1) have "y = y'" by (simp add: inj_on_def)
      with right show ?thesis by (simp add: sel coalesce0_def)
    qed
    from a b show ?thesis by blast
  qed
qed

text \<open>C2. In the statement of \<^verbatim>\<open>hybrid_search_fm_global\<close> with limit \<open>n \<ge> 0\<close>, the
  identifier columns being primary keys (no two rows of a table share an identifier), the
  vector sub-query and the lexical sub-query each yield at most \<open>2 * n\<close> candidates. The
  fused rows carry exactly the identifiers of the two candidate sets; a fused row has, for
  each set that holds a candidate with its identifier, the score of that candidate (0 for a
  vector candidate without an embedding), and 0 for a set that holds none. No identifier
  occurs twice, neither among the fused rows nor in what the statement yields.\<close>

theorem fused_candidates:
  assumes "distinct (map v_id (fm_global_vectors db))"
    and "distinct (map t_id (fm_global_tables db))"
    and "distinct (map f_id (fm_global_figures db))"
    and "0 \<le> n"
  shows "int (length (vector_results pg db qe n f)) \<le> 2 * n
    \<and> int (length (text_results pg db qt n f)) \<le> 2 * n
    \<and> c_vector_id ` set (combined pg db qe qt n w f)
        = Some ` (vr_id ` set (vector_results pg db qe n f)
                  \<union> tr_id ` set (text_results pg db qt n f))
    \<and> (\<forall>c \<in> set (combined pg db qe qt n w f).
          (\<forall>x \<in> set (vector_results pg db qe n f). Some (vr_id x) = c_vector_id c
             \<longrightarrow> c_vector_similarity c = coalesce0 (vr_vector_score x))
          \<and> (\<forall>y \<in> set (text_results pg db qt n f). Some (tr_id y) = c_vector_id c
             \<longrightarrow> c_text_similarity c = tr_text_score y))
    \<and> (\<forall>c \<in> set (combined pg db qe qt n w f).
          (c_vector_id c \<notin> Some ` vr_id ` set (vector_results pg db qe n f)
             \<longrightarrow> c_vector_similarity c = 0)
          \<and> (c_vector_id c \<notin> Some ` tr_id ` set (text_results pg db qt n f)
             \<longrightarrow> c_text_similarity c = 0))
    \<and> distinct (map c_vector_id (combined pg db qe qt n w f))
    \<and> distinct (map vector_id (returned (hybrid_query pg db qe qt n w f)))"
proof -
  from assms(4) have l1: "int (length (vector_results pg db qe n f)) \<le> 2 * n"
    and l2: "int (length (text_results pg db qt n f)) \<le> 2 * n"
    using length_limit [of "n * 2"]
    by (simp_all add: vector_results_def text_results_def mult.commute)
  have d: "distinct (map c_vector_id (combined pg db qe qt n w f))"
    by (rule combined_distinct [OF assms(1-3)])
  then have "distinct (map c_vector_id
                (limit n (order_by_desc c_score (combined pg db qe qt n w f))))"
    unfolding order_by_desc_def
    by (intro distinct_map_limit distinct_map_sort_key [THEN iffD2])
  then have d': "distinct (map vector_id (returned (hybrid_query pg db qe qt n w f)))"
    by (simp add: hybrid_query_def returned_def comp_def select_hybrid_def)
  have ids: "c_vector_id ` set (combined pg db qe qt n w f)
        = Some ` (vr_id ` set (vector_results pg db qe n f)
                  \<union> tr_id ` set (text_results pg db qt n f))"
    by (rule combined_ids)
  have pres: "\<forall>c \<in> set (combined pg db qe qt n w f).
          (\<forall>x \<in> set (vector_results pg db qe n f). Some (vr_id x) = c_vector_id c
             \<longrightarrow> c_vector_similarity c = coalesce0 (vr_vector_score x))
          \<and> (\<forall>y \<in> set (text_results pg db qt n f). Some (tr_id y) = c_vector_id c
             \<longrightarrow> c_text_similarity c = tr_text_score y)"
    by (intro ballI combined_present_component vector_results_distinct text_results_distinct
        assms(1-3))
  have miss: "\<forall>c \<in> set (combined pg db qe qt n w f).
          (c_vector_id c \<notin> Some ` vr_id ` set (vector_results pg db qe n f)
             \<longrightarrow> c_vector_similarity c = 0)
          \<and> (c_vector_id c \<notin> Some ` tr_id ` set (text_results pg db qt n f)
             \<longrightarrow> c_text_similarity c = 0)"
    by (intro ballI combined_missing_component)
  from l1 l2 ids pres miss d d' show ?thesis by (intro conjI) assumption+
qed

theorem fused_candidates_witness:
  "distinct (map v_id (fm_global_vectors db0))
   \<and> distinct (map t_id (fm_global_tables db0))
   \<and> distinct (map f_id (fm_global_figures db0))
   \<and> length (filter (asrs_filter None) (from_vectors db0)) = 3
   \<and> map vr_id (vector_results pg0 db0 (axis 1) 1 None) = [1, 2]
   \<and> map vr_vector_score (vector_results pg0 db0 (axis 1) 1 None) = [Some 1, Some (- 1)]
   \<and> map tr_id (text_results pg0 db0 ''rack'' 1 None) = [1, 3]
   \<and> map tr_text_score (text_results pg0 db0 ''rack'' 1 None)
       = [607927 / 10000000, 607927 / 8000000]
   \<and> map c_vector_id (combined pg0 db0 (axis 1) ''rack'' 1 (3 / 10) None)
       = [Some 1, Some 2, Some 3]
   \<and> map c_vector_similarity (combined pg0 db0 (axis 1) ''rack'' 1 (3 / 10) None) = [1, - 1, 0]
   \<and> map c_text_similarity (combined pg0 db0 (axis 1) ''rack'' 1 (3 / 10) None)
       = [607927 / 10000000, 0, 607927 / 8000000]
   \<and> distinct (map c_vector_id (combined pg0 db0 (axis 1) ''rack'' 1 (3 / 10) None))
   \<and> map_sum id (map vector_id) (hybrid_query pg0 db0 (axis 1) ''rack'' 1 (3 / 10) None)
       = Inr [Some 1]"
proof -
  have pk: "distinct (map v_id (fm_global_vectors db0))"
    "distinct (map t_id (fm_global_tables db0))"
    "distinct (map f_id (fm_global_figures db0))"
    by (simp_all add: fixture_defs)
  have n: "0 \<le> (1 :: int)" by simp
  note fc = fused_candidates [OF pk n, of pg0 "axis 1" None "''rack''" "3 / 10"]
  have d: "distinct (map c_vector_id (combined pg0 db0 (axis 1) ''rack'' 1 (3 / 10) None))"
    by (rule fc [THEN conjunct2, THEN conjunct2, THEN conjunct2, THEN conjunct2,
          THEN conjunct2, THEN conjunct1])
  from pk candidates_db0(1-8) d candidates_db0(9) show ?thesis
    by (intro conjI) assumption+
qed

subsection \<open>C3: order and truncation\<close>

text \<open>C3, as the specification states it, fails on the tie-break: the final query orders
  by \<^verbatim>\<open>c.score DESC\<close> alone. Two rows with the same combined score come out in the
  order the executor meets them; the statement, run on \<open>db_tie\<close>, yields the row with
  identifier 2 before the row with identifier 1.\<close>

theorem tie_break_counterexample:
  "map_sum id (map vector_id)
     (hybrid_query pg0 db_tie (axis 1) ''rack'' 5 (3 / 10) None) = Inr [Some 2, Some 1]
   \<and> map_sum id (map combined_score)
     (hybrid_query pg0 db_tie (axis 1) ''rack'' 5 (3 / 10) None)
       = Inr [71823781 / 100000000, 71823781 / 100000000]
   \<and> map_sum id spec_ranked_by_score_then_id
     (hybrid_query pg0 db_tie (axis 1) ''rack'' 5 (3 / 10) None) = Inr False"
  by (simp add: search_defs sql_defs fixture_defs spec_ranked_by_score_then_id_def spec_score_then_id_def
      spec_id_le_def)

text \<open>C3, amended. What the statement of \<^verbatim>\<open>sql/fix_fm_functions.sql\<close> yields, and
  what the function of the schema file returns, is a list in descending order of combined
  score (no order is fixed among equal scores); its length is the smaller of
  \<open>match_count\<close> and the number of fused candidates, so never more than \<open>match_count\<close>; and
  it is a top segment of the fused candidates: together with the omitted rows it makes up
  the fused candidates, and no omitted row scores higher than a returned one. The statement
  yields a list for every \<open>match_count\<close> from 0 whose double is a 32-bit integer, the
  function of the schema file for every \<open>match_count\<close> from 0.\<close>

theorem ranked_and_truncated:
  "(\<forall>rs. hybrid_query pg db qe qt n w f = Inr rs \<longrightarrow>
      sorted_wrt (\<lambda>a b. combined_score b \<le> combined_score a) rs
      \<and> int (length rs) \<le> n
      \<and> length rs = min (nat n) (length (combined pg db qe qt n w f))
      \<and> (\<exists>rest. mset (rs @ rest) = mset (map select_hybrid (combined pg db qe qt n w f))
            \<and> (\<forall>r \<in> set rs. \<forall>c \<in> set rest. combined_score c \<le> combined_score r)))
   \<and> (\<forall>rs. hybrid_search_fm_global_schema pg sdb qe qt n w tf = Inr rs \<longrightarrow>
      sorted_wrt (\<lambda>a b. combined_score b \<le> combined_score a) rs
      \<and> int (length rs) \<le> n
      \<and> length rs = min (nat n) (length (schema_fused pg sdb qe qt w tf))
      \<and> (\<exists>rest. mset (rs @ rest) = mset (schema_fused pg sdb qe qt w tf)
            \<and> (\<forall>r \<in> set rs. \<forall>c \<in> set rest. combined_score c \<le> combined_score r)))
   \<and> (0 \<le> n \<and> int4 (n * 2) \<longrightarrow> (\<exists>rs. hybrid_query pg db qe qt n w f = Inr rs))
   \<and> (0 \<le> n \<longrightarrow> (\<exists>rs. hybrid_search_fm_global_schema pg sdb qe qt n w tf = Inr rs))"
proof -
  have a: "\<forall>rs. hybrid_query pg db qe qt n w f = Inr rs \<longrightarrow>
      sorted_wrt (\<lambda>a b. combined_score b \<le> combined_score a) rs
      \<and> int (length rs) \<le> n
      \<and> length rs = min (nat n) (length (combined pg db qe qt n w f))
      \<and> (\<exists>rest. mset (rs @ rest) = mset (map select_hybrid (combined pg db qe qt n w f))
            \<and> (\<forall>r \<in> set rs. \<forall>c \<in> set rest. combined_score c \<le> combined_score r))"
  proof (intro allI impI)
    fix rs
    assume h: "hybrid_query pg db qe qt n w f = Inr rs"
    then have n: "0 \<le> n"
      and rs: "rs = limit n (order_by_desc combined_score
                      (map select_hybrid (combined pg db qe qt n w f)))"
      by (simp_all add: hybrid_query_eq split: if_splits)
    from top_segment [OF n, of combined_score "map select_hybrid (combined pg db qe qt n w f)"]
    show "sorted_wrt (\<lambda>a b. combined_score b \<le> combined_score a) rs
        \<and> int (length rs) \<le> n
        \<and> length rs = min (nat n) (length (combined pg db qe qt n w f))
        \<and> (\<exists>rest. mset (rs @ rest) = mset (map select_hybrid (combined pg db qe qt n w f))
              \<and> (\<forall>r \<in> set rs. \<forall>c \<in> set rest. combined_score c \<le> combined_score r))"
      unfolding rs by simp
  qed
  have b: "\<forall>rs. hybrid_search_fm_global_schema pg sdb qe qt n w tf = Inr rs \<longrightarrow>
      sorted_wrt (\<lambda>a b. combined_score b \<le> combined_score a) rs
      \<and> int (length rs) \<le> n
      \<and> length rs = min (nat n) (length (schema_fused pg sdb qe qt w tf))
      \<and> (\<exists>rest. mset (rs @ rest) = mset (schema_fused pg sdb qe qt w tf)
            \<and> (\<forall>r \<in> set rs. \<forall>c \<in> set rest. combined_score c \<le> combined_score r))"
  proof (intro allI impI)
    fix rs
    assume h: "hybrid_search_fm_global_schema pg sdb qe qt n w tf = Inr rs"
    then have n: "0 \<le> n"
      and rs: "rs = limit n (order_by_desc combined_score (schema_fused pg sdb qe qt w tf))"
      by (simp_all add: schema_hybrid_eq split: if_splits)
    from top_segment [OF n, of combined_score "schema_fused pg sdb qe qt w tf"]
    show "sorted_wrt (\<lambda>a b. combined_score b \<le> combined_score a) rs
        \<and> int (length rs) \<le> n
        \<and> length rs = min (nat n) (length (schema_fused pg sdb qe qt w tf))
        \<and> (\<exists>rest. mset (rs @ rest) = mset (schema_fused pg sdb qe qt w tf)
              \<and> (\<forall>r \<in> set rs. \<forall>c \<in> set rest. combined_score c \<le> combined_score r))"
      unfolding rs by simp
  qed
  have c: "0 \<le> n \<and> int4 (n * 2) \<longrightarrow> (\<exists>rs. hybrid_query pg db qe qt n w f = Inr rs)"
    by (simp add: hybrid_query_eq)
  have d: "0 \<le> n \<longrightarrow> (\<exists>rs. hybrid_search_fm_global_schema pg sdb qe qt n w tf = Inr rs)"
    by (simp add: schema_hybrid_eq)
  from a b c d show ?thesis by (intro conjI) assumption+
qed

theorem ranked_and_truncated_witness:
  "hybrid_query pg0 db0 (axis 1) ''rack'' 2 (3 / 10) None = Inr [out1, out3]
   \<and> length (combined pg0 db0 (axis 1) ''rack'' 2 (3 / 10) None) = 3
   \<and> combined_score out3 \<le> combined_score out1
   \<and> length [out1, out3] = 2
   \<and> map_sum id (map vector_id)
       (hybrid_search_fm_global_schema pg0 sdb2 (axis 1) ''rack'' 2 (3 / 10) None)
       = Inr [Some 1, Some 3]
   \<and> map_sum id (map combined_score)
       (hybrid_search_fm_global_schema pg0 sdb2 (axis 1) ''rack'' 2 (3 / 10) None)
       = Inr [73 / 100, 3 / 50]
   \<and> length (schema_fused pg0 sdb2 (axis 1) ''rack'' (3 / 10) None) = 3"
  using ranked_and_truncated [of pg0 db0 "axis 1" "''rack''" 2 "3 / 10" None sdb2 None,
      THEN conjunct1, rule_format, OF hybrid_db0_top2]
  by (simp add: hybrid_db0_top2 length_combined_db0 schema_sdb2_top2)

subsection \<open>C4: score bounds\<close>

lemma convex_unit:
  fixes a b w :: real
  assumes "0 \<le> a" "a \<le> 1" "0 \<le> b" "b \<le> 1" "0 \<le> w" "w \<le> 1"
  shows "0 \<le> a * (1 - w) + b * w" and "a * (1 - w) + b * w \<le> 1"
proof -
  from assms show "0 \<le> a * (1 - w) + b * w" by simp
  from assms have "a * (1 - w) \<le> 1 * (1 - w)" by (intro mult_right_mono) simp_all
  moreover from assms have "b * w \<le> 1 * w" by (intro mult_right_mono) simp_all
  ultimately show "a * (1 - w) + b * w \<le> 1" by simp
qed

lemma unit_blend:
  fixes a b w :: real
  assumes "0 \<le> a \<and> a \<le> 1" "0 \<le> b \<and> b \<le> 1" "0 \<le> w" "w \<le> 1"
  shows "0 \<le> a * (1 - w) + b * w \<and> a * (1 - w) + b * w \<le> 1"
  using convex_unit [of a b w] assms by blast

text \<open>C4, as the specification states it, fails: the vector score is
  \<open>1 - cosine distance\<close>, and the cosine distance of two vectors that point in opposite
  directions is 2. The function of the schema file returns for \<open>sdb1\<close> a row with
  \<open>vector_similarity = -1\<close> and \<open>combined_score = -0.67\<close>; the statement of
  \<^verbatim>\<open>sql/fix_fm_functions.sql\<close> yields for \<open>db0\<close> a row with \<open>vector_similarity = -1\<close>
  and \<open>combined_score = -0.7\<close>. Nothing clamps either score.\<close>

theorem score_bounds_counterexample:
  "map_sum id (map vector_similarity)
     (hybrid_search_fm_global_schema pg0 sdb1 (axis 1) ''rack'' 5 (3 / 10) None) = Inr [- 1]
   \<and> map_sum id (map combined_score)
     (hybrid_search_fm_global_schema pg0 sdb1 (axis 1) ''rack'' 5 (3 / 10) None)
       = Inr [- 67 / 100]
   \<and> map_sum id (map spec_score_bounds)
     (hybrid_search_fm_global_schema pg0 sdb1 (axis 1) ''rack'' 5 (3 / 10) None)
       = Inr [False]
   \<and> hybrid_query pg0 db0 (axis 1) ''rack'' 5 (3 / 10) None = Inr [out1, out3, out2]
   \<and> vector_similarity out2 = - 1
   \<and> combined_score out2 = - 7 / 10
   \<and> \<not> spec_score_bounds out2"
proof -
  have b: "map_sum id (map spec_score_bounds)
     (hybrid_search_fm_global_schema pg0 sdb1 (axis 1) ''rack'' 5 (3 / 10) None)
       = Inr [False]"
    by (simp add: search_defs sql_defs fixture_defs spec_score_bounds_def)
  have c: "vector_similarity out2 = - 1" "combined_score out2 = - 7 / 10"
    "\<not> spec_score_bounds out2"
    by (simp_all add: spec_score_bounds_def out2_def)
  from schema_hybrid_sdb1(1,3) b hybrid_db0 c show ?thesis by (intro conjI) assumption+
qed

text \<open>C4, amended. When the weight lies in \<open>[0, 1]\<close>, every stored embedding has a
  cosine distance to the query embedding in \<open>[0, 1]\<close> (a cosine that is not negative) and
  every stored text that matches the query has a rank in \<open>[0, 1]\<close> (\<^verbatim>\<open>ts_rank\<close> for the
  statement of \<^verbatim>\<open>sql/fix_fm_functions.sql\<close>, \<^verbatim>\<open>ts_rank_cd\<close> for the function of
  the schema file, which is not bounded by 1), then every row has both its vector
  similarity and its combined score in \<open>[0, 1]\<close>.\<close>

theorem scores_bounded:
  "(0 \<le> w \<and> w \<le> 1
      \<and> (\<forall>v \<in> set (fm_global_vectors db). \<forall>e. v_embedding v = Some e \<longrightarrow>
            0 \<le> cosine_distance pg e qe \<and> cosine_distance pg e qe \<le> 1)
      \<and> (\<forall>v \<in> set (fm_global_vectors db).
            ts_match (to_tsvector pg (v_content v)) (plainto_tsquery pg qt) \<longrightarrow>
            0 \<le> ts_rank pg (to_tsvector pg (v_content v)) (plainto_tsquery pg qt)
            \<and> ts_rank pg (to_tsvector pg (v_content v)) (plainto_tsquery pg qt) \<le> 1)
    \<longrightarrow> (\<forall>r \<in> set (returned (hybrid_query pg db qe qt n w f)). spec_score_bounds r))
   \<and> (0 \<le> w \<and> w \<le> 1
      \<and> (\<forall>v \<in> set (schema_vectors sdb). \<forall>e. sv_embedding v = Some e \<longrightarrow>
            0 \<le> cosine_distance pg e qe \<and> cosine_distance pg e qe \<le> 1)
      \<and> (\<forall>v \<in> set (schema_vectors sdb).
            ts_match (to_tsvector pg (sv_content v)) (plainto_tsquery pg qt) \<longrightarrow>
            0 \<le> ts_rank_cd pg (to_tsvector pg (sv_content v)) (plainto_tsquery pg qt)
            \<and> ts_rank_cd pg (to_tsvector pg (sv_content v)) (plainto_tsquery pg qt) \<le> 1)
    \<longrightarrow> (\<forall>r \<in> set (returned (hybrid_search_fm_global_schema pg sdb qe qt n w tf)).
           spec_score_bounds r))"
proof -
  have a: "spec_score_bounds r"
    if w: "0 \<le> w" "w \<le> 1"
      and dist: "\<forall>v \<in> set (fm_global_vectors db). \<forall>e. v_embedding v = Some e \<longrightarrow>
            0 \<le> cosine_distance pg e qe \<and> cosine_distance pg e qe \<le> 1"
      and rank: "\<forall>v \<in> set (fm_global_vectors db).
            ts_match (to_tsvector pg (v_content v)) (plainto_tsquery pg qt) \<longrightarrow>
            0 \<le> ts_rank pg (to_tsvector pg (v_content v)) (plainto_tsquery pg qt)
            \<and> ts_rank pg (to_tsvector pg (v_content v)) (plainto_tsquery pg qt) \<le> 1"
      and r: "r \<in> set (returned (hybrid_query pg db qe qt n w f))" for r
  proof -
    have v01: "0 \<le> vector_similarity r \<and> vector_similarity r \<le> 1"
      using query_blend(3) [OF r]
    proof
      assume "\<exists>v \<in> set (fm_global_vectors db). Some (v_id v) = vector_id r
             \<and> vector_similarity r
                 = (case v_embedding v of Some e \<Rightarrow> 1 - cosine_distance pg e qe | None \<Rightarrow> 0)"
      then obtain v where v: "v \<in> set (fm_global_vectors db)"
        and s: "vector_similarity r
                 = (case v_embedding v of Some e \<Rightarrow> 1 - cosine_distance pg e qe | None \<Rightarrow> 0)"
        by blast
      show ?thesis
      proof (cases "v_embedding v")
        case None
        with s show ?thesis by simp
      next
        case (Some e)
        with dist v have "0 \<le> cosine_distance pg e qe \<and> cosine_distance pg e qe \<le> 1" by blast
        with s Some show ?thesis by simp
      qed
    next
      assume "(\<forall>x \<in> set (vector_results pg db qe n f). Some (vr_id x) \<noteq> vector_id r)
             \<and> vector_similarity r = 0"
      then show ?thesis by simp
    qed
    have t01: "0 \<le> text_similarity r \<and> text_similarity r \<le> 1"
      using query_blend(2) [OF r]
    proof
      assume "\<exists>v \<in> set (fm_global_vectors db). Some (v_id v) = vector_id r
             \<and> ts_match (to_tsvector pg (v_content v)) (plainto_tsquery pg qt)
             \<and> text_similarity r
                 = ts_rank pg (to_tsvector pg (v_content v)) (plainto_tsquery pg qt)"
      with rank show ?thesis by force
    next
      assume "(\<forall>t \<in> set (text_results pg db qt n f). Some (tr_id t) \<noteq> vector_id r)
             \<and> text_similarity r = 0"
      then show ?thesis by simp
    qed
    from unit_blend [OF v01 t01 w] v01 show ?thesis
      by (simp add: spec_score_bounds_def query_blend(1) [OF r])
  qed
  have b: "spec_score_bounds r"
    if w: "0 \<le> w" "w \<le> 1"
      and dist: "\<forall>v \<in> set (schema_vectors sdb). \<forall>e. sv_embedding v = Some e \<longrightarrow>
            0 \<le> cosine_distance pg e qe \<and> cosine_distance pg e qe \<le> 1"
      and rank: "\<forall>v \<in> set (schema_vectors sdb).
            ts_match (to_tsvector pg (sv_content v)) (plainto_tsquery pg qt) \<longrightarrow>
            0 \<le> ts_rank_cd pg (to_tsvector pg (sv_content v)) (plainto_tsquery pg qt)
            \<and> ts_rank_cd pg (to_tsvector pg (sv_content v)) (plainto_tsquery pg qt) \<le> 1"
      and r: "r \<in> set (returned (hybrid_search_fm_global_schema pg sdb qe qt n w tf))" for r
  proof -
    have v01: "0 \<le> vector_similarity r \<and> vector_similarity r \<le> 1"
      using schema_blend(3) [OF r]
    proof
      assume "\<exists>v \<in> set (schema_vectors sdb). \<exists>e. sv_embedding v = Some e
             \<and> Some (sv_id v) = vector_id r
             \<and> vector_similarity r = 1 - cosine_distance pg e qe"
      then obtain v e where "v \<in> set (schema_vectors sdb)" "sv_embedding v = Some e"
        and s: "vector_similarity r = 1 - cosine_distance pg e qe"
        by blast
      with dist have "0 \<le> cosine_distance pg e qe \<and> cosine_distance pg e qe \<le> 1" by blast
      with s show ?thesis by simp
    next
      assume "(\<forall>x \<in> set (schema_vector_results pg sdb qe tf). Some (m_vector_id x) \<noteq> vector_id r)
             \<and> vector_similarity r = 0"
      then show ?thesis by simp
    qed
    have t01: "0 \<le> text_similarity r \<and> text_similarity r \<le> 1"
      using schema_blend(2) [OF r]
    proof
      assume "\<exists>v \<in> set (schema_vectors sdb). Some (sv_id v) = vector_id r
             \<and> ts_match (to_tsvector pg (sv_content v)) (plainto_tsquery pg qt)
             \<and> text_similarity r
                 = ts_rank_cd pg (to_tsvector pg (sv_content v)) (plainto_tsquery pg qt)"
      with rank show ?thesis by force
    next
      assume "(\<forall>t \<in> set (schema_text_results pg sdb qt tf). Some (m_vector_id t) \<noteq> vector_id r)
             \<and> text_similarity r = 0"
      then show ?thesis by simp
    qed
    from unit_blend [OF v01 t01 w] v01 show ?thesis
      by (simp add: spec_score_bounds_def schema_blend(1) [OF r])
  qed
  from a b show ?thesis by blast
qed

theorem scores_bounded_witness:
  "map_sum id (map vector_similarity) (hybrid_query pg0 db_tie (axis 1) ''rack'' 5 (3 / 10) None)
     = Inr [1, 1]
   \<and> map_sum id (map combined_score) (hybrid_query pg0 db_tie (axis 1) ''rack'' 5 (3 / 10) None)
     = Inr [71823781 / 100000000, 71823781 / 100000000]
   \<and> spec_score_bounds tie_out2
   \<and> map_sum id (map vector_similarity)
       (hybrid_search_fm_global_schema pg0 sdb0 (axis 1) ''rack'' 5 (3 / 10) None) = Inr [1, 0]
   \<and> map_sum id (map combined_score)
       (hybrid_search_fm_global_schema pg0 sdb0 (axis 1) ''rack'' 5 (3 / 10) None)
       = Inr [73 / 100, 3 / 100]
   \<and> map_sum id (map spec_score_bounds)
       (hybrid_search_fm_global_schema pg0 sdb0 (axis 1) ''rack'' 5 (3 / 10) None)
       = Inr [True, True]"
proof -
  have h: "0 \<le> (3 / 10 :: real) \<and> (3 / 10 :: real) \<le> 1
      \<and> (\<forall>v \<in> set (fm_global_vectors db_tie). \<forall>e. v_embedding v = Some e \<longrightarrow>
            0 \<le> cosine_distance pg0 e (axis 1) \<and> cosine_distance pg0 e (axis 1) \<le> 1)
      \<and> (\<forall>v \<in> set (fm_global_vectors db_tie).
            ts_match (to_tsvector pg0 (v_content v)) (plainto_tsquery pg0 ''rack'') \<longrightarrow>
            0 \<le> ts_rank pg0 (to_tsvector pg0 (v_content v)) (plainto_tsquery pg0 ''rack'')
            \<and> ts_rank pg0 (to_tsvector pg0 (v_content v)) (plainto_tsquery pg0 ''rack'') \<le> 1)"
    by (simp add: sql_defs fixture_defs)
  have m: "tie_out2 \<in> set (returned (hybrid_query pg0 db_tie (axis 1) ''rack'' 5 (3 / 10) None))"
    by (simp add: hybrid_tie returned_def)
  have b: "spec_score_bounds tie_out2"
    by (rule scores_bounded [of "3 / 10" db_tie pg0 "axis 1" "''rack''" 5 None sdb0 None,
          THEN conjunct1, rule_format, OF h m])
  from query_db_tie(2,1) b schema_sdb0(2,3,4) show ?thesis by (intro conjI) assumption+
qed

subsection \<open>C5: the query without lexemes\<close>

lemma blank_no_text_results:
  assumes "plainto_tsquery pg qt = []"
  shows "text_results pg db qt n f = []" and "schema_text_results pg sdb qt tf = []"
proof -
  have "\<not> text_matches pg qt j" for j
    using assms by (simp add: text_matches_def ts_match_def)
  then show "text_results pg db qt n f = []"
    by (simp add: text_results_def limit_def)
  have "\<not> schema_text_matches pg qt j" for j
    using assms by (simp add: schema_text_matches_def ts_match_def)
  then show "schema_text_results pg sdb qt tf = []"
    by (simp add: schema_text_results_def)
qed

text \<open>C5, as the specification states it, fails: no search function inspects the query
  text. A blank text gives a \<^verbatim>\<open>tsquery\<close> without lexemes and an empty lexical candidate
  set, which is a result, not an error. The function of the schema file, called on \<open>sdb1\<close>
  with a blank or an empty text, returns the vector candidate. The function of
  \<^verbatim>\<open>sql/fix_fm_functions.sql\<close> raises the error of its type check for the blank text as
  it does for the text \<open>rack\<close>, and not \<open>EmptyQuery\<close>.\<close>

theorem empty_query_counterexample:
  "plainto_tsquery pg0 ''  '' = []
   \<and> text_results pg0 db0 ''  '' 5 None = []
   \<and> schema_text_results pg0 sdb1 ''  '' None = []
   \<and> map_sum id (map vector_id)
       (hybrid_search_fm_global_schema pg0 sdb1 (axis 1) ''  '' 5 (3 / 10) None) = Inr [Some 3]
   \<and> map_sum id (map vector_id)
       (hybrid_search_fm_global_schema pg0 sdb1 (axis 1) [] 5 (3 / 10) None) = Inr [Some 3]
   \<and> hybrid_search_fm_global_schema pg0 sdb1 (axis 1) ''  '' 5 (3 / 10) None \<noteq> Inl EmptyQuery
   \<and> hybrid_search_fm_global pg0 db0 (axis 1) ''  '' 5 (3 / 10) None = Inl DatatypeMismatch
   \<and> hybrid_search_fm_global pg0 db0 (axis 1) ''rack'' 5 (3 / 10) None = Inl DatatypeMismatch
   \<and> hybrid_search_fm_global pg0 db0 (axis 1) ''  '' 5 (3 / 10) None \<noteq> Inl EmptyQuery"
  by (simp add: search_defs sql_defs fixture_defs)

text \<open>C5, amended. For every query text that holds no lexeme (the empty and the
  whitespace-only text among them) the lexical candidate set is empty and no variant of the
  hybrid search raises \<open>EmptyQuery\<close>. The function of the schema file returns, for every
  \<open>match_count\<close> from 0, a top segment of its vector candidates by combined score, as long
  as the smaller of \<open>match_count\<close> and their number, and the statement of
  \<^verbatim>\<open>sql/fix_fm_functions.sql\<close> yields such a segment of its vector candidates: every
  row is a vector candidate with \<open>text_similarity = 0\<close> and
  \<open>combined_score = vector_similarity * (1 - w)\<close>.\<close>

theorem blank_query_vector_only:
  assumes "plainto_tsquery pg qt = []"
  shows "text_results pg db qt n f = []
    \<and> schema_text_results pg sdb qt tf = []
    \<and> hybrid_search_fm_global pg db qe qt n w f \<noteq> Inl EmptyQuery
    \<and> hybrid_query pg db qe qt n w f \<noteq> Inl EmptyQuery
    \<and> hybrid_search_fm_global_schema pg sdb qe qt n w tf \<noteq> Inl EmptyQuery
    \<and> (0 \<le> n \<longrightarrow>
         (\<exists>rs rest. hybrid_search_fm_global_schema pg sdb qe qt n w tf = Inr rs
            \<and> length rs = min (nat n) (length (schema_vector_results pg sdb qe tf))
            \<and> mset (rs @ rest)
                = mset (map (\<lambda>v. select_schema_hybrid w (Some v, None))
                         (schema_vector_results pg sdb qe tf))
            \<and> (\<forall>r \<in> set rs. \<forall>c \<in> set rest. combined_score c \<le> combined_score r)))
    \<and> (0 \<le> n \<and> int4 (n * 2) \<longrightarrow>
         (\<exists>rs rest. hybrid_query pg db qe qt n w f = Inr rs
            \<and> length rs = min (nat n) (length (vector_results pg db qe n f))
            \<and> mset (rs @ rest)
                = mset (map (\<lambda>x. select_hybrid (select_combined w (Some x, None)))
                         (vector_results pg db qe n f))
            \<and> (\<forall>r \<in> set rs. \<forall>c \<in> set rest. combined_score c \<le> combined_score r)))
    \<and> (\<forall>r \<in> set (returned (hybrid_search_fm_global_schema pg sdb qe qt n w tf)).
          text_similarity r = 0 \<and> combined_score r = vector_similarity r * (1 - w)
          \<and> (\<exists>x \<in> set (schema_vector_results pg sdb qe tf).
                vector_id r = Some (m_vector_id x)
                \<and> vector_similarity r = coalesce0 (m_similarity x)))
    \<and> (\<forall>r \<in> set (returned (hybrid_query pg db qe qt n w f)).
          text_similarity r = 0 \<and> combined_score r = vector_similarity r * (1 - w)
          \<and> (\<exists>x \<in> set (vector_results pg db qe n f).
                vector_id r = Some (vr_id x)
                \<and> vector_similarity r = coalesce0 (vr_vector_score x)))"
proof -
  note tr = blank_no_text_results [OF assms]
  have a: "text_results pg db qt n f = []" by (rule tr(1))
  have b: "schema_text_results pg sdb qt tf = []" by (rule tr(2))
  have c: "hybrid_search_fm_global pg db qe qt n w f \<noteq> Inl EmptyQuery"
    by (simp add: hybrid_search_raises)
  have d: "hybrid_query pg db qe qt n w f \<noteq> Inl EmptyQuery"
    by (simp add: hybrid_query_def)
  have e: "hybrid_search_fm_global_schema pg sdb qe qt n w tf \<noteq> Inl EmptyQuery"
    by (simp add: schema_hybrid_eq)
  have F: "schema_fused pg sdb qe qt w tf
      = map (\<lambda>v. select_schema_hybrid w (Some v, None)) (schema_vector_results pg sdb qe tf)"
    by (simp add: schema_fused_def b full_outer_join_Nil comp_def)
  have C: "combined pg db qe qt n w f
      = map (\<lambda>x. select_combined w (Some x, None)) (vector_results pg db qe n f)"
    by (simp add: combined_def a full_outer_join_Nil comp_def)
  have g: "0 \<le> n \<longrightarrow>
         (\<exists>rs rest. hybrid_search_fm_global_schema pg sdb qe qt n w tf = Inr rs
            \<and> length rs = min (nat n) (length (schema_vector_results pg sdb qe tf))
            \<and> mset (rs @ rest)
                = mset (map (\<lambda>v. select_schema_hybrid w (Some v, None))
                         (schema_vector_results pg sdb qe tf))
            \<and> (\<forall>r \<in> set rs. \<forall>c \<in> set rest. combined_score c \<le> combined_score r))"
  proof
    assume n: "0 \<le> n"
    let ?xs = "map (\<lambda>v. select_schema_hybrid w (Some v, None))
                 (schema_vector_results pg sdb qe tf)"
    let ?rs = "limit n (order_by_desc combined_score ?xs)"
    from top_segment [OF n, of combined_score ?xs]
    obtain rest where "length ?rs = min (nat n) (length ?xs)"
      "mset (?rs @ rest) = mset ?xs"
      "\<forall>r \<in> set ?rs. \<forall>c \<in> set rest. combined_score c \<le> combined_score r"
      by blast
    moreover have "hybrid_search_fm_global_schema pg sdb qe qt n w tf = Inr ?rs"
      using n by (simp add: schema_hybrid_eq F)
    ultimately show "\<exists>rs rest. hybrid_search_fm_global_schema pg sdb qe qt n w tf = Inr rs
            \<and> length rs = min (nat n) (length (schema_vector_results pg sdb qe tf))
            \<and> mset (rs @ rest) = mset ?xs
            \<and> (\<forall>r \<in> set rs. \<forall>c \<in> set rest. combined_score c \<le> combined_score r)"
      by (intro exI [of _ ?rs] exI [of _ rest]) simp
  qed
  have h: "0 \<le> n \<and> int4 (n * 2) \<longrightarrow>
         (\<exists>rs rest. hybrid_query pg db qe qt n w f = Inr rs
            \<and> length rs = min (nat n) (length (vector_results pg db qe n f))
            \<and> mset (rs @ rest)
                = mset (map (\<lambda>x. select_hybrid (select_combined w (Some x, None)))
                         (vector_results pg db qe n f))
            \<and> (\<forall>r \<in> set rs. \<forall>c \<in> set rest. combined_score c \<le> combined_score r))"
  proof
    assume n: "0 \<le> n \<and> int4 (n * 2)"
    let ?xs = "map (\<lambda>x. select_hybrid (select_combined w (Some x, None)))
                 (vector_results pg db qe n f)"
    let ?rs = "limit n (order_by_desc combined_score ?xs)"
    from n have n0: "0 \<le> n" by simp
    from top_segment [OF n0, of combined_score ?xs]
    obtain rest where "length ?rs = min (nat n) (length ?xs)"
      "mset (?rs @ rest) = mset ?xs"
      "\<forall>r \<in> set ?rs. \<forall>c \<in> set rest. combined_score c \<le> combined_score r"
      by blast
    moreover have "hybrid_query pg db qe qt n w f = Inr ?rs"
      using n by (simp add: hybrid_query_eq C comp_def)
    ultimately show "\<exists>rs rest. hybrid_query pg db qe qt n w f = Inr rs
            \<and> length rs = min (nat n) (length (vector_results pg db qe n f))
            \<and> mset (rs @ rest) = mset ?xs
            \<and> (\<forall>r \<in> set rs. \<forall>c \<in> set rest. combined_score c \<le> combined_score r)"
      by (intro exI [of _ ?rs] exI [of _ rest]) simp
  qed
  have i: "\<forall>r \<in> set (returned (hybrid_search_fm_global_schema pg sdb qe qt n w tf)).
          text_similarity r = 0 \<and> combined_score r = vector_similarity r * (1 - w)
          \<and> (\<exists>x \<in> set (schema_vector_results pg sdb qe tf).
                vector_id r = Some (m_vector_id x)
                \<and> vector_similarity r = coalesce0 (m_similarity x))"
  proof
    fix r assume "r \<in> set (returned (hybrid_search_fm_global_schema pg sdb qe qt n w tf))"
    then obtain v t where r: "r = select_schema_hybrid w (v, t)"
      and vt: "(v, t) \<in> set (full_outer_join (schema_vector_results pg sdb qe tf)
                          (schema_text_results pg sdb qt tf)
                          (\<lambda>v t. m_vector_id v = m_vector_id t))"
      by (rule schema_returned_origin)
    from vt obtain x where x: "x \<in> set (schema_vector_results pg sdb qe tf)"
      and "v = Some x" "t = None"
      by (auto simp: b full_outer_join_Nil)
    then have "text_similarity r = 0" "combined_score r = vector_similarity r * (1 - w)"
      "vector_id r = Some (m_vector_id x)" "vector_similarity r = coalesce0 (m_similarity x)"
      by (simp_all add: r select_schema_hybrid_def coalesce_def coalesce0_def)
    with x show "text_similarity r = 0 \<and> combined_score r = vector_similarity r * (1 - w)
          \<and> (\<exists>x \<in> set (schema_vector_results pg sdb qe tf).
                vector_id r = Some (m_vector_id x)
                \<and> vector_similarity r = coalesce0 (m_similarity x))"
      by blast
  qed
  have j: "\<forall>r \<in> set (returned (hybrid_query pg db qe qt n w f)).
          text_similarity r = 0 \<and> combined_score r = vector_similarity r * (1 - w)
          \<and> (\<exists>x \<in> set (vector_results pg db qe n f).
                vector_id r = Some (vr_id x)
                \<and> vector_similarity r = coalesce0 (vr_vector_score x))"
  proof
    fix r assume "r \<in> set (returned (hybrid_query pg db qe qt n w f))"
    then obtain c where c: "c \<in> set (combined pg db qe qt n w f)" and r: "r = select_hybrid c"
      by (rule query_returned_origin)
    from c obtain x where x: "x \<in> set (vector_results pg db qe n f)"
      and sc: "c = select_combined w (Some x, None)"
      unfolding C by auto
    have "text_similarity r = 0" "combined_score r = vector_similarity r * (1 - w)"
      "vector_id r = Some (vr_id x)" "vector_similarity r = coalesce0 (vr_vector_score x)"
      by (simp_all add: r sc select_hybrid_def select_combined_def coalesce_def coalesce0_def)
    with x show "text_similarity r = 0 \<and> combined_score r = vector_similarity r * (1 - w)
          \<and> (\<exists>x \<in> set (vector_results pg db qe n f).
                vector_id r = Some (vr_id x)
                \<and> vector_similarity r = coalesce0 (vr_vector_score x))"
      by blast
  qed
  from a b c d e g h i j show ?thesis by (intro conjI) assumption+
qed

theorem blank_query_vector_only_witness:
  "plainto_tsquery pg0 ''  '' = []
   \<and> text_results pg0 db0 ''  '' 5 None = []
   \<and> schema_text_results pg0 sdb2 ''  '' None = []
   \<and> map m_vector_id (schema_vector_results pg0 sdb2 (axis 1) None) = [1, 2]
   \<and> map_sum id (map vector_id)
       (hybrid_search_fm_global_schema pg0 sdb2 (axis 1) ''  '' 5 (3 / 10) None)
       = Inr [Some 1, Some 2]
   \<and> map_sum id (map combined_score)
       (hybrid_search_fm_global_schema pg0 sdb2 (axis 1) ''  '' 5 (3 / 10) None)
       = Inr [7 / 10, - 7 / 10]
   \<and> map vr_id (vector_results pg0 db0 (axis 1) 5 None) = [1, 2, 3]
   \<and> map_sum id (map vector_id) (hybrid_query pg0 db0 (axis 1) ''  '' 5 (3 / 10) None)
       = Inr [Some 1, Some 3, Some 2]"
proof -
  have q: "plainto_tsquery pg0 ''  '' = []"
    by (simp add: sql_defs fixture_defs)
  note t = blank_query_vector_only [OF q, of db0 5 None sdb2 None "axis 1" "3 / 10"]
  have a: "text_results pg0 db0 ''  '' 5 None = []" by (rule t [THEN conjunct1])
  have b: "schema_text_results pg0 sdb2 ''  '' None = []"
    by (rule t [THEN conjunct2, THEN conjunct1])
  have c: "map m_vector_id (schema_vector_results pg0 sdb2 (axis 1) None) = [1, 2]"
    "map_sum id (map vector_id)
       (hybrid_search_fm_global_schema pg0 sdb2 (axis 1) ''  '' 5 (3 / 10) None)
       = Inr [Some 1, Some 2]"
    "map_sum id (map combined_score)
       (hybrid_search_fm_global_schema pg0 sdb2 (axis 1) ''  '' 5 (3 / 10) None)
       = Inr [7 / 10, - 7 / 10]"
    "map vr_id (vector_results pg0 db0 (axis 1) 5 None) = [1, 2, 3]"
    "map_sum id (map vector_id) (hybrid_query pg0 db0 (axis 1) ''  '' 5 (3 / 10) None)
       = Inr [Some 1, Some 3, Some 2]"
    by (simp_all add: search_defs sql_defs fixture_defs sdb2_def)
  from q a b c show ?thesis by (intro conjI) assumption+
qed

subsection \<open>C6: the extreme weights\<close>












subsection \<open>C7: determinism\<close>

lemma mset_concat_map_cong:
  assumes "mset xs' = mset xs"
  shows "mset (concat (map g xs')) = mset (concat (map g xs))"
proof -
  have "mset (concat (map g zs)) = (\<Sum>z \<in># mset zs. mset (g z))" for zs
    by (induction zs) simp_all
  with assms show ?thesis by simp
qed

lemma mset_eq_short:
  assumes "mset a = mset b" and "length b \<le> 1"
  shows "a = b"
proof (cases b)
  case Nil
  with assms show ?thesis by simp
next
  case (Cons y ys)
  with assms(2) have "b = [y]" by simp
  with assms(1) show ?thesis by simp
qed

lemma left_join_perm_right:
  assumes "mset ys' = mset ys" and "\<forall>x \<in> set xs. length (filter (on x) ys) \<le> 1"
  shows "left_join xs ys' on = left_join xs ys on"
proof -
  have "filter (on x) ys' = filter (on x) ys" if "x \<in> set xs" for x
  proof (rule mset_eq_short)
    show "mset (filter (on x) ys') = mset (filter (on x) ys)" using assms(1) by simp
    show "length (filter (on x) ys) \<le> 1" using assms(2) that by blast
  qed
  then show ?thesis unfolding left_join_def by (auto intro!: arg_cong [where f = concat])
qed

lemma left_join_perm_left:
  assumes "mset xs' = mset xs"
  shows "mset (left_join xs' ys on) = mset (left_join xs ys on)"
  unfolding left_join_def using assms by (rule mset_concat_map_cong)

lemma on_table_unique:
  fixes db :: "'e database" and v :: "'e fm_global_vector"
  assumes "distinct (map t_id (fm_global_tables db))"
  shows "length (filter (\<lambda>t. v_content_id v = Some (t_id t) \<and> v_content_type v = ''table'')
          (fm_global_tables db)) \<le> 1"
  using filter_key_le1 [of "\<lambda>t. Some (t_id t)" "fm_global_tables db" "v_content_id v"
      "\<lambda>t. v_content_type v = ''table''"] assms
  by (simp add: distinct_map comp_def inj_on_def)

lemma on_figure_unique:
  fixes db :: "'e database" and p :: "'e fm_global_vector \<times> fm_global_table option"
  assumes "distinct (map f_id (fm_global_figures db))"
  shows "length (filter ((\<lambda>(v, t) f. v_content_id v = Some (f_id f) \<and> v_content_type v = ''figure'') p)
          (fm_global_figures db)) \<le> 1"
  using filter_key_le1 [of "\<lambda>f. Some (f_id f)" "fm_global_figures db" "v_content_id (fst p)"
      "\<lambda>f. v_content_type (fst p) = ''figure''"] assms
  by (simp add: distinct_map comp_def inj_on_def case_prod_beta)

lemma from_vectors_perm:
  fixes db db' :: "'e database"
  assumes v: "mset (fm_global_vectors db') = mset (fm_global_vectors db)"
    and t: "mset (fm_global_tables db') = mset (fm_global_tables db)"
    and f: "mset (fm_global_figures db') = mset (fm_global_figures db)"
    and pt: "distinct (map t_id (fm_global_tables db))"
    and pf: "distinct (map f_id (fm_global_figures db))"
  shows "mset (from_vectors db') = mset (from_vectors db)"
proof -
  let ?ot = "\<lambda>(v :: 'e fm_global_vector) t. v_content_id v = Some (t_id t) \<and> v_content_type v = ''table''"
  let ?of = "\<lambda>(v :: 'e fm_global_vector, t :: fm_global_table option) f.
               v_content_id v = Some (f_id f) \<and> v_content_type v = ''figure''"
  have "left_join (fm_global_vectors db') (fm_global_tables db') ?ot
          = left_join (fm_global_vectors db') (fm_global_tables db) ?ot"
    by (rule left_join_perm_right [OF t]) (intro ballI on_table_unique [OF pt])
  then have inner: "mset (left_join (fm_global_vectors db') (fm_global_tables db') ?ot)
          = mset (left_join (fm_global_vectors db) (fm_global_tables db) ?ot)"
    using left_join_perm_left [OF v] by simp
  have "left_join (left_join (fm_global_vectors db') (fm_global_tables db') ?ot)
            (fm_global_figures db') ?of
          = left_join (left_join (fm_global_vectors db') (fm_global_tables db') ?ot)
            (fm_global_figures db) ?of"
    by (rule left_join_perm_right [OF f]) (intro ballI on_figure_unique [OF pf])
  then show ?thesis
    unfolding from_vectors_def using left_join_perm_left [OF inner] by simp
qed

lemma nulls_last_inj: "nulls_last a = nulls_last b \<Longrightarrow> a = b"
  by (cases a; cases b) (simp_all add: nulls_last_def)

lemma order_by_perm:
  assumes "mset xs' = mset xs" and "inj_on k (set xs)"
  shows "order_by k xs' = order_by k xs"
  unfolding order_by_def
proof (rule sort_key_eq_sort_key)
  show "mset xs' = mset xs" by fact
  from assms(1) have "set xs' = set xs" by (rule mset_eq_setD)
  with assms(2) show "inj_on (\<lambda>x. nulls_last (k x)) (set xs')"
    by (auto simp: inj_on_def dest: nulls_last_inj)
qed

lemma order_by_desc_perm:
  assumes "mset xs' = mset xs" and "inj_on k (set xs)"
  shows "order_by_desc k xs' = order_by_desc k xs"
  unfolding order_by_desc_def
proof (rule sort_key_eq_sort_key)
  show "mset xs' = mset xs" by fact
  from assms(1) have "set xs' = set xs" by (rule mset_eq_setD)
  with assms(2) show "inj_on (\<lambda>x. - k x) (set xs')"
    by (auto simp: inj_on_def)
qed

lemma vector_results_perm:
  assumes "mset (from_vectors db') = mset (from_vectors db)"
    and "inj_on (distance pg qe) (set (filter (asrs_filter f) (from_vectors db)))"
  shows "vector_results pg db' qe n f = vector_results pg db qe n f"
proof -
  from assms(1) have "mset (filter (asrs_filter f) (from_vectors db'))
      = mset (filter (asrs_filter f) (from_vectors db))" by simp
  from order_by_perm [OF this assms(2)] show ?thesis
    by (simp add: vector_results_def)
qed

lemma text_results_perm:
  assumes "mset (from_vectors db') = mset (from_vectors db)"
    and "int (length (filter (\<lambda>j. text_matches pg qt j \<and> asrs_filter f j) (from_vectors db)))
           \<le> n * 2"
  shows "mset (text_results pg db' qt n f) = mset (text_results pg db qt n f)"
proof -
  let ?P = "\<lambda>j. text_matches pg qt j \<and> asrs_filter f j"
  from assms(1) have m: "mset (filter ?P (from_vectors db')) = mset (filter ?P (from_vectors db))"
    by simp
  then have "length (filter ?P (from_vectors db')) = length (filter ?P (from_vectors db))"
    by (rule mset_eq_length)
  with assms(2) have "limit (n * 2) (filter ?P (from_vectors db')) = filter ?P (from_vectors db')"
    "limit (n * 2) (filter ?P (from_vectors db)) = filter ?P (from_vectors db)"
    by (simp_all add: limit_def)
  with m show ?thesis by (simp add: text_results_def)
qed

lemma full_outer_join_perm_right:
  assumes "mset ys' = mset ys" and "\<forall>x \<in> set xs. length (filter (on x) ys) \<le> 1"
  shows "mset (full_outer_join xs ys' on) = mset (full_outer_join xs ys on)"
proof -
  have "left_join xs ys' on = left_join xs ys on"
    by (rule left_join_perm_right [OF assms])
  moreover have "mset (filter (\<lambda>y. \<not> list_ex (\<lambda>x. on x y) xs) ys')
      = mset (filter (\<lambda>y. \<not> list_ex (\<lambda>x. on x y) xs) ys)"
    using assms(1) by simp
  ultimately show ?thesis
    unfolding full_outer_join_def by (simp only: mset_append mset_map)
qed

lemma hybrid_query_perm:
  fixes db db' :: "'e database"
  assumes v: "mset (fm_global_vectors db') = mset (fm_global_vectors db)"
    and t: "mset (fm_global_tables db') = mset (fm_global_tables db)"
    and f: "mset (fm_global_figures db') = mset (fm_global_figures db)"
    and pv: "distinct (map v_id (fm_global_vectors db))"
    and pt: "distinct (map t_id (fm_global_tables db))"
    and pf: "distinct (map f_id (fm_global_figures db))"
    and no_vector_ties:
      "inj_on (distance pg qe) (set (filter (asrs_filter flt) (from_vectors db)))"
    and text_not_truncated:
      "int (length (filter (\<lambda>j. text_matches pg qt j \<and> asrs_filter flt j) (from_vectors db)))
         \<le> n * 2"
    and no_score_ties: "inj_on c_score (set (combined pg db qe qt n w flt))"
  shows "hybrid_query pg db' qe qt n w flt
           = hybrid_query pg db qe qt n w flt"
proof -
  have J: "mset (from_vectors db') = mset (from_vectors db)"
    by (rule from_vectors_perm [OF v t f pt pf])
  have V: "vector_results pg db' qe n flt = vector_results pg db qe n flt"
    by (rule vector_results_perm [OF J no_vector_ties])
  have T: "mset (text_results pg db' qt n flt) = mset (text_results pg db qt n flt)"
    by (rule text_results_perm [OF J text_not_truncated])
  have "distinct (map tr_id (text_results pg db qt n flt))"
    by (rule text_results_distinct [OF pv pt pf])
  then have "\<forall>x \<in> set (vector_results pg db qe n flt).
      length (filter (\<lambda>y. vr_id x = tr_id y) (text_results pg db qt n flt)) \<le> 1"
    using filter_key_le1 [of tr_id "text_results pg db qt n flt" _ "\<lambda>_. True"] by simp
  from full_outer_join_perm_right [OF T this]
  have C: "mset (combined pg db' qe qt n w flt) = mset (combined pg db qe qt n w flt)"
    by (simp add: combined_def V)
  have "order_by_desc c_score (combined pg db' qe qt n w flt)
          = order_by_desc c_score (combined pg db qe qt n w flt)"
    by (rule order_by_desc_perm [OF C no_score_ties])
  then show ?thesis by (simp add: hybrid_query_def)
qed

lemma scan_store_tie: "scan_of store_tie db_tie" "scan_of store_tie db_tie'"
  by (simp_all add: scan_of_def store_tie_def db_tie_def db_tie'_def)

lemma scan_store0: "scan_of store0 db0" "scan_of store0 db0'"
  by (simp_all add: scan_of_def store0_def db0_def db0'_def)

text \<open>C7, as the specification states it, fails. The lexical sub-query has a
  \<^verbatim>\<open>LIMIT\<close> without \<^verbatim>\<open>ORDER BY\<close>, and both \<^verbatim>\<open>ORDER BY\<close> clauses sort on one
  key with no tie-break, so the result depends on the order in which the rows are met,
  which is not part of the state of the store. The state \<open>store_tie\<close> holds two rows that
  tie on the combined score; \<open>db_tie\<close> and \<open>db_tie'\<close> both enumerate it, and the statement
  yields the two rows in the order 2, 1 on the first and 1, 2 on the second: the same call
  has two results on one state.\<close>

theorem determinism_counterexample:
  "scan_of store_tie db_tie
   \<and> scan_of store_tie db_tie'
   \<and> hybrid_query pg0 db_tie (axis 1) ''rack'' 5 (3 / 10) None = Inr [tie_out2, tie_out1]
   \<and> hybrid_query pg0 db_tie' (axis 1) ''rack'' 5 (3 / 10) None = Inr [tie_out1, tie_out2]
   \<and> hybrid_query_on pg0 store_tie (axis 1) ''rack'' 5 (3 / 10) None (Inr [tie_out2, tie_out1])
   \<and> hybrid_query_on pg0 store_tie (axis 1) ''rack'' 5 (3 / 10) None (Inr [tie_out1, tie_out2])
   \<and> map vector_id [tie_out2, tie_out1] = [Some 2, Some 1]
   \<and> map vector_id [tie_out1, tie_out2] = [Some 1, Some 2]"
proof -
  have a: "hybrid_query_on pg0 store_tie (axis 1) ''rack'' 5 (3 / 10) None
             (Inr [tie_out2, tie_out1])"
    using hybrid_query_on.intros [OF scan_store_tie(1), of pg0 "axis 1" "''rack''" 5 "3 / 10" None]
    by (simp add: hybrid_tie)
  have b: "hybrid_query_on pg0 store_tie (axis 1) ''rack'' 5 (3 / 10) None
             (Inr [tie_out1, tie_out2])"
    using hybrid_query_on.intros [OF scan_store_tie(2), of pg0 "axis 1" "''rack''" 5 "3 / 10" None]
    by (simp add: hybrid_tie')
  have c: "map vector_id [tie_out2, tie_out1] = [Some 2, Some 1]"
    "map vector_id [tie_out1, tie_out2] = [Some 1, Some 2]"
    by (simp_all add: tie_out1_def tie_out2_def)
  from scan_store_tie hybrid_tie hybrid_tie' a b c show ?thesis by (intro conjI) assumption+
qed

text \<open>C7, amended. On one state of the content store (identifiers being primary keys)
  two runs of the statement with the same arguments have the same result, provided that no
  two filtered rows are at the same distance from the query embedding (at most one has no
  embedding), the lexical matches are at most \<open>2 * match_count\<close> (the limit without order
  drops none), and no two fused candidates have the same combined score.\<close>

theorem deterministic_without_ties:
  fixes db :: "'e database"
  assumes s: "scan_of S db"
    and pv: "distinct (map v_id (fm_global_vectors db))"
    and pt: "distinct (map t_id (fm_global_tables db))"
    and pf: "distinct (map f_id (fm_global_figures db))"
    and no_vector_ties:
      "inj_on (distance pg qe) (set (filter (asrs_filter flt) (from_vectors db)))"
    and text_not_truncated:
      "int (length (filter (\<lambda>j. text_matches pg qt j \<and> asrs_filter flt j) (from_vectors db)))
         \<le> n * 2"
    and no_score_ties: "inj_on c_score (set (combined pg db qe qt n w flt))"
    and r1: "hybrid_query_on pg S qe qt n w flt r1"
    and r2: "hybrid_query_on pg S qe qt n w flt r2"
  shows "r1 = r2"
proof -
  have "r = hybrid_query pg db qe qt n w flt" if "hybrid_query_on pg S qe qt n w flt r" for r
    using that
  proof cases
    case (1 db')
    from 1(2) s have "mset (fm_global_vectors db') = mset (fm_global_vectors db)"
      "mset (fm_global_tables db') = mset (fm_global_tables db)"
      "mset (fm_global_figures db') = mset (fm_global_figures db)"
      by (simp_all add: scan_of_def)
    from hybrid_query_perm [OF this pv pt pf no_vector_ties text_not_truncated no_score_ties] 1(1)
    show ?thesis by simp
  qed
  from this [OF r1] this [OF r2] show ?thesis by simp
qed

theorem deterministic_without_ties_witness:
  "scan_of store0 db0
   \<and> scan_of store0 db0'
   \<and> fm_global_vectors db0' \<noteq> fm_global_vectors db0
   \<and> hybrid_query_on pg0 store0 (axis 1) ''rack'' 5 (3 / 10) None
         (hybrid_query pg0 db0' (axis 1) ''rack'' 5 (3 / 10) None)
   \<and> hybrid_query pg0 db0 (axis 1) ''rack'' 5 (3 / 10) None = Inr [out1, out3, out2]
   \<and> hybrid_query pg0 db0' (axis 1) ''rack'' 5 (3 / 10) None = Inr [out1, out3, out2]"
proof -
  have ne: "fm_global_vectors db0' \<noteq> fm_global_vectors db0"
    by (simp add: fixture_defs)
  have pk: "distinct (map v_id (fm_global_vectors db0))"
    "distinct (map t_id (fm_global_tables db0))"
    "distinct (map f_id (fm_global_figures db0))"
    by (simp_all add: fixture_defs)
  have h1: "inj_on (distance pg0 (axis 1)) (set (filter (asrs_filter None) (from_vectors db0)))"
    by (simp add: search_defs sql_defs fixture_defs)
  have h2: "int (length (filter (\<lambda>j. text_matches pg0 ''rack'' j \<and> asrs_filter None j)
                  (from_vectors db0))) \<le> 5 * 2"
    by (simp add: search_defs sql_defs fixture_defs)
  have h3: "inj_on c_score (set (combined pg0 db0 (axis 1) ''rack'' 5 (3 / 10) None))"
    by (simp add: search_defs sql_defs fixture_defs)
  have r: "hybrid_query_on pg0 store0 (axis 1) ''rack'' 5 (3 / 10) None
         (hybrid_query pg0 db0 (axis 1) ''rack'' 5 (3 / 10) None)"
    and r': "hybrid_query_on pg0 store0 (axis 1) ''rack'' 5 (3 / 10) None
         (hybrid_query pg0 db0' (axis 1) ''rack'' 5 (3 / 10) None)"
    by (rule hybrid_query_on.intros, rule scan_store0)+
  from deterministic_without_ties [OF scan_store0(1) pk h1 h2 h3 r' r] hybrid_db0
  have e: "hybrid_query pg0 db0' (axis 1) ''rack'' 5 (3 / 10) None = Inr [out1, out3, out2]"
    by simp
  from scan_store0 ne r' hybrid_db0 e show ?thesis by (intro conjI) assumption+
qed

subsection \<open>C10: records without an embedding\<close>

lemma match_rows:
  assumes "r \<in> set (returned (match_fm_global_vectors pg db qe n tf sf))"
  shows "\<exists>v \<in> set (schema_vectors db). \<exists>e. sv_embedding v = Some e \<and> m_vector_id r = sv_id v
           \<and> m_similarity r = Some (1 - cosine_distance pg e qe)"
proof -
  from assms obtain j
    where j: "j \<in> set (limit n (order_by (schema_distance pg qe)
                 (filter (match_where tf sf) (from_schema_vectors db))))"
      and r: "r = select_match pg qe j"
    by (auto simp: returned_def match_fm_global_vectors_def split: if_splits)
  from set_limit [OF j] have m: "j \<in> set (from_schema_vectors db)" and w: "match_where tf sf j"
    by (simp_all add: order_by_def)
  from w obtain e where e: "sv_embedding (fst (fst j)) = Some e"
    by (auto simp: match_where_def case_prod_beta)
  have "m_vector_id r = sv_id (fst (fst j))"
    "m_similarity r = Some (1 - cosine_distance pg e qe)"
    by (simp_all add: r select_match_def case_prod_beta schema_distance_def e)
  with from_schema_vectors_row [OF m] e show ?thesis by blast
qed

lemma all_rows:
  assumes "r \<in> set (returned (search_fm_global_all pg db qe qt n))"
  shows "(\<exists>c \<in> set (fm_text_chunks db). \<exists>e. ch_embedding c = Some e \<and> a_source_id r = ch_id c
             \<and> a_source_table r = ''fm_text_chunks''
             \<and> a_similarity r = Some (1 - cosine_distance pg e qe))
       \<or> (\<exists>tv \<in> set (fm_table_vectors db). \<exists>e. tv_embedding tv = Some e \<and> a_source_id r = tv_id tv
             \<and> a_source_table r = ''fm_table_vectors''
             \<and> a_similarity r = Some (1 - cosine_distance pg e qe))
       \<or> (\<exists>v \<in> set (all_fm_global_vectors db). \<exists>e. v_embedding v = Some e \<and> a_source_id r = v_id v
             \<and> a_source_table r = ''fm_global_vectors''
             \<and> a_similarity r = Some (1 - cosine_distance pg e qe))"
proof -
  from assms have "r \<in> set (limit n (sort_key (\<lambda>r. desc_nulls_first (a_similarity r))
                       (all_results pg db qe)))"
    by (auto simp: returned_def search_fm_global_all_def split: if_splits)
  from set_limit [OF this] have "r \<in> set (all_results pg db qe)" by simp
  then consider (c) "r \<in> set (chunk_results pg db qe)" | (t) "r \<in> set (table_results pg db qe)"
    | (v) "r \<in> set (all_vector_results pg db qe)"
    by (auto simp: all_results_def)
  then show ?thesis
  proof cases
    case c
    then obtain x e where "x \<in> set (fm_text_chunks db)" "ch_embedding x = Some e"
      "a_source_id r = ch_id x" "a_source_table r = ''fm_text_chunks''"
      "a_similarity r = Some (1 - cosine_distance pg e qe)"
      by (auto simp: chunk_results_def similarity_of_def)
    then show ?thesis by blast
  next
    case t
    then obtain x e where "x \<in> set (fm_table_vectors db)" "tv_embedding x = Some e"
      "a_source_id r = tv_id x" "a_source_table r = ''fm_table_vectors''"
      "a_similarity r = Some (1 - cosine_distance pg e qe)"
      by (auto simp: table_results_def similarity_of_def)
    then show ?thesis by blast
  next
    case v
    then obtain x e where "x \<in> set (all_fm_global_vectors db)" "v_embedding x = Some e"
      "a_source_id r = v_id x" "a_source_table r = ''fm_global_vectors''"
      "a_similarity r = Some (1 - cosine_distance pg e qe)"
      by (auto simp: all_vector_results_def similarity_of_def)
    then show ?thesis by blast
  qed
qed

lemma match_sdb0:
  "map_sum id (map m_vector_id) (match_fm_global_vectors pg0 sdb0 (axis 1) 10 None None) = Inr [1]"
  "map_sum id (map m_similarity) (match_fm_global_vectors pg0 sdb0 (axis 1) 10 None None)
     = Inr [Some 1]"
  by (simp_all add: search_defs sql_defs fixture_defs)

lemma all_adb0:
  "map_sum id (map a_source_id) (search_fm_global_all pg0 adb0 (axis 1) ''rack'' 10) = Inr [5, 2]"
  "map_sum id (map a_similarity) (search_fm_global_all pg0 adb0 (axis 1) ''rack'' 10)
     = Inr [Some 1, Some (- 1)]"
  by (simp_all add: search_defs sql_defs fixture_defs)

text \<open>C10. Every row that \<^verbatim>\<open>match_fm_global_vectors\<close> (as the schema file defines it)
  or \<^verbatim>\<open>search_fm_global_all\<close> returns comes from a stored record whose embedding is
  not NULL, with the similarity computed from that embedding; a record without an embedding
  yields no row and no error: for every \<open>match_count \<ge> 0\<close> both functions return a list.
  The later redefinitions of \<^verbatim>\<open>match_fm_global_vectors\<close> in the functions file and in
  \<^verbatim>\<open>sql/fix_fm_functions.sql\<close> have no \<^verbatim>\<open>embedding IS NOT NULL\<close> condition and are
  not covered by this statement.\<close>

theorem embedded_records_only:
  "(\<forall>r \<in> set (returned (match_fm_global_vectors pg db qe n tf sf)).
      \<exists>v \<in> set (schema_vectors db). \<exists>e. sv_embedding v = Some e \<and> m_vector_id r = sv_id v
         \<and> m_similarity r = Some (1 - cosine_distance pg e qe))
   \<and> (\<forall>r \<in> set (returned (search_fm_global_all pg adb qe qt n)).
      (\<exists>c \<in> set (fm_text_chunks adb). \<exists>e. ch_embedding c = Some e \<and> a_source_id r = ch_id c
             \<and> a_source_table r = ''fm_text_chunks''
             \<and> a_similarity r = Some (1 - cosine_distance pg e qe))
       \<or> (\<exists>tv \<in> set (fm_table_vectors adb). \<exists>e. tv_embedding tv = Some e
             \<and> a_source_id r = tv_id tv \<and> a_source_table r = ''fm_table_vectors''
             \<and> a_similarity r = Some (1 - cosine_distance pg e qe))
       \<or> (\<exists>v \<in> set (all_fm_global_vectors adb). \<exists>e. v_embedding v = Some e
             \<and> a_source_id r = v_id v \<and> a_source_table r = ''fm_global_vectors''
             \<and> a_similarity r = Some (1 - cosine_distance pg e qe)))
   \<and> (0 \<le> n \<longrightarrow> (\<exists>rows. match_fm_global_vectors pg db qe n tf sf = Inr rows)
                 \<and> (\<exists>rows. search_fm_global_all pg adb qe qt n = Inr rows))"
proof (intro conjI ballI impI)
  fix r assume "r \<in> set (returned (match_fm_global_vectors pg db qe n tf sf))"
  then show "\<exists>v \<in> set (schema_vectors db). \<exists>e. sv_embedding v = Some e \<and> m_vector_id r = sv_id v
         \<and> m_similarity r = Some (1 - cosine_distance pg e qe)"
    by (rule match_rows)
next
  fix r assume "r \<in> set (returned (search_fm_global_all pg adb qe qt n))"
  then show "(\<exists>c \<in> set (fm_text_chunks adb). \<exists>e. ch_embedding c = Some e \<and> a_source_id r = ch_id c
             \<and> a_source_table r = ''fm_text_chunks''
             \<and> a_similarity r = Some (1 - cosine_distance pg e qe))
       \<or> (\<exists>tv \<in> set (fm_table_vectors adb). \<exists>e. tv_embedding tv = Some e
             \<and> a_source_id r = tv_id tv \<and> a_source_table r = ''fm_table_vectors''
             \<and> a_similarity r = Some (1 - cosine_distance pg e qe))
       \<or> (\<exists>v \<in> set (all_fm_global_vectors adb). \<exists>e. v_embedding v = Some e
             \<and> a_source_id r = v_id v \<and> a_source_table r = ''fm_global_vectors''
             \<and> a_similarity r = Some (1 - cosine_distance pg e qe))"
    by (rule all_rows)
next
  assume "0 \<le> n"
  then show "\<exists>rows. match_fm_global_vectors pg db qe n tf sf = Inr rows"
    by (simp add: match_fm_global_vectors_def)
next
  assume "0 \<le> n"
  then show "\<exists>rows. search_fm_global_all pg adb qe qt n = Inr rows"
    by (simp add: search_fm_global_all_def)
qed


theorem embedded_records_only_witness:
  "map_sum id (map m_vector_id) (match_fm_global_vectors pg0 sdb0 (axis 1) 10 None None) = Inr [1]
   \<and> map_sum id (map m_similarity) (match_fm_global_vectors pg0 sdb0 (axis 1) 10 None None)
       = Inr [Some 1]
   \<and> map sv_embedding (schema_vectors sdb0) = [None, Some (axis 1)]
   \<and> map_sum id (map a_source_id) (search_fm_global_all pg0 adb0 (axis 1) ''rack'' 10)
       = Inr [5, 2]
   \<and> map ch_embedding (fm_text_chunks adb0) = [None, Some (axis 1)]
   \<and> (\<exists>rows. match_fm_global_vectors pg0 sdb0 (axis 1) 10 None None = Inr rows)
   \<and> (\<exists>rows. search_fm_global_all pg0 adb0 (axis 1) ''rack'' 10 = Inr rows)"
proof -
  note t = embedded_records_only [of pg0 sdb0 "axis 1" 10 None None adb0 "''rack''",
      THEN conjunct2, THEN conjunct2, rule_format]
  have a: "\<exists>rows. match_fm_global_vectors pg0 sdb0 (axis 1) 10 None None = Inr rows"
    by (rule t [THEN conjunct1]) simp
  have b: "\<exists>rows. search_fm_global_all pg0 adb0 (axis 1) ''rack'' 10 = Inr rows"
    by (rule t [THEN conjunct2]) simp
  have c: "map sv_embedding (schema_vectors sdb0) = [None, Some (axis 1)]"
    "map ch_embedding (fm_text_chunks adb0) = [None, Some (axis 1)]"
    by (simp_all add: fixture_defs)
  from match_sdb0 all_adb0(1) a b c show ?thesis by (intro conjI) assumption+
qed


text \<open>For comparison, \<^verbatim>\<open>match_fm_global_vectors\<close> as
  \<^verbatim>\<open>sql/fix_fm_functions.sql\<close> redefines it returns the record of \<open>db0\<close> that has no
  embedding, with a NULL similarity.\<close>

lemma match_fix_db0:
  "map_sum id (map m_vector_id) (match_fm_global_vectors_fix pg0 db0 (axis 1) 10 None None)
     = Inr [1, 2, 3]"
  "map_sum id (map m_similarity) (match_fm_global_vectors_fix pg0 db0 (axis 1) 10 None None)
     = Inr [Some 1, Some (- 1), None]"
  by (simp_all add: match_fm_global_vectors_fix_def search_defs sql_defs fixture_defs)

subsection \<open>C9: a failing sub-search\<close>

lemmas agent_defs =
  searchFigureVectors_def searchTableVectors_def searchTextVectors_def searchMultiVector_def
  promise_all3_def rejection_def first_rejection_def sub_search_rejections_def
  figures_settle_at_def tables_settle_at_def texts_settle_at_def
  fuseAndRankResults_def parse_or_empty_def figure_filters_def spec_degraded_def

lemmas agent_fixture_defs =
  svc_fail_def svc_fail2_def m0_def table_vector_row_def text_chunk_row_def

lemma promise_all3_Inr:
  "promise_all3 a b c = Inr r \<longleftrightarrow>
     (\<exists>x y z. snd a = Inr x \<and> snd b = Inr y \<and> snd c = Inr z \<and> r = (x, y, z))"
  by (auto simp: promise_all3_def split: sum.splits)

lemma promise_all3_rejects:
  assumes "rejection a @ rejection b @ rejection c \<noteq> []"
  shows "promise_all3 a b c = Inl (first_rejection (rejection a @ rejection b @ rejection c))"
  using assms by (auto simp: promise_all3_def rejection_def split: sum.splits)

lemma first_rejection_in:
  assumes "rs \<noteq> []"
  shows "\<exists>p \<in> set rs. first_rejection rs = snd p"
  unfolding first_rejection_def using arg_min_list_in [OF assms] by blast

lemma first_rejection_earliest:
  assumes "(t, e) \<in> set rs" and "\<forall>p \<in> set rs. p \<noteq> (t, e) \<longrightarrow> t < fst p"
  shows "first_rejection rs = e"
proof -
  from assms(1) have ne: "rs \<noteq> []" by auto
  let ?m = "arg_min_list fst rs"
  have m: "?m \<in> set rs" using ne by (rule arg_min_list_in)
  have "fst ?m = Min (fst ` set rs)" using ne by (rule f_arg_min_list_f)
  also have "\<dots> \<le> t" using assms(1) by (intro Min_le) force+
  finally have "fst ?m \<le> t" .
  with assms(2) m have "?m = (t, e)" by fastforce
  then show ?thesis by (simp add: first_rejection_def)
qed

lemma searchFigureVectors_error:
  "resp_error (select_figures svc embedding (figure_filters config)) = Some e
     \<Longrightarrow> searchFigureVectors svc m embedding config = Inl e"
  by (simp add: searchFigureVectors_def)

lemma searchTableVectors_error:
  "resp_error (select_table_vectors svc embedding) = Some e
     \<Longrightarrow> searchTableVectors svc m embedding config = Inl e"
  by (simp add: searchTableVectors_def)

lemma searchTextVectors_error:
  "resp_error (select_text_chunks svc embedding) = Some e
     \<Longrightarrow> searchTextVectors svc embedding = Inl e"
  by (simp add: searchTextVectors_def)

lemma searchFigureVectors_Inr:
  "searchFigureVectors svc m embedding config = Inr x
     \<Longrightarrow> resp_error (select_figures svc embedding (figure_filters config)) = None"
  by (simp add: searchFigureVectors_def Let_def split: option.splits)

lemma searchTableVectors_Inr:
  "searchTableVectors svc m embedding config = Inr x
     \<Longrightarrow> resp_error (select_table_vectors svc embedding) = None"
  by (simp add: searchTableVectors_def Let_def split: option.splits)

lemma searchTextVectors_Inr:
  "searchTextVectors svc embedding = Inr x
     \<Longrightarrow> resp_error (select_text_chunks svc embedding) = None"
  by (simp add: searchTextVectors_def Let_def split: option.splits)

lemma searchMultiVector_rejects:
  assumes "embeddings_create svc query = Inr embedding"
    and "sub_search_rejections svc m embedding config \<noteq> []"
  shows "searchMultiVector svc m query config
           = Inl (first_rejection (sub_search_rejections svc m embedding config))"
  using promise_all3_rejects [OF assms(2) [unfolded sub_search_rejections_def]]
  by (simp add: searchMultiVector_def assms(1) sub_search_rejections_def)

text \<open>C9, as the specification states it, fails. Each of the three searches of the agent
  throws the error of its Supabase response (\<^verbatim>\<open>if (error) throw error\<close>), and
  \<^verbatim>\<open>searchMultiVector\<close> awaits \<^verbatim>\<open>Promise.all\<close> of them without a handler. When the
  figure collection fails and the other two collections answer, the call rejects with the
  figure collection's error; the rows of the other collections are lost.\<close>

theorem graceful_degradation_counterexample:
  "searchFigureVectors svc_fail m0 (axis 1) None = Inl (PostgrestError ''no embedding index'')
   \<and> length (spec_degraded (searchTableVectors svc_fail m0 (axis 1) None)) = 1
   \<and> length (spec_degraded (searchTextVectors svc_fail (axis 1))) = 1
   \<and> searchMultiVector svc_fail m0 ''aisle width'' None
       = Inl (PostgrestError ''no embedding index'')"
  by (simp add: agent_defs agent_fixture_defs)

text \<open>C9, amended. Once the query embedding has been obtained, a failing sub-search makes
  the whole call fail: a response with an error rejects its sub-search; when at least one
  sub-search rejects, the call rejects with the error of one of them, namely of the one
  that rejects before every other; in particular, when the figure sub-search is the only
  one to reject, the call rejects with its error. The call returns a result only if none of
  the three responses carries an error: a failed collection is never replaced by an empty
  list.\<close>

theorem sub_search_failure_propagates:
  assumes "embeddings_create svc query = Inr embedding"
  shows "(\<forall>e. resp_error (select_figures svc embedding (figure_filters config)) = Some e
            \<longrightarrow> (figures_settle_at svc embedding config, e)
                  \<in> set (sub_search_rejections svc m embedding config))
    \<and> (\<forall>e. resp_error (select_table_vectors svc embedding) = Some e
            \<longrightarrow> (tables_settle_at svc embedding, e)
                  \<in> set (sub_search_rejections svc m embedding config))
    \<and> (\<forall>e. resp_error (select_text_chunks svc embedding) = Some e
            \<longrightarrow> (texts_settle_at svc embedding, e)
                  \<in> set (sub_search_rejections svc m embedding config))
    \<and> (sub_search_rejections svc m embedding config \<noteq> []
            \<longrightarrow> (\<exists>p \<in> set (sub_search_rejections svc m embedding config).
                   searchMultiVector svc m query config = Inl (snd p)))
    \<and> (\<forall>t e. (t, e) \<in> set (sub_search_rejections svc m embedding config)
              \<and> (\<forall>p \<in> set (sub_search_rejections svc m embedding config).
                     p \<noteq> (t, e) \<longrightarrow> t < fst p)
            \<longrightarrow> searchMultiVector svc m query config = Inl e)
    \<and> (\<forall>e ts xs. searchFigureVectors svc m embedding config = Inl e
              \<and> searchTableVectors svc m embedding config = Inr ts
              \<and> searchTextVectors svc embedding = Inr xs
            \<longrightarrow> searchMultiVector svc m query config = Inl e)
    \<and> (\<forall>res. searchMultiVector svc m query config = Inr res
            \<longrightarrow> resp_error (select_figures svc embedding (figure_filters config)) = None
              \<and> resp_error (select_table_vectors svc embedding) = None
              \<and> resp_error (select_text_chunks svc embedding) = None)"
proof -
  let ?R = "sub_search_rejections svc m embedding config"
  have a: "\<forall>e. resp_error (select_figures svc embedding (figure_filters config)) = Some e
            \<longrightarrow> (figures_settle_at svc embedding config, e) \<in> set ?R"
    by (simp add: sub_search_rejections_def rejection_def searchFigureVectors_error)
  have b: "\<forall>e. resp_error (select_table_vectors svc embedding) = Some e
            \<longrightarrow> (tables_settle_at svc embedding, e) \<in> set ?R"
    by (simp add: sub_search_rejections_def rejection_def searchTableVectors_error)
  have c: "\<forall>e. resp_error (select_text_chunks svc embedding) = Some e
            \<longrightarrow> (texts_settle_at svc embedding, e) \<in> set ?R"
    by (simp add: sub_search_rejections_def rejection_def searchTextVectors_error)
  have d: "?R \<noteq> [] \<longrightarrow> (\<exists>p \<in> set ?R. searchMultiVector svc m query config = Inl (snd p))"
  proof
    assume ne: "?R \<noteq> []"
    from first_rejection_in [OF ne] searchMultiVector_rejects [OF assms ne]
    show "\<exists>p \<in> set ?R. searchMultiVector svc m query config = Inl (snd p)" by auto
  qed
  have e: "\<forall>t e. (t, e) \<in> set ?R \<and> (\<forall>p \<in> set ?R. p \<noteq> (t, e) \<longrightarrow> t < fst p)
            \<longrightarrow> searchMultiVector svc m query config = Inl e"
  proof (intro allI impI, elim conjE)
    fix t e
    assume in_R: "(t, e) \<in> set ?R" and first: "\<forall>p \<in> set ?R. p \<noteq> (t, e) \<longrightarrow> t < fst p"
    from in_R have ne: "?R \<noteq> []" by auto
    from searchMultiVector_rejects [OF assms ne] first_rejection_earliest [OF in_R first]
    show "searchMultiVector svc m query config = Inl e" by simp
  qed
  have f: "\<forall>e ts xs. searchFigureVectors svc m embedding config = Inl e
              \<and> searchTableVectors svc m embedding config = Inr ts
              \<and> searchTextVectors svc embedding = Inr xs
            \<longrightarrow> searchMultiVector svc m query config = Inl e"
  proof (intro allI impI, elim conjE)
    fix e ts xs
    assume "searchFigureVectors svc m embedding config = Inl e"
      "searchTableVectors svc m embedding config = Inr ts"
      "searchTextVectors svc embedding = Inr xs"
    then have R: "?R = [(figures_settle_at svc embedding config, e)]"
      by (simp add: sub_search_rejections_def rejection_def)
    then have ne: "?R \<noteq> []" by simp
    from searchMultiVector_rejects [OF assms ne]
    show "searchMultiVector svc m query config = Inl e"
      by (simp add: R first_rejection_def)
  qed
  have g: "\<forall>res. searchMultiVector svc m query config = Inr res
            \<longrightarrow> resp_error (select_figures svc embedding (figure_filters config)) = None
              \<and> resp_error (select_table_vectors svc embedding) = None
              \<and> resp_error (select_text_chunks svc embedding) = None"
  proof (intro allI impI)
    fix res
    assume r: "searchMultiVector svc m query config = Inr res"
    then obtain p where "promise_all3
        (figures_settle_at svc embedding config, searchFigureVectors svc m embedding config)
        (tables_settle_at svc embedding, searchTableVectors svc m embedding config)
        (texts_settle_at svc embedding, searchTextVectors svc embedding) = Inr p"
      by (auto simp: searchMultiVector_def assms split: sum.splits)
    then obtain x y z where x: "searchFigureVectors svc m embedding config = Inr x"
      and y: "searchTableVectors svc m embedding config = Inr y"
      and z: "searchTextVectors svc embedding = Inr z"
      unfolding promise_all3_Inr by auto
    show "resp_error (select_figures svc embedding (figure_filters config)) = None
              \<and> resp_error (select_table_vectors svc embedding) = None
              \<and> resp_error (select_text_chunks svc embedding) = None"
      using searchFigureVectors_Inr [OF x] searchTableVectors_Inr [OF y]
        searchTextVectors_Inr [OF z] by simp
  qed
  from a b c d e f g show ?thesis by (intro conjI) assumption+
qed

theorem sub_search_failure_propagates_witness:
  "embeddings_create svc_fail ''aisle width'' = Inr (axis 1)
   \<and> sub_search_rejections svc_fail m0 (axis 1) None
       = [(3, PostgrestError ''no embedding index'')]
   \<and> searchMultiVector svc_fail m0 ''aisle width'' None
       = Inl (PostgrestError ''no embedding index'')
   \<and> embeddings_create svc_fail2 ''aisle width'' = Inr (axis 1)
   \<and> sub_search_rejections svc_fail2 m0 (axis 1) None
       = [(2, PostgrestError ''figures failed''), (1, PostgrestError ''tables failed'')]
   \<and> searchMultiVector svc_fail2 m0 ''aisle width'' None
       = Inl (PostgrestError ''tables failed'')"
proof -
  have a: "embeddings_create svc_fail ''aisle width'' = Inr (axis 1)"
    and a2: "embeddings_create svc_fail2 ''aisle width'' = Inr (axis 1)"
    by (simp_all add: svc_fail_def svc_fail2_def)
  have r: "sub_search_rejections svc_fail m0 (axis 1) None
       = [(3, PostgrestError ''no embedding index'')]"
    and r2: "sub_search_rejections svc_fail2 m0 (axis 1) None
       = [(2, PostgrestError ''figures failed''), (1, PostgrestError ''tables failed'')]"
    by (simp_all add: agent_defs agent_fixture_defs)
  note t = sub_search_failure_propagates [OF a, where m = m0 and config = None, THEN conjunct2, THEN conjunct2,
      THEN conjunct2, THEN conjunct2, THEN conjunct1, rule_format]
  note t2 = sub_search_failure_propagates [OF a2, where m = m0 and config = None, THEN conjunct2, THEN conjunct2,
      THEN conjunct2, THEN conjunct2, THEN conjunct1, rule_format]
  have s: "searchMultiVector svc_fail m0 ''aisle width'' None
       = Inl (PostgrestError ''no embedding index'')"
    by (rule t [of 3]) (simp add: r)
  have s2: "searchMultiVector svc_fail2 m0 ''aisle width'' None
       = Inl (PostgrestError ''tables failed'')"
    by (rule t2 [of 1]) (simp add: r2)
  from a r s a2 r2 s2 show ?thesis by (intro conjI) assumption+
qed

subsection \<open>The lexical candidates of the schema file\<close>

text \<open>The lexical sub-query of the schema file has the same \<^verbatim>\<open>WHERE\<close> clause as the
  one of \<^verbatim>\<open>sql/fix_fm_functions.sql\<close>: its candidates all match the query.\<close>

lemma schema_lexical_candidates_match:
  assumes "t \<in> set (schema_text_results pg db query_text asrs_topic_filter)"
  shows "ts_match (to_tsvector pg (m_content t)) (plainto_tsquery pg query_text)"
proof -
  from assms obtain j where "schema_text_matches pg query_text j"
    and "t = select_text_match pg query_text j"
    unfolding schema_text_results_def by auto
  then show ?thesis
    by (simp add: schema_text_matches_def select_text_match_def case_prod_beta)
qed

end
